theory Spec2Isabelle
  imports Main "HOL-Library.Word"
begin

unbundle bit_operations_syntax

section \<open>The packet DMA ring engine of the MediaTek Ethernet driver\<close>

text \<open>
  A shallow embedding of the ring engine of \<^verbatim>\<open>mtk_eth_soc.c\<close>. Every C function that
  is modelled keeps its name. Mutation of the driver structures is explicit state passing,
  values read from hardware registers and results of kernel services (bus mapping,
  allocation, the attached fast-path program) are inputs of the model, and the calls
  into the kernel that only have an effect (unmapping, freeing, returning a page to
  its pool) are recorded in logs carried by the state.
\<close>

type_synonym u32 = "32 word"
type_synonym u64 = "64 word"
type_synonym dma_addr_t = "64 word"

subsection \<open>The fast-path hook: \<^verbatim>\<open>mtk_xdp_run\<close>\<close>

text \<open>
  The verdict of the attached program is a 32-bit value; the five known verdicts are
  the values of the kernel's \<^verbatim>\<open>enum xdp_action\<close>.
\<close>

definition XDP_ABORTED :: u32 where "XDP_ABORTED = 0"
definition XDP_DROP :: u32 where "XDP_DROP = 1"
definition XDP_PASS :: u32 where "XDP_PASS = 2"
definition XDP_TX :: u32 where "XDP_TX = 3"
definition XDP_REDIRECT :: u32 where "XDP_REDIRECT = 4"

record xdp_stats =
  rx_xdp_redirect :: u64
  rx_xdp_pass :: u64
  rx_xdp_drop :: u64
  rx_xdp_tx :: u64
  rx_xdp_tx_errors :: u64

text \<open>The local \<^verbatim>\<open>u64 *count\<close> selects one of the five counters.\<close>

datatype xdp_counter = Cnt_redirect | Cnt_pass | Cnt_drop | Cnt_tx | Cnt_tx_errors

fun count_incr :: "xdp_counter \<Rightarrow> xdp_stats \<Rightarrow> xdp_stats" where
  "count_incr Cnt_redirect s = s\<lparr>rx_xdp_redirect := rx_xdp_redirect s + 1\<rparr>"
| "count_incr Cnt_pass s = s\<lparr>rx_xdp_pass := rx_xdp_pass s + 1\<rparr>"
| "count_incr Cnt_drop s = s\<lparr>rx_xdp_drop := rx_xdp_drop s + 1\<rparr>"
| "count_incr Cnt_tx s = s\<lparr>rx_xdp_tx := rx_xdp_tx s + 1\<rparr>"
| "count_incr Cnt_tx_errors s = s\<lparr>rx_xdp_tx_errors := rx_xdp_tx_errors s + 1\<rparr>"

fun count_read :: "xdp_counter \<Rightarrow> xdp_stats \<Rightarrow> u64" where
  "count_read Cnt_redirect s = rx_xdp_redirect s"
| "count_read Cnt_pass s = rx_xdp_pass s"
| "count_read Cnt_drop s = rx_xdp_drop s"
| "count_read Cnt_tx s = rx_xdp_tx s"
| "count_read Cnt_tx_errors s = rx_xdp_tx_errors s"

definition verdict_total :: "xdp_stats \<Rightarrow> u64" where
  "verdict_total s =
     rx_xdp_pass s + rx_xdp_drop s + rx_xdp_redirect s + rx_xdp_tx s + rx_xdp_tx_errors s"

text \<open>
  What one invocation of the hook gets from outside: the attached program (\<open>None\<close>
  when \<^verbatim>\<open>eth->prog\<close> is null, otherwise the verdict \<^verbatim>\<open>bpf_prog_run_xdp\<close>
  returns), whether \<^verbatim>\<open>xdp_do_redirect\<close> fails, whether
  \<^verbatim>\<open>xdp_convert_buff_to_frame\<close> returns null, and whether
  \<^verbatim>\<open>mtk_xdp_submit_frame\<close> returns non-zero. The submission itself is modelled
  below; it does not touch the counters.
\<close>

record xdp_env =
  prog :: "u32 option"
  redirect_fails :: bool
  xdpf_null :: bool
  submit_fails :: bool

record xdp_state =
  stats :: xdp_stats
  pool_returned :: nat  \<comment> \<open>calls of \<^verbatim>\<open>page_pool_put_full_page\<close> by the hook\<close>

definition put_page_and_count :: "xdp_counter \<Rightarrow> xdp_state \<Rightarrow> xdp_state" where
  "put_page_and_count c s =
     s\<lparr>pool_returned := pool_returned s + 1, stats := count_incr c (stats s)\<rparr>"

definition update_stats :: "xdp_counter \<Rightarrow> xdp_state \<Rightarrow> xdp_state" where
  "update_stats c s = s\<lparr>stats := count_incr c (stats s)\<rparr>"

definition mtk_xdp_run :: "xdp_env \<Rightarrow> xdp_state \<Rightarrow> u32 \<times> xdp_state" where
  "mtk_xdp_run env s =
     (case prog env of
        None \<Rightarrow> (XDP_PASS, s)
      | Some act \<Rightarrow>
          if act = XDP_PASS then (act, update_stats Cnt_pass s)
          else if act = XDP_REDIRECT then
            (if redirect_fails env then (XDP_DROP, put_page_and_count Cnt_drop s)
             else (act, update_stats Cnt_redirect s))
          else if act = XDP_TX then
            (if xdpf_null env \<or> submit_fails env
             then (XDP_DROP, put_page_and_count Cnt_tx_errors s)
             else (act, update_stats Cnt_tx s))
          else (act, put_page_and_count Cnt_drop s))"

text \<open>A window of invocations, each with its own outside inputs.\<close>

fun xdp_run_window :: "xdp_env list \<Rightarrow> xdp_state \<Rightarrow> xdp_state" where
  "xdp_run_window [] s = s"
| "xdp_run_window (e # es) s = xdp_run_window es (snd (mtk_xdp_run e s))"

definition known_verdicts :: "u32 set" where
  "known_verdicts = {XDP_ABORTED, XDP_DROP, XDP_PASS, XDP_TX, XDP_REDIRECT}"

text \<open>
  Concrete inputs: an unknown verdict, a local retransmit whose submission fails, and a
  pass verdict.
\<close>

definition xdp_state0 :: xdp_state where
  "xdp_state0 = \<lparr>stats = \<lparr>rx_xdp_redirect = 0, rx_xdp_pass = 0, rx_xdp_drop = 0,
                          rx_xdp_tx = 0, rx_xdp_tx_errors = 0\<rparr>, pool_returned = 0\<rparr>"

definition xdp_env_invalid :: xdp_env where
  "xdp_env_invalid = \<lparr>prog = Some 9, redirect_fails = False, xdpf_null = False,
                      submit_fails = False\<rparr>"

definition xdp_env_tx_fail :: xdp_env where
  "xdp_env_tx_fail = \<lparr>prog = Some XDP_TX, redirect_fails = False, xdpf_null = False,
                      submit_fails = True\<rparr>"

definition xdp_env_pass :: xdp_env where
  "xdp_env_pass = \<lparr>prog = Some XDP_PASS, redirect_fails = False, xdpf_null = False,
                   submit_fails = False\<rparr>"

subsection \<open>The hang detector: \<^verbatim>\<open>mtk_hw_check_dma_hang\<close>\<close>

definition GENMASK :: "nat \<Rightarrow> nat \<Rightarrow> u32" where
  "GENMASK h l = push_bit l (mask (h + 1 - l))"

definition BIT :: "nat \<Rightarrow> u32" where
  "BIT n = push_bit n 1"

text \<open>
  The two bit masks of \<^verbatim>\<open>mtk_eth_soc.h\<close> the detector tests. The header is not
  among the sources, so the masks are parameters.
\<close>

record hang_defs =
  MTK_TX_DMA_BUSY :: u32
  MTK_CDM_TXFIFO_RDY :: u32

text \<open>
  One field for each \<^verbatim>\<open>mtk_r32\<close> of the function, in program order. The register
  \<^verbatim>\<open>pse_oq_sta\<close> is read twice and \<^verbatim>\<open>adma_rx_dbg0\<close> twice; each read has its
  own field.
\<close>

record hang_regs =
  r_wdma_0c :: u32
  r_wdma_204 :: u32
  r_wdma_230 :: u32
  r_pse_oq_sta :: u32
  r_pse_oq_sta_4 :: u32
  r_pse_oq_sta_10 :: u32
  r_qtx_cfg_234 :: u32
  r_qtx_cfg_308 :: u32
  r_gdm1_fsm :: u32
  r_gdm2_fsm :: u32
  r_mac_fsm0 :: u32
  r_mac_fsm1 :: u32
  r_gdm1_fc :: u32
  r_gdm2_fc :: u32
  r_pse_oq_sta_again :: u32
  r_cdm1_fsm :: u32
  r_adma_rx_dbg0 :: u32
  r_adma_rx_dbg0_again :: u32

text \<open>
  \<^verbatim>\<open>eth->reset\<close>. The three counters never exceed 2 between checks (lemma
  \<open>hang_counts_bounded\<close>), so their width plays no role and they are natural numbers.
\<close>

record mtk_reset =
  wdidx :: u32
  wdma_hang_count :: nat
  qdma_hang_count :: nat
  adma_hang_count :: nat

definition FIELD_GET :: "u32 \<Rightarrow> nat \<Rightarrow> u32 \<Rightarrow> u32" where
  \<comment> \<open>\<^verbatim>\<open>FIELD_GET(GENMASK(h, l), v)\<close> is \<open>FIELD_GET (GENMASK h l) l v\<close>\<close>
  "FIELD_GET m l v = drop_bit l (v AND m)"

definition wdma_cond :: "hang_defs \<Rightarrow> mtk_reset \<Rightarrow> hang_regs \<Rightarrow> bool" where
  "wdma_cond d rs r =
     (let wdidx' = r_wdma_0c r;
          wtx_busy = (r_wdma_204 r AND MTK_TX_DMA_BUSY d \<noteq> 0);
          cdm_full = \<not> (r_wdma_230 r AND MTK_CDM_TXFIFO_RDY d \<noteq> 0);
          oq_free = (r_pse_oq_sta r AND GENMASK 24 16 = 0 \<and>
                     r_pse_oq_sta_4 r AND GENMASK 8 0 = 0 \<and>
                     r_pse_oq_sta_10 r AND GENMASK 24 16 = 0)
      in wdidx' = wdidx rs \<and> wtx_busy \<and> cdm_full \<and> oq_free)"

definition qdma_cond :: "hang_regs \<Rightarrow> bool" where
  "qdma_cond r =
     (let qfsm_hang = (r_qtx_cfg_234 r \<noteq> 0);
          qfwd_hang = (r_qtx_cfg_308 r = 0);
          gdm1_tx = (0 < FIELD_GET (GENMASK 31 16) 16 (r_gdm1_fsm r));
          gdm2_tx = (0 < FIELD_GET (GENMASK 31 16) 16 (r_gdm2_fsm r));
          gmac1_tx = (FIELD_GET (GENMASK 31 24) 24 (r_mac_fsm0 r) \<noteq> 1);
          gmac2_tx = (FIELD_GET (GENMASK 31 24) 24 (r_mac_fsm1 r) \<noteq> 1);
          gdm1_fc = r_gdm1_fc r;
          gdm2_fc = r_gdm2_fc r
      in qfsm_hang \<and> qfwd_hang \<and>
         ((gdm1_tx \<and> gmac1_tx \<and> gdm1_fc < 1) \<or> (gdm2_tx \<and> gmac2_tx \<and> gdm2_fc < 1)))"

definition adma_cond :: "hang_regs \<Rightarrow> bool" where
  "adma_cond r =
     (let oq_hang = (r_pse_oq_sta_again r AND GENMASK 8 0 \<noteq> 0);
          cdm1_busy = (r_cdm1_fsm r AND GENMASK 31 16 \<noteq> 0);
          adma_busy = (r_adma_rx_dbg0 r AND GENMASK 4 0 = 0 \<and>
                       r_adma_rx_dbg0_again r AND BIT 6 = 0)
      in oq_hang \<and> cdm1_busy \<and> adma_busy)"

definition mtk_hw_check_dma_hang ::
  "hang_defs \<Rightarrow> bool \<Rightarrow> hang_regs \<Rightarrow> mtk_reset \<Rightarrow> bool \<times> mtk_reset" where
  "mtk_hw_check_dma_hang d soc_mt7628 r rs =
     (if soc_mt7628 then (False, rs)
      else if wdma_cond d rs r then
        (let n = wdma_hang_count rs + 1 in
         if n > 2 then (True, rs\<lparr>wdma_hang_count := 0, wdidx := r_wdma_0c r\<rparr>)
         else (False, rs\<lparr>wdma_hang_count := n, wdidx := r_wdma_0c r\<rparr>))
      else if qdma_cond r then
        (let n = qdma_hang_count rs + 1 in
         if n > 2 then (True, rs\<lparr>qdma_hang_count := 0, wdidx := r_wdma_0c r\<rparr>)
         else (False, rs\<lparr>qdma_hang_count := n, wdidx := r_wdma_0c r\<rparr>))
      else if adma_cond r then
        (let n = adma_hang_count rs + 1 in
         if n > 2 then (True, rs\<lparr>adma_hang_count := 0, wdidx := r_wdma_0c r\<rparr>)
         else (False, rs\<lparr>adma_hang_count := n, wdidx := r_wdma_0c r\<rparr>))
      else (False, rs\<lparr>wdma_hang_count := 0, qdma_hang_count := 0,
                       adma_hang_count := 0, wdidx := r_wdma_0c r\<rparr>))"

text \<open>
  The periodic monitor: one check per element of the list of register readings; the
  result lists the verdict of each check, oldest first.
\<close>

fun hang_checks ::
  "hang_defs \<Rightarrow> hang_regs list \<Rightarrow> mtk_reset \<Rightarrow> bool list \<times> mtk_reset" where
  "hang_checks d [] rs = ([], rs)"
| "hang_checks d (r # rest) rs =
     (let (v, rs') = mtk_hw_check_dma_hang d False r rs;
          (vs, rs'') = hang_checks d rest rs'
      in (v # vs, rs''))"

text \<open>
  Which signature a check counts: the first, in the order bridging DMA, queue DMA,
  reassembly DMA, whose condition holds.
\<close>

datatype signature = Sig_wdma | Sig_qdma | Sig_adma

definition fired :: "hang_defs \<Rightarrow> mtk_reset \<Rightarrow> hang_regs \<Rightarrow> signature option" where
  "fired d rs r =
     (if wdma_cond d rs r then Some Sig_wdma
      else if qdma_cond r then Some Sig_qdma
      else if adma_cond r then Some Sig_adma
      else None)"

fun hang_count :: "signature \<Rightarrow> mtk_reset \<Rightarrow> nat" where
  "hang_count Sig_wdma rs = wdma_hang_count rs"
| "hang_count Sig_qdma rs = qdma_hang_count rs"
| "hang_count Sig_adma rs = adma_hang_count rs"

text \<open>How often a signature is the counted one during a sequence of checks.\<close>

fun fired_times :: "hang_defs \<Rightarrow> signature \<Rightarrow> hang_regs list \<Rightarrow> mtk_reset \<Rightarrow> nat" where
  "fired_times d sg [] rs = 0"
| "fired_times d sg (r # rest) rs =
     (if fired d rs r = Some sg then 1 else 0) +
     fired_times d sg rest (snd (mtk_hw_check_dma_hang d False r rs))"

text \<open>
  Concrete register readings: all registers zero (no signature), the bridging-DMA
  signature alone, the queue-DMA signature alone. The two masks have the positions
  the driver's header gives them.
\<close>

definition hang_defs0 :: hang_defs where
  "hang_defs0 = \<lparr>MTK_TX_DMA_BUSY = BIT 1, MTK_CDM_TXFIFO_RDY = BIT 7\<rparr>"

definition regs_idle :: hang_regs where
  "regs_idle = \<lparr>r_wdma_0c = 0, r_wdma_204 = 0, r_wdma_230 = 0, r_pse_oq_sta = 0,
     r_pse_oq_sta_4 = 0, r_pse_oq_sta_10 = 0, r_qtx_cfg_234 = 0, r_qtx_cfg_308 = 0,
     r_gdm1_fsm = 0, r_gdm2_fsm = 0, r_mac_fsm0 = 0, r_mac_fsm1 = 0, r_gdm1_fc = 0,
     r_gdm2_fc = 0, r_pse_oq_sta_again = 0, r_cdm1_fsm = 0, r_adma_rx_dbg0 = 0,
     r_adma_rx_dbg0_again = 0\<rparr>"

definition regs_wdma :: hang_regs where
  "regs_wdma = regs_idle\<lparr>r_wdma_204 := 2\<rparr>"

definition regs_qdma :: hang_regs where
  "regs_qdma = regs_idle\<lparr>r_qtx_cfg_234 := 1, r_gdm1_fsm := 0x10000\<rparr>"

definition reset0 :: mtk_reset where
  "reset0 = \<lparr>wdidx = 0, wdma_hang_count = 0, qdma_hang_count = 0, adma_hang_count = 0\<rparr>"

subsection \<open>The poll scheduler: \<^verbatim>\<open>mtk_napi_tx\<close> and \<^verbatim>\<open>mtk_napi_rx\<close>\<close>






subsection \<open>The transmit ring: data\<close>

text \<open>
  A descriptor pointer is modelled by the index of its slot, and so is the bus address
  of a descriptor: \<^verbatim>\<open>ring->phys + i * desc_size\<close> is \<open>i\<close>. With that,
  \<^verbatim>\<open>mtk_qdma_phys_to_virt\<close>, \<^verbatim>\<open>mtk_desc_to_tx_buf\<close>,
  \<^verbatim>\<open>qdma_to_pdma\<close> and \<^verbatim>\<open>txd_to_idx\<close> are the identity on indices. The word
  \<^verbatim>\<open>txd2\<close> of a descriptor of \<^verbatim>\<open>ring->dma\<close> holds the address of the next
  descriptor of the chain, hence an index. The words \<^verbatim>\<open>txd4\<close> to \<^verbatim>\<open>txd8\<close>
  carry port, queue and offload tags which no ring operation reads back; they are
  left out.
\<close>

record mtk_tx_dma =
  txd1 :: u32
  txd2 :: nat
  txd3 :: u32

text \<open>The hardware-visible descriptors of the legacy ring, \<^verbatim>\<open>ring->dma_pdma\<close>.\<close>

record mtk_pdma_desc =
  p_txd1 :: u32
  p_txd2 :: u32
  p_txd3 :: u32

record sk_buff =
  skb_len :: nat
  headlen :: nat            \<comment> \<open>\<^verbatim>\<open>skb_headlen\<close>\<close>
  data_len :: nat           \<comment> \<open>\<^verbatim>\<open>skb_is_nonlinear\<close> is \<open>data_len \<noteq> 0\<close>\<close>
  frags :: "nat list"       \<comment> \<open>\<^verbatim>\<open>skb_frag_size\<close> of each fragment\<close>
  gso_size :: nat           \<comment> \<open>\<^verbatim>\<open>skb_is_gso\<close> is \<open>gso_size \<noteq> 0\<close>\<close>
  gso_tcp :: bool           \<comment> \<open>\<^verbatim>\<open>gso_type & (SKB_GSO_TCPV4 | SKB_GSO_TCPV6)\<close>\<close>
  csum_partial :: bool
  vlan_present :: bool
  vlan_tci :: nat
  queue_mapping :: nat

text \<open>
  A fast-path frame. The frame's has-fragments flag is taken to be set exactly when its
  shared info lists fragments.
\<close>

record xdp_frame =
  xdpf_len :: nat
  xdpf_frags :: "nat list"

datatype packet = Skb sk_buff | Xdpf xdp_frame

text \<open>\<^verbatim>\<open>tx_buf->data\<close>: null, the dummy sentinel, or a packet or frame object.\<close>

datatype buf_data = NULL | MTK_DMA_DUMMY_DESC | Ptr packet

datatype mtk_tx_buf_type = MTK_TYPE_SKB | MTK_TYPE_XDP_TX | MTK_TYPE_XDP_NDO

datatype tx_flag = MTK_TX_FLAGS_SINGLE0 | MTK_TX_FLAGS_PAGE0

record mtk_tx_buf =
  buf_type :: mtk_tx_buf_type
  data :: buf_data
  mac_id :: nat
  flags :: "tx_flag set"
  dma_addr0 :: dma_addr_t
  dma_len0 :: nat
  dma_addr1 :: dma_addr_t
  dma_len1 :: nat

definition zero_tx_buf :: mtk_tx_buf where
  \<comment> \<open>\<^verbatim>\<open>memset(tx_buf, 0, sizeof(*tx_buf))\<close>; \<^verbatim>\<open>MTK_TYPE_SKB\<close> is the enum's first value\<close>
  "zero_tx_buf = \<lparr>buf_type = MTK_TYPE_SKB, data = NULL, mac_id = 0, flags = {},
                    dma_addr0 = 0, dma_len0 = 0, dma_addr1 = 0, dma_len1 = 0\<rparr>"

record mtk_tx_ring =
  dma :: "nat \<Rightarrow> mtk_tx_dma"
  dma_pdma :: "nat \<Rightarrow> mtk_pdma_desc"
  buf :: "nat \<Rightarrow> mtk_tx_buf"
  dma_size :: nat
  next_free :: nat
  last_free :: nat
  last_free_ptr :: nat
  cpu_idx :: nat
  free_count :: int
  thresh :: int

text \<open>Calls into the bus-mapping layer and releases of packet objects, in program order.\<close>

datatype dma_event =
    Map_single dma_addr_t nat
  | Map_page dma_addr_t nat
  | Unmap_single dma_addr_t nat
  | Unmap_page dma_addr_t nat

record mtk_eth =
  tx_ring :: mtk_tx_ring
  resetting :: bool                \<comment> \<open>\<^verbatim>\<open>test_bit(MTK_RESETTING, &eth->state)\<close>\<close>
  netdev_present :: "nat \<Rightarrow> bool"  \<comment> \<open>\<^verbatim>\<open>eth->netdev[mac]\<close> is not null\<close>
  queues_stopped :: bool
  tx_dropped :: nat
  tx_packets :: nat
  tx_bytes :: nat
  dma_log :: "dma_event list"
  released :: "packet list"        \<comment> \<open>packets and frames handed back to the kernel\<close>
  sent_queue :: "(nat \<times> nat) list"  \<comment> \<open>\<^verbatim>\<open>netdev_tx_sent_queue\<close>: queue, bytes\<close>
  completed_queue :: "((nat \<times> nat) \<times> nat \<times> nat) list"
  ctx_doorbell :: "nat list"       \<comment> \<open>values written to the transmit index register\<close>
  crx_doorbell :: "nat list"       \<comment> \<open>values written to \<^verbatim>\<open>qdma.crx_ptr\<close>\<close>

text \<open>
  Macros of \<^verbatim>\<open>mtk_eth_soc.h\<close> and of the kernel configuration that the transmit
  path uses. The header is not among the sources, so they are parameters.
\<close>

record tx_defs =
  TX_DMA_OWNER_CPU :: u32
  TX_DMA_LS0 :: u32
  TX_DMA_LS1 :: u32
  TX_DMA_SWC :: u32
  TX_DMA_DESP2_DEF :: u32
  TX_DMA_PLEN0 :: "nat \<Rightarrow> u32"
  TX_DMA_PLEN1 :: "nat \<Rightarrow> u32"
  TX_DMA_PQID :: "nat \<Rightarrow> u32"      \<comment> \<open>\<^verbatim>\<open>FIELD_PREP(TX_DMA_PQID, qid)\<close>\<close>
  TX_DMA_PREP_ADDR64 :: "dma_addr_t \<Rightarrow> u32"
  MTK_QDMA_RING_SIZE :: nat
  MAX_SKB_FRAGS :: int

record mtk_soc_data =
  caps_qdma :: bool            \<comment> \<open>\<^verbatim>\<open>MTK_HAS_CAPS(soc->caps, MTK_QDMA)\<close>\<close>
  caps_36bit_dma :: bool       \<comment> \<open>\<^verbatim>\<open>MTK_HAS_CAPS(soc->caps, MTK_36BIT_DMA)\<close>\<close>
  netsys_v2_or_greater :: bool
  tx_dma_max_len :: nat        \<comment> \<open>\<^verbatim>\<open>soc->tx.dma_max_len\<close>\<close>
  tx_dma_size :: nat           \<comment> \<open>\<^verbatim>\<open>soc->tx.dma_size\<close>\<close>

definition DMA_MAPPING_ERROR :: dma_addr_t where
  "DMA_MAPPING_ERROR = - 1"

definition dma_mapping_error :: "dma_addr_t \<Rightarrow> bool" where
  "dma_mapping_error a = (a = DMA_MAPPING_ERROR)"

definition ENOMEM :: int where "ENOMEM = 12"
definition EBUSY :: int where "EBUSY = 16"

datatype netdev_tx = NETDEV_TX_OK | NETDEV_TX_BUSY

text \<open>
  What a submission gets from outside: the bus address each mapping call returns
  (\<open>DMA_MAPPING_ERROR\<close> when it fails; a fragment mapping is identified by the fragment's
  index and the offset in it), whether \<^verbatim>\<open>skb_cow_head\<close> fails, and whether the
  doorbell condition \<^verbatim>\<open>netif_xmit_stopped(txq) || !netdev_xmit_more()\<close> holds.
\<close>

record tx_env =
  map_head :: dma_addr_t
  map_frag :: "nat \<Rightarrow> nat \<Rightarrow> dma_addr_t"
  cow_head_fails :: bool
  kick :: bool

record mtk_tx_dma_desc_info =
  i_addr :: dma_addr_t
  i_size :: nat
  i_vlan_tci :: nat
  i_qid :: nat
  i_gso :: bool
  i_csum :: bool
  i_vlan :: bool
  i_first :: bool
  i_last :: bool

definition zero_desc_info :: mtk_tx_dma_desc_info where
  "zero_desc_info = \<lparr>i_addr = 0, i_size = 0, i_vlan_tci = 0, i_qid = 0, i_gso = False,
                       i_csum = False, i_vlan = False, i_first = False, i_last = False\<rparr>"

subsection \<open>The transmit ring: operations\<close>

definition upd_dma :: "nat \<Rightarrow> (mtk_tx_dma \<Rightarrow> mtk_tx_dma) \<Rightarrow> mtk_eth \<Rightarrow> mtk_eth" where
  "upd_dma i f e =
     e\<lparr>tx_ring := (tx_ring e)\<lparr>dma := (dma (tx_ring e))(i := f (dma (tx_ring e) i))\<rparr>\<rparr>"

definition upd_pdma :: "nat \<Rightarrow> (mtk_pdma_desc \<Rightarrow> mtk_pdma_desc) \<Rightarrow> mtk_eth \<Rightarrow> mtk_eth" where
  "upd_pdma i f e =
     e\<lparr>tx_ring := (tx_ring e)\<lparr>dma_pdma :=
          (dma_pdma (tx_ring e))(i := f (dma_pdma (tx_ring e) i))\<rparr>\<rparr>"

definition upd_buf :: "nat \<Rightarrow> (mtk_tx_buf \<Rightarrow> mtk_tx_buf) \<Rightarrow> mtk_eth \<Rightarrow> mtk_eth" where
  "upd_buf i f e =
     e\<lparr>tx_ring := (tx_ring e)\<lparr>buf := (buf (tx_ring e))(i := f (buf (tx_ring e) i))\<rparr>\<rparr>"

definition log_dma :: "dma_event \<Rightarrow> mtk_eth \<Rightarrow> mtk_eth" where
  "log_dma ev e = e\<lparr>dma_log := dma_log e @ [ev]\<rparr>"

definition NEXT_DESP_IDX :: "nat \<Rightarrow> nat \<Rightarrow> nat" where
  "NEXT_DESP_IDX x y = (x + 1) AND (y - 1)"

text \<open>
  \<^verbatim>\<open>mtk_tx_unmap\<close> on the buffer metadata of slot \<open>i\<close>. The bulk queue and the
  \<^verbatim>\<open>napi\<close> flag only select which kernel function releases the object; the
  release is logged either way.
\<close>

definition mtk_tx_unmap :: "mtk_soc_data \<Rightarrow> nat \<Rightarrow> mtk_eth \<Rightarrow> mtk_eth" where
  "mtk_tx_unmap soc i e =
     (let b = buf (tx_ring e) i;
          e1 = (if caps_qdma soc then
                  (if MTK_TX_FLAGS_SINGLE0 \<in> flags b
                     then log_dma (Unmap_single (dma_addr0 b) (dma_len0 b)) e
                   else if MTK_TX_FLAGS_PAGE0 \<in> flags b
                     then log_dma (Unmap_page (dma_addr0 b) (dma_len0 b)) e
                   else e)
                else
                  (let e0 = (if dma_len0 b \<noteq> 0
                               then log_dma (Unmap_page (dma_addr0 b) (dma_len0 b)) e else e)
                   in if dma_len1 b \<noteq> 0
                        then log_dma (Unmap_page (dma_addr1 b) (dma_len1 b)) e0 else e0));
          e2 = (case data b of
                  Ptr p \<Rightarrow> e1\<lparr>released := released e1 @ [p]\<rparr>
                | _ \<Rightarrow> e1)
      in upd_buf i (\<lambda>b. b\<lparr>flags := {}, data := NULL\<rparr>) e2)"

definition setup_tx_buf ::
  "tx_defs \<Rightarrow> mtk_soc_data \<Rightarrow> nat \<Rightarrow> dma_addr_t \<Rightarrow> nat \<Rightarrow> nat \<Rightarrow> mtk_eth \<Rightarrow> mtk_eth" where
  "setup_tx_buf d soc i mapped_addr sz idx e =
     (if caps_qdma soc then
        upd_buf i (\<lambda>b. b\<lparr>dma_addr0 := mapped_addr, dma_len0 := sz\<rparr>) e
      else if odd idx then
        upd_buf i (\<lambda>b. b\<lparr>dma_addr1 := mapped_addr, dma_len1 := sz\<rparr>)
          (upd_pdma i (\<lambda>t. t\<lparr>p_txd3 := ucast mapped_addr,
                               p_txd2 := p_txd2 t OR TX_DMA_PLEN1 d sz\<rparr>) e)
      else
        upd_buf i (\<lambda>b. b\<lparr>data := MTK_DMA_DUMMY_DESC, dma_addr0 := mapped_addr,
                           dma_len0 := sz\<rparr>)
          (upd_pdma i (\<lambda>t. t\<lparr>p_txd1 := ucast mapped_addr, p_txd2 := TX_DMA_PLEN0 d sz\<rparr>) e))"

definition mtk_tx_set_dma_desc_v1 ::
  "tx_defs \<Rightarrow> mtk_tx_dma_desc_info \<Rightarrow> mtk_tx_dma \<Rightarrow> mtk_tx_dma" where
  "mtk_tx_set_dma_desc_v1 d info desc =
     desc\<lparr>txd1 := ucast (i_addr info),
          txd3 := TX_DMA_SWC d OR TX_DMA_PLEN0 d (i_size info) OR TX_DMA_PQID d (i_qid info) OR
                  (if i_last info then TX_DMA_LS0 d else 0)\<rparr>"

definition mtk_tx_set_dma_desc_v2 ::
  "tx_defs \<Rightarrow> mtk_soc_data \<Rightarrow> mtk_tx_dma_desc_info \<Rightarrow> mtk_tx_dma \<Rightarrow> mtk_tx_dma" where
  "mtk_tx_set_dma_desc_v2 d soc info desc =
     desc\<lparr>txd1 := ucast (i_addr info),
          txd3 := TX_DMA_PLEN0 d (i_size info) OR
                  (if i_last info then TX_DMA_LS0 d else 0) OR
                  (if caps_36bit_dma soc then TX_DMA_PREP_ADDR64 d (i_addr info) else 0)\<rparr>"

definition mtk_tx_set_dma_desc ::
  "tx_defs \<Rightarrow> mtk_soc_data \<Rightarrow> mtk_tx_dma_desc_info \<Rightarrow> mtk_tx_dma \<Rightarrow> mtk_tx_dma" where
  "mtk_tx_set_dma_desc d soc info desc =
     (if netsys_v2_or_greater soc then mtk_tx_set_dma_desc_v2 d soc info desc
      else mtk_tx_set_dma_desc_v1 d info desc)"

text \<open>
  \<^verbatim>\<open>mtk_tx_map\<close>. The state of the fragment loops is the driver state together with
  the locals \<^verbatim>\<open>txd\<close>, \<^verbatim>\<open>n_desc\<close> and \<^verbatim>\<open>k\<close>. The inner
  \<^verbatim>\<open>while (frag_size)\<close> loop has no bound of its own (its step is
  \<open>min frag_size dma_max_len\<close>), so it is a partial function: \<open>None\<close> is a loop that
  does not end. Its result is \<open>False\<close> when the C code jumps to \<^verbatim>\<open>err_dma\<close>.
\<close>

type_synonym tx_loop_state = "mtk_eth \<times> nat \<times> nat \<times> nat"

partial_function (option) mtk_tx_map_frag ::
  "tx_defs \<Rightarrow> mtk_soc_data \<Rightarrow> nat \<Rightarrow> tx_env \<Rightarrow> sk_buff \<Rightarrow> nat \<Rightarrow> nat \<Rightarrow> nat \<Rightarrow>
   tx_loop_state \<Rightarrow> (bool \<times> tx_loop_state) option" where
  "mtk_tx_map_frag d soc mac env skb i frag_size offset st =
     (case st of (e, txd, n_desc, k) \<Rightarrow>
        if frag_size = 0 then Some (True, st)
        else
          let new_desc = (caps_qdma soc \<or> odd i);
              txd' = (if new_desc then txd2 (dma (tx_ring e) txd) else txd)
          in if new_desc \<and> txd' = last_free (tx_ring e)
             then Some (False, (e, txd', n_desc, k))
             else
               let n_desc' = (if new_desc then n_desc + 1 else n_desc);
                   sz = min frag_size (tx_dma_max_len soc);
                   info = zero_desc_info\<lparr>
                     i_size := sz,
                     i_qid := queue_mapping skb,
                     i_last := (i = length (frags skb) - 1 \<and> frag_size - sz = 0),
                     i_addr := map_frag env i offset\<rparr>
               in if dma_mapping_error (i_addr info)
                  then Some (False, (e, txd', n_desc', k))
                  else
                    let e1 = log_dma (Map_page (i_addr info) sz) e;
                        e2 = upd_dma txd' (mtk_tx_set_dma_desc d soc info) e1;
                        e3 = upd_buf txd'
                               (\<lambda>b. (if new_desc then zero_tx_buf else b)
                                      \<lparr>data := MTK_DMA_DUMMY_DESC,
                                       flags := insert MTK_TX_FLAGS_PAGE0
                                                  (flags (if new_desc then zero_tx_buf else b)),
                                       mac_id := mac\<rparr>) e2;
                        e4 = setup_tx_buf d soc txd' (i_addr info) sz k e3
                    in mtk_tx_map_frag d soc mac env skb i (frag_size - sz) (offset + sz)
                         (e4, txd', n_desc', k + 1))"

declare mtk_tx_map_frag.simps [code]

text \<open>The \<^verbatim>\<open>for\<close> loop over the fragments, from fragment \<open>i\<close> on.\<close>

fun mtk_tx_map_frags ::
  "tx_defs \<Rightarrow> mtk_soc_data \<Rightarrow> nat \<Rightarrow> tx_env \<Rightarrow> sk_buff \<Rightarrow> nat \<Rightarrow> nat list \<Rightarrow>
   tx_loop_state \<Rightarrow> (bool \<times> tx_loop_state) option" where
  "mtk_tx_map_frags d soc mac env skb i [] st = Some (True, st)"
| "mtk_tx_map_frags d soc mac env skb i (frag_size # rest) st =
     (case mtk_tx_map_frag d soc mac env skb i frag_size 0 st of
        None \<Rightarrow> None
      | Some (False, st') \<Rightarrow> Some (False, st')
      | Some (True, st') \<Rightarrow> mtk_tx_map_frags d soc mac env skb (i + 1) rest st')"

text \<open>
  The \<^verbatim>\<open>err_dma\<close> unwinding, a \<^verbatim>\<open>do ... while (itxd != txd)\<close> loop that follows
  the descriptor chain; it ends only if the chain from \<open>itxd\<close> reaches \<open>txd\<close>.
\<close>

partial_function (option) mtk_tx_map_err_dma ::
  "tx_defs \<Rightarrow> mtk_soc_data \<Rightarrow> nat \<Rightarrow> nat \<Rightarrow> mtk_eth \<Rightarrow> mtk_eth option" where
  "mtk_tx_map_err_dma d soc txd itxd e =
     (let e1 = mtk_tx_unmap soc itxd e;
          e2 = upd_dma itxd (\<lambda>t. t\<lparr>txd3 := TX_DMA_LS0 d OR TX_DMA_OWNER_CPU d\<rparr>) e1;
          e3 = (if \<not> caps_qdma soc
                  then upd_pdma itxd (\<lambda>t. t\<lparr>p_txd2 := TX_DMA_DESP2_DEF d\<rparr>) e2 else e2);
          itxd' = txd2 (dma (tx_ring e3) itxd)
      in if itxd' \<noteq> txd then mtk_tx_map_err_dma d soc txd itxd' e3 else Some e3)"

declare mtk_tx_map_err_dma.simps [code]

definition mtk_tx_map ::
  "tx_defs \<Rightarrow> mtk_soc_data \<Rightarrow> nat \<Rightarrow> tx_env \<Rightarrow> sk_buff \<Rightarrow> bool \<Rightarrow> mtk_eth \<Rightarrow>
   (int \<times> mtk_eth) option" where
  "mtk_tx_map d soc mac env skb gso e =
     (let txd_info = \<lparr>i_addr = 0, i_size = headlen skb, i_vlan_tci = vlan_tci skb,
                       i_qid = queue_mapping skb, i_gso = gso, i_csum = csum_partial skb,
                       i_vlan = vlan_present skb, i_first = True,
                       i_last = (data_len skb = 0)\<rparr>;
          itxd = next_free (tx_ring e)
      in if itxd = last_free (tx_ring e) then Some (- ENOMEM, e)
         else
           let e1 = upd_buf itxd (\<lambda>b. zero_tx_buf) e;
               txd_info = txd_info\<lparr>i_addr := map_head env\<rparr>
           in if dma_mapping_error (i_addr txd_info) then Some (- ENOMEM, e1)
              else
                let e2 = log_dma (Map_single (i_addr txd_info) (i_size txd_info)) e1;
                    e3 = upd_dma itxd (mtk_tx_set_dma_desc d soc txd_info) e2;
                    e4 = upd_buf itxd
                           (\<lambda>b. b\<lparr>flags := insert MTK_TX_FLAGS_SINGLE0 (flags b),
                                   mac_id := mac\<rparr>) e3;
                    e5 = setup_tx_buf d soc itxd (i_addr txd_info) (i_size txd_info) 0 e4
                in case mtk_tx_map_frags d soc mac env skb 0 (frags skb) (e5, itxd, 1, 1) of
                     None \<Rightarrow> None
                   | Some (False, (e6, txd, n_desc, k)) \<Rightarrow>
                       (case mtk_tx_map_err_dma d soc txd itxd e6 of
                          None \<Rightarrow> None
                        | Some e7 \<Rightarrow> Some (- ENOMEM, e7))
                   | Some (True, (e6, txd, n_desc, k)) \<Rightarrow>
                       let e7 = upd_buf itxd (\<lambda>b. b\<lparr>buf_type := MTK_TYPE_SKB,
                                                     data := Ptr (Skb skb)\<rparr>) e6;
                           e8 = (if \<not> caps_qdma soc then
                                   upd_pdma txd (\<lambda>t. t\<lparr>p_txd2 := p_txd2 t OR
                                     (if odd k then TX_DMA_LS0 d else TX_DMA_LS1 d)\<rparr>) e7
                                 else e7);
                           e9 = e8\<lparr>sent_queue := sent_queue e8 @ [(queue_mapping skb, skb_len skb)]\<rparr>;
                           nxt = txd2 (dma (tx_ring e9) txd);
                           e10 = e9\<lparr>tx_ring := (tx_ring e9)\<lparr>next_free := nxt,
                                     free_count := free_count (tx_ring e9) - int n_desc\<rparr>\<rparr>;
                           e11 = (if caps_qdma soc then
                                    (if kick env
                                       then e10\<lparr>ctx_doorbell := ctx_doorbell e10 @ [nxt]\<rparr>
                                     else e10)
                                  else e10\<lparr>ctx_doorbell := ctx_doorbell e10 @
                                         [NEXT_DESP_IDX txd (dma_size (tx_ring e10))]\<rparr>)
                       in Some (0, e11))"

text \<open>
  \<^verbatim>\<open>mtk_cal_txd_req\<close>. The kernel's \<^verbatim>\<open>DIV_ROUND_UP(n, d)\<close> is
  \<^verbatim>\<open>((n) + (d) - 1) / (d)\<close>; its arguments here are the \<^verbatim>\<open>unsigned int\<close>
  fragment size and the \<^verbatim>\<open>u32\<close> maximum length, so it is computed in unsigned
  32-bit arithmetic and the sum may wrap. The count \<^verbatim>\<open>nfrags\<close> is an
  \<^verbatim>\<open>int\<close>: adding an unsigned value to it is done modulo \<open>2^32\<close> and the
  result read as a signed value. The fragment count \<^verbatim>\<open>nr_frags\<close> is an 8-bit
  field, the length of the list of fragment sizes.
\<close>

definition DIV_ROUND_UP :: "u32 \<Rightarrow> u32 \<Rightarrow> u32" where
  "DIV_ROUND_UP n d = (n + d - 1) div d"

definition mtk_cal_txd_req :: "mtk_soc_data \<Rightarrow> sk_buff \<Rightarrow> int" where
  "mtk_cal_txd_req soc skb =
     sint (if gso_size skb \<noteq> 0
             then fold (\<lambda>frag nfrags.
                          nfrags + DIV_ROUND_UP (of_nat frag) (of_nat (tx_dma_max_len soc)))
                    (frags skb) (1 :: u32)
           else 1 + of_nat (length (frags skb)))"

text \<open>
  \<^verbatim>\<open>mtk_start_xmit\<close>. Writing the segment size into the TCP header of a segmented
  packet changes packet bytes only and is not modelled.
\<close>

definition tx_drop :: "sk_buff \<Rightarrow> mtk_eth \<Rightarrow> netdev_tx \<times> mtk_eth" where
  "tx_drop skb e =
     (NETDEV_TX_OK, e\<lparr>tx_dropped := tx_dropped e + 1, released := released e @ [Skb skb]\<rparr>)"

definition mtk_start_xmit ::
  "tx_defs \<Rightarrow> mtk_soc_data \<Rightarrow> nat \<Rightarrow> tx_env \<Rightarrow> sk_buff \<Rightarrow> mtk_eth \<Rightarrow>
   (netdev_tx \<times> mtk_eth) option" where
  "mtk_start_xmit d soc mac env skb e =
     (if resetting e then Some (tx_drop skb e)
      else
        let tx_num = mtk_cal_txd_req soc skb
        in if free_count (tx_ring e) \<le> tx_num
           then Some (NETDEV_TX_BUSY, e\<lparr>queues_stopped := True\<rparr>)
           else if gso_size skb \<noteq> 0 \<and> cow_head_fails env then Some (tx_drop skb e)
           else
             let gso = (gso_size skb \<noteq> 0 \<and> gso_tcp skb)
             in case mtk_tx_map d soc mac env skb gso e of
                  None \<Rightarrow> None
                | Some (r, e1) \<Rightarrow>
                    if r < 0 then Some (tx_drop skb e1)
                    else if free_count (tx_ring e1) \<le> thresh (tx_ring e1)
                      then Some (NETDEV_TX_OK, e1\<lparr>queues_stopped := True\<rparr>)
                      else Some (NETDEV_TX_OK, e1))"

text \<open>
  \<^verbatim>\<open>mtk_tx_alloc\<close>, on the path where every allocation succeeds. Fresh descriptor
  memory keeps whatever it held in the words the function does not write; the buffer
  metadata comes from \<^verbatim>\<open>kcalloc\<close> and is zero.
\<close>

definition mtk_tx_alloc :: "tx_defs \<Rightarrow> mtk_soc_data \<Rightarrow> mtk_eth \<Rightarrow> mtk_eth" where
  "mtk_tx_alloc d soc e =
     (let ring_size = (if caps_qdma soc then MTK_QDMA_RING_SIZE d else tx_dma_size soc);
          ring = tx_ring e;
          ring1 = ring\<lparr>
            buf := (\<lambda>i. zero_tx_buf),
            dma := (\<lambda>i. if i < ring_size
                         then (dma ring i)\<lparr>txd2 := (i + 1) mod ring_size,
                                           txd3 := TX_DMA_LS0 d OR TX_DMA_OWNER_CPU d\<rparr>
                         else dma ring i)\<rparr>;
          ring2 = (if \<not> caps_qdma soc
                     then ring1\<lparr>dma_pdma := (\<lambda>i. if i < ring_size
                                   then (dma_pdma ring1 i)\<lparr>p_txd2 := TX_DMA_DESP2_DEF d\<rparr>
                                   else dma_pdma ring1 i)\<rparr>
                   else ring1);
          ring3 = ring2\<lparr>dma_size := ring_size, free_count := int ring_size - 2,
                        next_free := 0, last_free := ring_size - 1,
                        last_free_ptr := ring_size - 1, thresh := MAX_SKB_FRAGS d\<rparr>
      in if caps_qdma soc
           then e\<lparr>tx_ring := ring3, ctx_doorbell := ctx_doorbell e @ [0],
                  crx_doorbell := crx_doorbell e @ [ring_size - 1]\<rparr>
         else e\<lparr>tx_ring := ring3, ctx_doorbell := ctx_doorbell e @ [0]\<rparr>)"

text \<open>
  \<^verbatim>\<open>mtk_xdp_frame_map\<close> and \<^verbatim>\<open>mtk_xdp_submit_frame\<close>. \<open>fmap\<close> gives the bus
  address of each mapping call of the frame, by buffer index; with \<open>dma_map\<close> false the
  address comes from the page pool and no mapping is made.
\<close>

definition mtk_xdp_frame_map ::
  "tx_defs \<Rightarrow> mtk_soc_data \<Rightarrow> nat \<Rightarrow> (nat \<Rightarrow> dma_addr_t) \<Rightarrow> mtk_tx_dma_desc_info \<Rightarrow>
   nat \<Rightarrow> nat \<Rightarrow> bool \<Rightarrow> mtk_eth \<Rightarrow> int \<times> mtk_eth" where
  "mtk_xdp_frame_map d soc mac fmap txd_info txd index dma_map e =
     (let info = txd_info\<lparr>i_addr := fmap index\<rparr>
      in if dma_map \<and> dma_mapping_error (i_addr info) then (- ENOMEM, e)
         else
           let e1 = (if dma_map
                       then upd_buf txd (\<lambda>b. b\<lparr>flags := insert MTK_TX_FLAGS_SINGLE0 (flags b)\<rparr>)
                              (log_dma (Map_single (i_addr info) (i_size info)) e)
                     else e);
               e2 = upd_dma txd (mtk_tx_set_dma_desc d soc info) e1;
               e3 = upd_buf txd (\<lambda>b. b\<lparr>mac_id := mac,
                      buf_type := (if dma_map then MTK_TYPE_XDP_NDO else MTK_TYPE_XDP_TX),
                      data := MTK_DMA_DUMMY_DESC\<rparr>) e2
           in (0, setup_tx_buf d soc txd (i_addr info) (i_size info) index e3))"

text \<open>
  The \<^verbatim>\<open>for (;;)\<close> loop of the submission: \<open>rest\<close> are the fragments not yet
  described by \<open>txd_info\<close>. The result says whether the loop is left through
  \<^verbatim>\<open>break\<close> (\<open>True\<close>) or through \<^verbatim>\<open>goto unmap\<close> (\<open>False\<close>), and gives
  \<^verbatim>\<open>err\<close> and the locals \<^verbatim>\<open>txd\<close>, \<^verbatim>\<open>n_desc\<close> and \<^verbatim>\<open>index\<close>.
\<close>

fun mtk_xdp_submit_loop ::
  "tx_defs \<Rightarrow> mtk_soc_data \<Rightarrow> nat \<Rightarrow> (nat \<Rightarrow> dma_addr_t) \<Rightarrow> bool \<Rightarrow> nat list \<Rightarrow>
   mtk_tx_dma_desc_info \<Rightarrow> tx_loop_state \<Rightarrow> bool \<times> int \<times> tx_loop_state" where
  "mtk_xdp_submit_loop d soc mac fmap dma_map rest txd_info (e, txd, n_desc, index) =
     (case mtk_xdp_frame_map d soc mac fmap txd_info txd index dma_map e of
        (err, e1) \<Rightarrow>
          if err < 0 then (False, err, (e1, txd, n_desc, index))
          else
            (case rest of
               [] \<Rightarrow> (True, err, (e1, txd, n_desc, index))
             | frag_size # rest' \<Rightarrow>
                 let adv = (caps_qdma soc \<or> odd index);
                     txd' = (if adv then txd2 (dma (tx_ring e1) txd) else txd)
                 in if adv \<and> txd' = last_free (tx_ring e1)
                    then (False, err, (e1, txd', n_desc, index))
                    else
                      let e2 = (if adv then upd_buf txd' (\<lambda>b. zero_tx_buf) e1 else e1);
                          n_desc' = (if adv then n_desc + 1 else n_desc);
                          info = zero_desc_info\<lparr>i_size := frag_size,
                                   i_last := (rest' = []), i_qid := mac\<rparr>
                      in mtk_xdp_submit_loop d soc mac fmap dma_map rest' info
                           (e2, txd', n_desc', index + 1)))"

text \<open>The \<^verbatim>\<open>unmap\<close> unwinding, a \<^verbatim>\<open>while (htxd != txd)\<close> loop over the chain.\<close>

partial_function (option) mtk_xdp_submit_unmap ::
  "tx_defs \<Rightarrow> mtk_soc_data \<Rightarrow> nat \<Rightarrow> nat \<Rightarrow> mtk_eth \<Rightarrow> mtk_eth option" where
  "mtk_xdp_submit_unmap d soc txd htxd e =
     (if htxd \<noteq> txd then
        let e1 = mtk_tx_unmap soc htxd e;
            e2 = upd_dma htxd (\<lambda>t. t\<lparr>txd3 := TX_DMA_LS0 d OR TX_DMA_OWNER_CPU d\<rparr>) e1;
            e3 = (if \<not> caps_qdma soc
                    then upd_pdma htxd (\<lambda>t. t\<lparr>p_txd2 := TX_DMA_DESP2_DEF d\<rparr>) e2 else e2)
        in mtk_xdp_submit_unmap d soc txd (txd2 (dma (tx_ring e3) htxd)) e3
      else Some e)"

declare mtk_xdp_submit_unmap.simps [code]

definition mtk_xdp_submit_frame ::
  "tx_defs \<Rightarrow> mtk_soc_data \<Rightarrow> nat \<Rightarrow> (nat \<Rightarrow> dma_addr_t) \<Rightarrow> xdp_frame \<Rightarrow> bool \<Rightarrow>
   mtk_eth \<Rightarrow> (int \<times> mtk_eth) option" where
  "mtk_xdp_submit_frame d soc mac fmap xdpf dma_map e =
     (let txd_info = zero_desc_info\<lparr>i_size := xdpf_len xdpf, i_first := True,
                       i_last := (xdpf_frags xdpf = []), i_qid := mac\<rparr>;
          nr_frags = length (xdpf_frags xdpf)
      in if resetting e then Some (- EBUSY, e)
         else if free_count (tx_ring e) \<le> 1 + int nr_frags then Some (- EBUSY, e)
         else
           let txd = next_free (tx_ring e)
           in if txd = last_free (tx_ring e) then Some (- ENOMEM, e)
              else
                let htxd = txd;
                    e1 = upd_buf txd (\<lambda>b. zero_tx_buf) e
                in case mtk_xdp_submit_loop d soc mac fmap dma_map (xdpf_frags xdpf)
                          txd_info (e1, txd, 1, 0) of
                     (left_by_break, err, (e2, txd', n_desc, index)) \<Rightarrow>
                       if \<not> left_by_break
                       then (case mtk_xdp_submit_unmap d soc txd' htxd e2 of
                               None \<Rightarrow> None
                             | Some e3 \<Rightarrow> Some (err, e3))
                       else
                         let e3 = upd_buf htxd (\<lambda>b. b\<lparr>data := Ptr (Xdpf xdpf)\<rparr>) e2;
                             e4 = (if \<not> caps_qdma soc then
                                     upd_pdma txd' (\<lambda>t. t\<lparr>p_txd2 := p_txd2 t OR
                                       (if odd index then TX_DMA_LS0 d else TX_DMA_LS1 d)\<rparr>) e3
                                   else e3);
                             nxt = txd2 (dma (tx_ring e4) txd');
                             e5 = e4\<lparr>tx_ring := (tx_ring e4)\<lparr>next_free := nxt,
                                      free_count := free_count (tx_ring e4) - int n_desc\<rparr>\<rparr>;
                             e6 = (if caps_qdma soc
                                     then e5\<lparr>ctx_doorbell := ctx_doorbell e5 @ [nxt]\<rparr>
                                   else e5\<lparr>ctx_doorbell := ctx_doorbell e5 @
                                          [NEXT_DESP_IDX txd' (dma_size (tx_ring e5))]\<rparr>)
                         in Some (0, e6))"

text \<open>
  Transmit reclaim. \<^verbatim>\<open>mtk_poll_state\<close> groups consecutive completions of one
  send queue; a queue is the pair of device index and queue number.
\<close>

record mtk_poll_state =
  ps_txq :: "(nat \<times> nat) option"
  ps_total :: nat
  ps_done :: nat
  ps_bytes :: nat

definition mtk_poll_tx_done ::
  "nat \<Rightarrow> sk_buff \<Rightarrow> mtk_poll_state \<times> mtk_eth \<Rightarrow> mtk_poll_state \<times> mtk_eth" where
  "mtk_poll_tx_done mac skb se =
     (case se of (state, e) \<Rightarrow>
        let bytes = skb_len skb;
            state1 = state\<lparr>ps_total := ps_total state + 1\<rparr>;
            e1 = e\<lparr>tx_packets := tx_packets e + 1, tx_bytes := tx_bytes e + bytes\<rparr>
        in if \<not> netdev_present e1 mac then (state1, e1)
           else
             let txq = (mac, queue_mapping skb)
             in if ps_txq state1 = Some txq
                then (state1\<lparr>ps_done := ps_done state1 + 1,
                             ps_bytes := ps_bytes state1 + bytes\<rparr>, e1)
                else
                  let e2 = (case ps_txq state1 of
                              None \<Rightarrow> e1
                            | Some q \<Rightarrow> e1\<lparr>completed_queue := completed_queue e1 @
                                              [(q, ps_done state1, ps_bytes state1)]\<rparr>)
                  in (state1\<lparr>ps_txq := Some txq, ps_done := 1, ps_bytes := bytes\<rparr>, e2))"

text \<open>
  What the body of both reclaim loops does with slot \<open>i\<close> once its buffer metadata
  is known to hold data: account for a head slot, unmap, advance \<^verbatim>\<open>last_free\<close>,
  increment the free-slot counter. The result is the remaining budget, the poll state
  and the driver state.
\<close>

definition poll_tx_slot ::
  "mtk_soc_data \<Rightarrow> nat \<Rightarrow> nat \<Rightarrow> int \<times> mtk_poll_state \<times> mtk_eth \<Rightarrow>
   int \<times> mtk_poll_state \<times> mtk_eth" where
  "poll_tx_slot soc mac i bse =
     (case bse of (budget, state, e) \<Rightarrow>
        let tx_buf = buf (tx_ring e) i;
            (budget1, (state1, e1)) =
              (case data tx_buf of
                 Ptr p \<Rightarrow>
                   (budget - 1,
                    (case p of
                       Skb skb \<Rightarrow>
                         if buf_type tx_buf = MTK_TYPE_SKB
                         then mtk_poll_tx_done mac skb (state, e) else (state, e)
                     | Xdpf x \<Rightarrow> (state, e)))
               | _ \<Rightarrow> (budget, (state, e)));
            e2 = mtk_tx_unmap soc i e1;
            e3 = e2\<lparr>tx_ring := (tx_ring e2)\<lparr>last_free := i,
                     free_count := free_count (tx_ring e2) + 1\<rparr>\<rparr>
        in (budget1, state1, e3))"

text \<open>
  The loop of \<^verbatim>\<open>mtk_poll_tx_qdma\<close>; \<open>dma_ptr\<close> is the value read from the
  register \<^verbatim>\<open>qdma.drx_ptr\<close>. \<^verbatim>\<open>desc\<close> is the descriptor at \<^verbatim>\<open>cpu\<close>
  whenever the loop condition is tested, so one index stands for both.
\<close>

partial_function (option) mtk_poll_tx_qdma_loop ::
  "tx_defs \<Rightarrow> mtk_soc_data \<Rightarrow> nat \<Rightarrow> nat \<times> int \<times> mtk_poll_state \<times> mtk_eth \<Rightarrow>
   (nat \<times> int \<times> mtk_poll_state \<times> mtk_eth) option" where
  "mtk_poll_tx_qdma_loop d soc dma_ptr st =
     (case st of (cpu, budget, state, e) \<Rightarrow>
        if cpu \<noteq> dma_ptr \<and> budget \<noteq> 0 then
          let next_cpu = txd2 (dma (tx_ring e) cpu);
              desc = next_cpu
          in if txd3 (dma (tx_ring e) desc) AND TX_DMA_OWNER_CPU d = 0 then Some st
             else if data (buf (tx_ring e) desc) = NULL then Some st
             else
               (case poll_tx_slot soc (mac_id (buf (tx_ring e) desc)) desc (budget, state, e) of
                  (budget1, state1, e1) \<Rightarrow>
                    mtk_poll_tx_qdma_loop d soc dma_ptr (next_cpu, budget1, state1, e1))
        else Some st)"

declare mtk_poll_tx_qdma_loop.simps [code]

definition mtk_poll_tx_qdma ::
  "tx_defs \<Rightarrow> mtk_soc_data \<Rightarrow> nat \<Rightarrow> int \<Rightarrow> mtk_poll_state \<Rightarrow> mtk_eth \<Rightarrow>
   (int \<times> mtk_poll_state \<times> mtk_eth) option" where
  "mtk_poll_tx_qdma d soc dma_ptr budget state e =
     (case mtk_poll_tx_qdma_loop d soc dma_ptr (last_free_ptr (tx_ring e), budget, state, e) of
        None \<Rightarrow> None
      | Some (cpu, budget1, state1, e1) \<Rightarrow>
          Some (budget1, state1,
                e1\<lparr>tx_ring := (tx_ring e1)\<lparr>last_free_ptr := cpu\<rparr>,
                   crx_doorbell := crx_doorbell e1 @ [cpu]\<rparr>))"

text \<open>
  The loop of \<^verbatim>\<open>mtk_poll_tx_pdma\<close>; \<open>dma_idx\<close> is the value read from
  \<^verbatim>\<open>MT7628_TX_DTX_IDX0\<close>.
\<close>

partial_function (option) mtk_poll_tx_pdma_loop ::
  "mtk_soc_data \<Rightarrow> nat \<Rightarrow> nat \<times> int \<times> mtk_poll_state \<times> mtk_eth \<Rightarrow>
   (nat \<times> int \<times> mtk_poll_state \<times> mtk_eth) option" where
  "mtk_poll_tx_pdma_loop soc dma_idx st =
     (case st of (cpu, budget, state, e) \<Rightarrow>
        if cpu \<noteq> dma_idx \<and> budget \<noteq> 0 then
          if data (buf (tx_ring e) cpu) = NULL then Some st
          else
            (case poll_tx_slot soc 0 cpu (budget, state, e) of
               (budget1, state1, e1) \<Rightarrow>
                 mtk_poll_tx_pdma_loop soc dma_idx
                   (NEXT_DESP_IDX cpu (dma_size (tx_ring e1)), budget1, state1, e1))
        else Some st)"

declare mtk_poll_tx_pdma_loop.simps [code]

definition mtk_poll_tx_pdma ::
  "mtk_soc_data \<Rightarrow> nat \<Rightarrow> int \<Rightarrow> mtk_poll_state \<Rightarrow> mtk_eth \<Rightarrow>
   (int \<times> mtk_poll_state \<times> mtk_eth) option" where
  "mtk_poll_tx_pdma soc dma_idx budget state e =
     (case mtk_poll_tx_pdma_loop soc dma_idx (cpu_idx (tx_ring e), budget, state, e) of
        None \<Rightarrow> None
      | Some (cpu, budget1, state1, e1) \<Rightarrow>
          Some (budget1, state1, e1\<lparr>tx_ring := (tx_ring e1)\<lparr>cpu_idx := cpu\<rparr>\<rparr>))"

text \<open>
  \<^verbatim>\<open>mtk_poll_tx\<close>; \<open>hw_ptr\<close> is the completion pointer or index the hardware
  reports. The interrupt-moderation sample is not modelled.
\<close>

definition mtk_poll_tx ::
  "tx_defs \<Rightarrow> mtk_soc_data \<Rightarrow> nat \<Rightarrow> int \<Rightarrow> mtk_eth \<Rightarrow> (int \<times> mtk_eth) option" where
  "mtk_poll_tx d soc hw_ptr budget e =
     (let state = \<lparr>ps_txq = None, ps_total = 0, ps_done = 0, ps_bytes = 0\<rparr>
      in case (if caps_qdma soc then mtk_poll_tx_qdma d soc hw_ptr budget state e
               else mtk_poll_tx_pdma soc hw_ptr budget state e) of
           None \<Rightarrow> None
         | Some (budget1, state1, e1) \<Rightarrow>
             let e2 = (case ps_txq state1 of
                         None \<Rightarrow> e1
                       | Some q \<Rightarrow> e1\<lparr>completed_queue := completed_queue e1 @
                                         [(q, ps_done state1, ps_bytes state1)]\<rparr>);
                 e3 = (if queues_stopped e2 \<and> free_count (tx_ring e2) > thresh (tx_ring e2)
                         then e2\<lparr>queues_stopped := False\<rparr> else e2)
             in Some (int (ps_total state1), e3))"

text \<open>
  Concrete parameters: the values the driver's header gives the macros for the first
  hardware generation, with a ring of 256 slots, a queue-aware device and a legacy
  device, and a driver state before the ring is allocated.
\<close>

definition tx_defs0 :: tx_defs where
  "tx_defs0 = \<lparr>TX_DMA_OWNER_CPU = BIT 31, TX_DMA_LS0 = BIT 30, TX_DMA_LS1 = BIT 14,
     TX_DMA_SWC = BIT 14, TX_DMA_DESP2_DEF = BIT 30 OR BIT 31,
     TX_DMA_PLEN0 = (\<lambda>x. push_bit 16 (of_nat x AND 0x3fff)),
     TX_DMA_PLEN1 = (\<lambda>x. of_nat x AND 0x3fff),
     TX_DMA_PQID = (\<lambda>q. of_nat q AND 0xf),
     TX_DMA_PREP_ADDR64 = (\<lambda>a. 0),
     MTK_QDMA_RING_SIZE = 256, MAX_SKB_FRAGS = 17\<rparr>"

definition soc_qdma :: mtk_soc_data where
  "soc_qdma = \<lparr>caps_qdma = True, caps_36bit_dma = False, netsys_v2_or_greater = False,
                tx_dma_max_len = 0x3fff, tx_dma_size = 2048\<rparr>"

definition soc_pdma :: mtk_soc_data where
  "soc_pdma = \<lparr>caps_qdma = False, caps_36bit_dma = False, netsys_v2_or_greater = False,
                tx_dma_max_len = 0x3fff, tx_dma_size = 256\<rparr>"

definition eth_blank :: mtk_eth where
  "eth_blank = \<lparr>tx_ring = \<lparr>dma = (\<lambda>i. \<lparr>txd1 = 0, txd2 = 0, txd3 = 0\<rparr>),
                   dma_pdma = (\<lambda>i. \<lparr>p_txd1 = 0, p_txd2 = 0, p_txd3 = 0\<rparr>),
                   buf = (\<lambda>i. zero_tx_buf), dma_size = 0, next_free = 0, last_free = 0,
                   last_free_ptr = 0, cpu_idx = 0, free_count = 0, thresh = 0\<rparr>,
                 resetting = False, netdev_present = (\<lambda>m. m = 0), queues_stopped = False,
                 tx_dropped = 0, tx_packets = 0, tx_bytes = 0, dma_log = [], released = [],
                 sent_queue = [], completed_queue = [], ctx_doorbell = [],
                 crx_doorbell = []\<rparr>"

definition skb_linear64 :: sk_buff where
  "skb_linear64 = \<lparr>skb_len = 64, headlen = 64, data_len = 0, frags = [], gso_size = 0,
                    gso_tcp = False, csum_partial = False, vlan_present = False,
                    vlan_tci = 0, queue_mapping = 0\<rparr>"

definition env_ok :: tx_env where
  "env_ok = \<lparr>map_head = 0x1000, map_frag = (\<lambda>i off. 0x2000 + 0x1000 * of_nat i + of_nat off),
              cow_head_fails = False, kick = True\<rparr>"

text \<open>The device completing a descriptor: it sets the owner bit in \<^verbatim>\<open>txd3\<close>.\<close>

definition mark_done :: "tx_defs \<Rightarrow> nat \<Rightarrow> mtk_eth \<Rightarrow> mtk_eth" where
  "mark_done d i e = upd_dma i (\<lambda>t. t\<lparr>txd3 := txd3 t OR TX_DMA_OWNER_CPU d\<rparr>) e"

text \<open>
  A small queue-aware ring of four slots whose slot 1 holds the head of a packet and
  slot 2 its scatter-gather continuation, both completed by the device.
\<close>

definition skb_sg1 :: sk_buff where
  "skb_sg1 = \<lparr>skb_len = 1064, headlen = 64, data_len = 1000, frags = [1000],
               gso_size = 0, gso_tcp = False, csum_partial = False, vlan_present = False,
               vlan_tci = 0, queue_mapping = 0\<rparr>"

definition eth_two_done :: mtk_eth where
  "eth_two_done = eth_blank\<lparr>tx_ring := (tx_ring eth_blank)\<lparr>
     dma := (\<lambda>i. \<lparr>txd1 = 0, txd2 = (i + 1) mod 4, txd3 = BIT 31\<rparr>),
     buf := (\<lambda>i. if i = 1 then zero_tx_buf\<lparr>data := Ptr (Skb skb_sg1),
                        flags := {MTK_TX_FLAGS_SINGLE0}, dma_addr0 := 0x1000, dma_len0 := 64\<rparr>
                 else if i = 2 then zero_tx_buf\<lparr>data := MTK_DMA_DUMMY_DESC,
                        flags := {MTK_TX_FLAGS_PAGE0}, dma_addr0 := 0x2000, dma_len0 := 1000\<rparr>
                 else zero_tx_buf),
     dma_size := 4, next_free := 3, last_free := 0, last_free_ptr := 0,
     free_count := 0\<rparr>\<rparr>"

definition poll_state0 :: mtk_poll_state where
  "poll_state0 = \<lparr>ps_txq = None, ps_total = 0, ps_done = 0, ps_bytes = 0\<rparr>"

text \<open>
  The third word \<^verbatim>\<open>mtk_tx_set_dma_desc\<close> writes for a descriptor, which carries
  the segment length and the last-segment flag.
\<close>

definition desc_word3 :: "tx_defs \<Rightarrow> mtk_soc_data \<Rightarrow> mtk_tx_dma_desc_info \<Rightarrow> u32" where
  "desc_word3 d soc info =
     txd3 (mtk_tx_set_dma_desc d soc info \<lparr>txd1 = 0, txd2 = 0, txd3 = 0\<rparr>)"




text \<open>
  A segmentable packet whose single fragment has one and a half times the maximum
  per-descriptor length of \<open>soc_qdma\<close> (16383 bytes), rounded down.
\<close>

definition skb_gso :: sk_buff where
  "skb_gso = \<lparr>skb_len = 24638, headlen = 64, data_len = 24574, frags = [24574],
               gso_size = 1448, gso_tcp = True, csum_partial = True, vlan_present = False,
               vlan_tci = 0, queue_mapping = 0\<rparr>"

text \<open>
  A segmentable packet with one fragment of \<open>2^32 - 1\<close> bytes, the largest value of
  the fragment-size field.
\<close>

definition skb_huge_frag :: sk_buff where
  "skb_huge_frag = \<lparr>skb_len = 4294967359, headlen = 64, data_len = 4294967295,
                     frags = [4294967295], gso_size = 1448, gso_tcp = True,
                     csum_partial = True, vlan_present = False, vlan_tci = 0,
                     queue_mapping = 0\<rparr>"

text \<open>
  The number of chunks of at most \<open>m\<close> bytes that \<open>f\<close> bytes are cut into: the least
  number of such chunks that covers them.
\<close>

definition max_len_chunks :: "nat \<Rightarrow> nat \<Rightarrow> nat" where
  "max_len_chunks m f = (LEAST n. f \<le> n * m)"

text \<open>The fresh 256-slot ring, and the four-slot ring with no free slot, during a reset.\<close>

definition eth_in_reset :: mtk_eth where
  "eth_in_reset = (mtk_tx_alloc tx_defs0 soc_qdma eth_blank)\<lparr>resetting := True\<rparr>"

definition eth_full_in_reset :: mtk_eth where
  "eth_full_in_reset = eth_two_done\<lparr>resetting := True\<rparr>"

definition xdpf_linear :: xdp_frame where
  "xdpf_linear = \<lparr>xdpf_len = 64, xdpf_frags = []\<rparr>"

text \<open>
  Inputs for the unwinding of a failed submission on the legacy ring: a packet with three
  fragments of 1000 bytes, and outside inputs under which the mapping of the third
  fragment (index 2), or of every fragment, fails.
\<close>

definition skb_sg3 :: sk_buff where
  "skb_sg3 = \<lparr>skb_len = 3064, headlen = 64, data_len = 3000, frags = [1000, 1000, 1000],
               gso_size = 0, gso_tcp = False, csum_partial = False, vlan_present = False,
               vlan_tci = 0, queue_mapping = 0\<rparr>"

definition env_fail_frag2 :: tx_env where
  "env_fail_frag2 = env_ok\<lparr>map_frag :=
     (\<lambda>i off. if i = 2 then DMA_MAPPING_ERROR else map_frag env_ok i off)\<rparr>"


definition env_fail_frags :: tx_env where
  "env_fail_frags = env_ok\<lparr>map_frag := (\<lambda>i off. DMA_MAPPING_ERROR)\<rparr>"

definition soc_pdma4 :: mtk_soc_data where
  "soc_pdma4 = soc_pdma\<lparr>tx_dma_size := 4\<rparr>"

text \<open>A legacy ring of four slots with one linear packet in flight in slot 0.\<close>

definition eth_one_in_flight :: mtk_eth where
  "eth_one_in_flight =
     snd (the (mtk_tx_map tx_defs0 soc_pdma4 0 env_ok skb_linear64 False
                 (mtk_tx_alloc tx_defs0 soc_pdma4 eth_blank)))"

subsection \<open>The receive ring: \<^verbatim>\<open>mtk_poll_rx\<close>\<close>

text \<open>
  A receive descriptor, with the words the poll loop reads or writes. Receive buffers
  are identified by their (virtual) address, a natural number.
\<close>

record mtk_rx_dma =
  rxd1 :: u32
  rxd2 :: u32
  rxd4 :: u32
  rxd5 :: u32

record mtk_rx_ring =
  rx_dma :: "nat \<Rightarrow> mtk_rx_dma"
  rx_data :: "nat \<Rightarrow> nat"
  rx_dma_size :: nat
  calc_idx :: nat
  buf_size :: nat
  page_pool :: bool         \<comment> \<open>\<^verbatim>\<open>ring->page_pool\<close> is not null\<close>

text \<open>
  Macros of \<^verbatim>\<open>mtk_eth_soc.h\<close> used by the receive path, as parameters, and the
  capabilities of the device that the loop tests.
\<close>

record rx_defs =
  RX_DMA_DONE :: u32
  RX_DMA_LSO :: u32
  RX_DMA_SPECIAL_TAG :: u32
  RX_DMA_PREP_PLEN0 :: "nat \<Rightarrow> u32"
  RX_DMA_GET_PLEN0 :: "u32 \<Rightarrow> nat"
  RX_DMA_ADDR64_FIELD :: "u32 \<Rightarrow> u64"      \<comment> \<open>\<^verbatim>\<open>FIELD_GET(RX_DMA_ADDR64_MASK, x)\<close>\<close>
  RX_DMA_PREP_ADDR64 :: "dma_addr_t \<Rightarrow> u64"
  RX_DMA_GET_ADDR64 :: "u32 \<Rightarrow> u64"
  RX_DMA_GET_SPORT :: "u32 \<Rightarrow> int"
  RX_DMA_GET_SPORT_V2 :: "u32 \<Rightarrow> int"
  PSE_GDM1_PORT :: int
  PSE_GDM2_PORT :: int
  PSE_GDM3_PORT :: int
  MTK_GMAC3_ID :: int
  MTK_MAX_DEVS :: int

record mtk_rx_soc =
  soc_36bit_dma :: bool
  soc_mt7628 :: bool
  soc_netsys_v3 :: bool

text \<open>
  The driver state the receive loop works on, with logs of what it hands out: packets
  given to the network stack (buffer and length), buffers given to the fast-path hook,
  buffers freed by the loop itself, bus addresses unmapped, writes of the ring index
  register, calls of \<^verbatim>\<open>xdp_do_flush\<close>.
\<close>

record rx_state =
  rx_ring :: mtk_rx_ring
  rx_resetting :: bool
  rx_netdev :: "int \<Rightarrow> bool"
  rx_dropped :: "int \<Rightarrow> nat"
  delivered :: "(nat \<times> nat) list"
  xdp_seen :: "nat list"
  rx_freed :: "nat list"
  rx_unmapped :: "dma_addr_t list"
  xdp_st :: xdp_state
  crx_idx_writes :: "nat list"
  xdp_flushes :: nat

text \<open>
  The locals of \<^verbatim>\<open>mtk_poll_rx\<close> that are declared outside the \<^verbatim>\<open>while\<close>
  loop and so keep their value from one pass to the next.
\<close>

record rx_locals =
  l_dma_addr :: dma_addr_t
  l_addr64 :: u64
  l_new_data :: nat
  l_done :: nat
  l_xdp_flush :: bool

text \<open>
  What one pass of the loop gets from outside: the replacement buffer (\<open>None\<close> when
  the allocation fails), the bus address of the replacement (from the page pool, or
  from \<^verbatim>\<open>dma_map_single\<close>, which may fail), whether \<^verbatim>\<open>build_skb\<close> succeeds, and
  the inputs of the fast-path hook.
\<close>

record rx_env =
  new_buf :: "nat option"
  new_dma :: dma_addr_t
  skb_ok :: bool
  rx_xdp :: xdp_env

definition upd_rxd :: "nat \<Rightarrow> (mtk_rx_dma \<Rightarrow> mtk_rx_dma) \<Rightarrow> rx_state \<Rightarrow> rx_state" where
  "upd_rxd i f s =
     s\<lparr>rx_ring := (rx_ring s)\<lparr>rx_dma := (rx_dma (rx_ring s))(i := f (rx_dma (rx_ring s) i))\<rparr>\<rparr>"

definition count_rx_drop :: "int \<Rightarrow> rx_state \<Rightarrow> rx_state" where
  "count_rx_drop mac s = s\<lparr>rx_dropped := (rx_dropped s)(mac := rx_dropped s mac + 1)\<rparr>"

text \<open>The code from the label \<^verbatim>\<open>release_desc\<close> to the end of the loop body.\<close>

definition release_desc ::
  "rx_defs \<Rightarrow> mtk_rx_soc \<Rightarrow> nat \<Rightarrow> rx_state \<times> rx_locals \<Rightarrow> rx_state \<times> rx_locals" where
  "release_desc d soc idx sl =
     (case sl of (s, l) \<Rightarrow>
        let addr64 = (if soc_36bit_dma soc then
                        (if l_dma_addr l = DMA_MAPPING_ERROR
                           then RX_DMA_ADDR64_FIELD d (rxd2 (rx_dma (rx_ring s) idx))
                         else RX_DMA_PREP_ADDR64 d (l_dma_addr l))
                      else l_addr64 l);
            w = (if soc_mt7628 soc then RX_DMA_LSO d
                 else RX_DMA_PREP_PLEN0 d (buf_size (rx_ring s)) OR ucast addr64);
            s1 = upd_rxd idx (\<lambda>r. r\<lparr>rxd2 := w\<rparr>) s;
            s2 = s1\<lparr>rx_ring := (rx_ring s1)\<lparr>calc_idx := idx\<rparr>\<rparr>
        in (s2, l\<lparr>l_addr64 := addr64, l_done := l_done l + 1\<rparr>))"

text \<open>The code from the label \<^verbatim>\<open>skip_rx\<close> on.\<close>

definition skip_rx ::
  "rx_defs \<Rightarrow> mtk_rx_soc \<Rightarrow> nat \<Rightarrow> rx_state \<times> rx_locals \<Rightarrow> rx_state \<times> rx_locals" where
  "skip_rx d soc idx sl =
     (case sl of (s, l) \<Rightarrow>
        let s1 = s\<lparr>rx_ring := (rx_ring s)\<lparr>rx_data := (rx_data (rx_ring s))(idx := l_new_data l)\<rparr>\<rparr>;
            s2 = upd_rxd idx (\<lambda>r. r\<lparr>rxd1 := ucast (l_dma_addr l)\<rparr>) s1
        in release_desc d soc idx (s2, l))"

definition rx_source_mac :: "rx_defs \<Rightarrow> mtk_rx_soc \<Rightarrow> mtk_rx_dma \<Rightarrow> int" where
  "rx_source_mac d soc trxd =
     (if soc_netsys_v3 soc then
        (let val = RX_DMA_GET_SPORT_V2 d (rxd5 trxd)
         in if val = PSE_GDM1_PORT d \<or> val = PSE_GDM2_PORT d then val - 1
            else if val = PSE_GDM3_PORT d then MTK_GMAC3_ID d
            else 0)
      else if \<not> soc_mt7628 soc \<and> rxd4 trxd AND RX_DMA_SPECIAL_TAG d = 0
        then RX_DMA_GET_SPORT d (rxd4 trxd) - 1
      else 0)"

text \<open>
  One pass of the \<^verbatim>\<open>while\<close> loop on the slot \<open>idx\<close>; \<open>None\<close> is the
  \<^verbatim>\<open>break\<close> on a descriptor the device has not completed. Only the single-ring
  configuration (no hardware receive offload) is modelled, and neither the checksum,
  hash and tag fields put on the packet object nor the byte count.
\<close>

definition mtk_poll_rx_pass ::
  "rx_defs \<Rightarrow> mtk_rx_soc \<Rightarrow> rx_env \<Rightarrow> rx_state \<times> rx_locals \<Rightarrow>
   (rx_state \<times> rx_locals) option" where
  "mtk_poll_rx_pass d soc env sl =
     (case sl of (s, l) \<Rightarrow>
        let ring = rx_ring s;
            idx = NEXT_DESP_IDX (calc_idx ring) (rx_dma_size ring);
            trxd = rx_dma ring idx;
            data = rx_data ring idx
        in if rxd2 trxd AND RX_DMA_DONE d = 0 then None
           else
             let mac = rx_source_mac d soc trxd
             in if mac < 0 \<or> mac \<ge> MTK_MAX_DEVS d \<or> \<not> rx_netdev s mac
                  then Some (release_desc d soc idx (s, l))
                else if rx_resetting s then Some (release_desc d soc idx (s, l))
                else
                  let pktlen = RX_DMA_GET_PLEN0 d (rxd2 trxd)
                  in if page_pool ring then
                       (case new_buf env of
                          None \<Rightarrow> Some (release_desc d soc idx (count_rx_drop mac s, l))
                        | Some nd \<Rightarrow>
                            let l1 = l\<lparr>l_new_data := nd, l_dma_addr := new_dma env\<rparr>;
                                (ret, xs) = mtk_xdp_run (rx_xdp env) (xdp_st s);
                                s1 = s\<lparr>xdp_st := xs, xdp_seen := xdp_seen s @ [data]\<rparr>;
                                l2 = (if ret = XDP_REDIRECT then l1\<lparr>l_xdp_flush := True\<rparr>
                                      else l1)
                            in if ret \<noteq> XDP_PASS then Some (skip_rx d soc idx (s1, l2))
                               else if \<not> skb_ok env then
                                 Some (skip_rx d soc idx
                                   (count_rx_drop mac (s1\<lparr>rx_freed := rx_freed s1 @ [data]\<rparr>),
                                    l2))
                               else
                                 Some (skip_rx d soc idx
                                   (s1\<lparr>delivered := delivered s1 @ [(data, pktlen)]\<rparr>, l2)))
                     else
                       (case new_buf env of
                          None \<Rightarrow> Some (release_desc d soc idx (count_rx_drop mac s, l))
                        | Some nd \<Rightarrow>
                            let l1 = l\<lparr>l_new_data := nd, l_dma_addr := new_dma env\<rparr>
                            in if dma_mapping_error (new_dma env) then
                                 Some (release_desc d soc idx
                                   (count_rx_drop mac (s\<lparr>rx_freed := rx_freed s @ [nd]\<rparr>),
                                    l1))
                               else
                                 let l2 = (if soc_36bit_dma soc
                                             then l1\<lparr>l_addr64 :=
                                                    RX_DMA_GET_ADDR64 d (rxd2 trxd)\<rparr>
                                           else l1);
                                     s1 = s\<lparr>rx_unmapped := rx_unmapped s @
                                            [ucast (rxd1 trxd) OR l_addr64 l2]\<rparr>
                                 in if \<not> skb_ok env then
                                      Some (skip_rx d soc idx
                                        (count_rx_drop mac
                                           (s1\<lparr>rx_freed := rx_freed s1 @ [data]\<rparr>), l2))
                                    else
                                      Some (skip_rx d soc idx
                                        (s1\<lparr>delivered := delivered s1 @ [(data, pktlen)]\<rparr>,
                                         l2))))"

text \<open>
  The loop \<^verbatim>\<open>while (done < budget)\<close>: every pass that does not break increments
  \<^verbatim>\<open>done\<close> by one, so the passes left are counted down from the budget. \<open>envs\<close>
  gives the outside inputs of each pass, numbered by the value of \<^verbatim>\<open>done\<close>.
\<close>

fun mtk_poll_rx_loop ::
  "rx_defs \<Rightarrow> mtk_rx_soc \<Rightarrow> (nat \<Rightarrow> rx_env) \<Rightarrow> nat \<Rightarrow> rx_state \<times> rx_locals \<Rightarrow>
   rx_state \<times> rx_locals" where
  "mtk_poll_rx_loop d soc envs 0 sl = sl"
| "mtk_poll_rx_loop d soc envs (Suc n) sl =
     (case mtk_poll_rx_pass d soc (envs (l_done (snd sl))) sl of
        None \<Rightarrow> sl
      | Some sl' \<Rightarrow> mtk_poll_rx_loop d soc envs n sl')"

definition mtk_poll_rx ::
  "rx_defs \<Rightarrow> mtk_rx_soc \<Rightarrow> (nat \<Rightarrow> rx_env) \<Rightarrow> nat \<Rightarrow> rx_state \<Rightarrow> nat \<times> rx_state" where
  "mtk_poll_rx d soc envs budget s =
     (case mtk_poll_rx_loop d soc envs budget
             (s, \<lparr>l_dma_addr = DMA_MAPPING_ERROR, l_addr64 = 0, l_new_data = 0, l_done = 0,
                  l_xdp_flush = False\<rparr>) of
        (s1, l) \<Rightarrow>
          let s2 = (if l_done l \<noteq> 0
                      then s1\<lparr>crx_idx_writes := crx_idx_writes s1 @ [calc_idx (rx_ring s1)]\<rparr>
                    else s1);
              s3 = (if l_xdp_flush l then s2\<lparr>xdp_flushes := xdp_flushes s2 + 1\<rparr> else s2)
          in (l_done l, s3))"

text \<open>
  Concrete receive-side parameters: the values the driver's header gives the macros, with
  the length field of the third hardware generation (16 bits at bit 8), and a device of
  that generation with 36-bit bus addresses.
\<close>

definition rx_defs0 :: rx_defs where
  "rx_defs0 = \<lparr>RX_DMA_DONE = BIT 31, RX_DMA_LSO = BIT 30, RX_DMA_SPECIAL_TAG = BIT 22,
                RX_DMA_PREP_PLEN0 = (\<lambda>x. push_bit 8 (of_nat x AND 0xffff)),
                RX_DMA_GET_PLEN0 = (\<lambda>x. unat (drop_bit 8 x AND 0xffff)),
                RX_DMA_ADDR64_FIELD = (\<lambda>x. ucast (x AND 0xf)),
                RX_DMA_PREP_ADDR64 = (\<lambda>a. drop_bit 32 a AND 0xf),
                RX_DMA_GET_ADDR64 = (\<lambda>x. push_bit 32 (ucast (x AND 0xf))),
                RX_DMA_GET_SPORT = (\<lambda>x. uint (drop_bit 19 x AND 0x7)),
                RX_DMA_GET_SPORT_V2 = (\<lambda>x. uint (drop_bit 26 x AND 0xf)),
                PSE_GDM1_PORT = 1, PSE_GDM2_PORT = 2, PSE_GDM3_PORT = 15,
                MTK_GMAC3_ID = 2, MTK_MAX_DEVS = 3\<rparr>"

definition soc_v3 :: mtk_rx_soc where
  "soc_v3 = \<lparr>soc_36bit_dma = True, soc_mt7628 = False, soc_netsys_v3 = True\<rparr>"

text \<open>
  A page-pool ring of four slots whose buffers 10 to 13 lie below 4 GiB. The device has
  completed slots 0 and 1 with packets of 100 and 200 bytes from the first port.
\<close>

definition rx_slot_done :: "u32 \<Rightarrow> nat \<Rightarrow> mtk_rx_dma" where
  "rx_slot_done addr len =
     \<lparr>rxd1 = addr, rxd2 = BIT 31 OR push_bit 8 (of_nat len), rxd4 = 0, rxd5 = push_bit 26 1\<rparr>"

definition rx_slot_empty :: "u32 \<Rightarrow> mtk_rx_dma" where
  "rx_slot_empty addr = \<lparr>rxd1 = addr, rxd2 = push_bit 8 2048, rxd4 = 0, rxd5 = 0\<rparr>"

definition rx_state0 :: rx_state where
  "rx_state0 =
     \<lparr>rx_ring = \<lparr>rx_dma = (\<lambda>i. if i = 0 then rx_slot_done 0x1000 100
                              else if i = 1 then rx_slot_done 0x2000 200
                              else rx_slot_empty (0x1000 * of_nat (i + 1))),
                 rx_data = (\<lambda>i. 10 + i), rx_dma_size = 4, calc_idx = 3, buf_size = 2048,
                 page_pool = True\<rparr>,
      rx_resetting = False, rx_netdev = (\<lambda>m. m = 0), rx_dropped = (\<lambda>m. 0),
      delivered = [], xdp_seen = [], rx_freed = [], rx_unmapped = [], xdp_st = xdp_state0,
      crx_idx_writes = [], xdp_flushes = 0\<rparr>"

text \<open>
  Outside inputs: no fast-path program is attached; the first pass gets the replacement
  buffer 20, whose bus address lies above 4 GiB; the allocation of the second pass
  fails.
\<close>

definition rx_envs0 :: "nat \<Rightarrow> rx_env" where
  "rx_envs0 n =
     \<lparr>new_buf = (if n = 0 then Some 20 else None), new_dma = 0x100003000, skb_ok = True,
      rx_xdp = \<lparr>prog = None, redirect_fails = False, xdpf_null = False,
                submit_fails = False\<rparr>\<rparr>"

text \<open>
  A legacy ring of four slots holding one completed packet with three fragments: slot 0
  carries the head and the first fragment, slot 1 the other two fragments.
\<close>

definition eth_legacy_done :: mtk_eth where
  "eth_legacy_done = eth_blank\<lparr>tx_ring := (tx_ring eth_blank)\<lparr>
     dma := (\<lambda>i. \<lparr>txd1 = 0, txd2 = (i + 1) mod 4, txd3 = 0\<rparr>),
     buf := (\<lambda>i. if i = 0 then zero_tx_buf\<lparr>data := Ptr (Skb skb_sg3),
                        flags := {MTK_TX_FLAGS_SINGLE0, MTK_TX_FLAGS_PAGE0},
                        dma_addr0 := 0x1000, dma_len0 := 64,
                        dma_addr1 := 0x2000, dma_len1 := 1000\<rparr>
                 else if i = 1 then zero_tx_buf\<lparr>data := MTK_DMA_DUMMY_DESC,
                        flags := {MTK_TX_FLAGS_PAGE0},
                        dma_addr0 := 0x3000, dma_len0 := 1000,
                        dma_addr1 := 0x4000, dma_len1 := 1000\<rparr>
                 else zero_tx_buf),
     dma_size := 4, next_free := 2, last_free := 3, cpu_idx := 0, free_count := 0\<rparr>\<rparr>"

section \<open>Properties\<close>

subsection \<open>Fast-path verdict counters\<close>

lemma count_incr_total: "verdict_total (count_incr c s) = verdict_total s + 1"
  by (cases c) (simp_all add: verdict_total_def)

lemma count_incr_read:
  "count_read c' (count_incr c s) = (if c' = c then count_read c s + 1 else count_read c' s)"
  by (cases c; cases c') simp_all

lemma xdp_run_bumps_one:
  assumes "prog env = Some act"
  shows "\<exists>c. stats (snd (mtk_xdp_run env s)) = count_incr c (stats s)"
  using assms
  by (auto simp: mtk_xdp_run_def update_stats_def put_page_and_count_def
           simp del: count_incr.simps)

lemma xdp_run_window_total:
  "\<forall>e \<in> set es. prog e \<noteq> None \<Longrightarrow>
   verdict_total (stats (xdp_run_window es s)) = verdict_total (stats s) + of_nat (length es)"
proof (induction es arbitrary: s)
  case Nil
  then show ?case by simp
next
  case (Cons e es)
  from Cons.prems obtain act where act: "prog e = Some act" by auto
  from xdp_run_bumps_one [OF act, of s] obtain c
    where c: "stats (snd (mtk_xdp_run e s)) = count_incr c (stats s)" ..
  from Cons.prems have "\<forall>e \<in> set es. prog e \<noteq> None" by simp
  from Cons.IH [OF this, of "snd (mtk_xdp_run e s)"] show ?case
    by (simp add: c count_incr_total)
qed

lemma xdp_run_verdict:
  assumes "prog env = Some act"
  shows "mtk_xdp_run env s =
    (if act = XDP_PASS
       then (XDP_PASS, s\<lparr>stats := (stats s)\<lparr>rx_xdp_pass := rx_xdp_pass (stats s) + 1\<rparr>\<rparr>)
     else if act = XDP_REDIRECT \<and> \<not> redirect_fails env
       then (XDP_REDIRECT,
             s\<lparr>stats := (stats s)\<lparr>rx_xdp_redirect := rx_xdp_redirect (stats s) + 1\<rparr>\<rparr>)
     else if act = XDP_REDIRECT
       then (XDP_DROP,
             s\<lparr>pool_returned := pool_returned s + 1,
               stats := (stats s)\<lparr>rx_xdp_drop := rx_xdp_drop (stats s) + 1\<rparr>\<rparr>)
     else if act = XDP_TX \<and> \<not> xdpf_null env \<and> \<not> submit_fails env
       then (XDP_TX, s\<lparr>stats := (stats s)\<lparr>rx_xdp_tx := rx_xdp_tx (stats s) + 1\<rparr>\<rparr>)
     else if act = XDP_TX
       then (XDP_DROP,
             s\<lparr>pool_returned := pool_returned s + 1,
               stats := (stats s)\<lparr>rx_xdp_tx_errors := rx_xdp_tx_errors (stats s) + 1\<rparr>\<rparr>)
     else (act,
           s\<lparr>pool_returned := pool_returned s + 1,
             stats := (stats s)\<lparr>rx_xdp_drop := rx_xdp_drop (stats s) + 1\<rparr>\<rparr>))"
  using assms
  by (simp add: mtk_xdp_run_def update_stats_def put_page_and_count_def
        XDP_PASS_def XDP_REDIRECT_def XDP_TX_def)

text \<open>
  C8. Every invocation of the hook with a program attached increments exactly one of the
  five verdict counters by one and leaves the other four as they were, and each verdict
  has its own counter: pass increments the pass counter, a redirect that succeeds the
  redirect counter, a local retransmit that is submitted the retransmit counter, a local
  retransmit that cannot be submitted the transmit-error counter, and drop, aborted, a
  failed redirect and every verdict outside the known set the drop counter. Over any
  window of such invocations the sum of the five counters grows by the number of
  invocations (the counters are 64-bit, the sum is taken in 64-bit arithmetic). A
  verdict outside the known set takes the drop path: the buffer goes back to the page
  pool and the drop counter is the one incremented. The buffer goes back to the pool on
  the drop and transmit-error paths only.
\<close>

theorem xdp_verdict_counters:
  "prog env = Some act \<Longrightarrow>
   (act = XDP_PASS \<longrightarrow>
      fst (mtk_xdp_run env s) = XDP_PASS \<and>
      stats (snd (mtk_xdp_run env s)) =
        (stats s)\<lparr>rx_xdp_pass := rx_xdp_pass (stats s) + 1\<rparr> \<and>
      pool_returned (snd (mtk_xdp_run env s)) = pool_returned s) \<and>
   (act = XDP_REDIRECT \<and> \<not> redirect_fails env \<longrightarrow>
      fst (mtk_xdp_run env s) = XDP_REDIRECT \<and>
      stats (snd (mtk_xdp_run env s)) =
        (stats s)\<lparr>rx_xdp_redirect := rx_xdp_redirect (stats s) + 1\<rparr> \<and>
      pool_returned (snd (mtk_xdp_run env s)) = pool_returned s) \<and>
   (act = XDP_REDIRECT \<and> redirect_fails env \<longrightarrow>
      fst (mtk_xdp_run env s) = XDP_DROP \<and>
      stats (snd (mtk_xdp_run env s)) =
        (stats s)\<lparr>rx_xdp_drop := rx_xdp_drop (stats s) + 1\<rparr> \<and>
      pool_returned (snd (mtk_xdp_run env s)) = pool_returned s + 1) \<and>
   (act = XDP_TX \<and> \<not> xdpf_null env \<and> \<not> submit_fails env \<longrightarrow>
      fst (mtk_xdp_run env s) = XDP_TX \<and>
      stats (snd (mtk_xdp_run env s)) =
        (stats s)\<lparr>rx_xdp_tx := rx_xdp_tx (stats s) + 1\<rparr> \<and>
      pool_returned (snd (mtk_xdp_run env s)) = pool_returned s) \<and>
   (act = XDP_TX \<and> (xdpf_null env \<or> submit_fails env) \<longrightarrow>
      fst (mtk_xdp_run env s) = XDP_DROP \<and>
      stats (snd (mtk_xdp_run env s)) =
        (stats s)\<lparr>rx_xdp_tx_errors := rx_xdp_tx_errors (stats s) + 1\<rparr> \<and>
      pool_returned (snd (mtk_xdp_run env s)) = pool_returned s + 1) \<and>
   (act = XDP_DROP \<or> act = XDP_ABORTED \<or> act \<notin> known_verdicts \<longrightarrow>
      fst (mtk_xdp_run env s) = act \<and>
      stats (snd (mtk_xdp_run env s)) =
        (stats s)\<lparr>rx_xdp_drop := rx_xdp_drop (stats s) + 1\<rparr> \<and>
      pool_returned (snd (mtk_xdp_run env s)) = pool_returned s + 1) \<and>
   (\<exists>c. \<forall>c'. count_read c' (stats (snd (mtk_xdp_run env s))) =
                (if c' = c then count_read c' (stats s) + 1 else count_read c' (stats s))) \<and>
   ((\<forall>e \<in> set es. prog e \<noteq> None) \<longrightarrow>
      verdict_total (stats (xdp_run_window es s)) =
      verdict_total (stats s) + of_nat (length es))"
proof -
  assume p: "prog env = Some act"
  note r = xdp_run_verdict [OF p, of s]
  have d: "XDP_DROP \<noteq> XDP_PASS" "XDP_DROP \<noteq> XDP_REDIRECT" "XDP_DROP \<noteq> XDP_TX"
    "XDP_ABORTED \<noteq> XDP_PASS" "XDP_ABORTED \<noteq> XDP_REDIRECT" "XDP_ABORTED \<noteq> XDP_TX"
    "XDP_REDIRECT \<noteq> XDP_PASS" "XDP_TX \<noteq> XDP_PASS" "XDP_TX \<noteq> XDP_REDIRECT"
    by (simp_all add: XDP_ABORTED_def XDP_DROP_def XDP_PASS_def XDP_TX_def XDP_REDIRECT_def)
  have one: "\<exists>c. \<forall>c'. count_read c' (stats (snd (mtk_xdp_run env s))) =
                (if c' = c then count_read c' (stats s) + 1 else count_read c' (stats s))"
  proof -
    from xdp_run_bumps_one [OF p, of s] obtain c
      where c: "stats (snd (mtk_xdp_run env s)) = count_incr c (stats s)" ..
    have "\<forall>c'. count_read c' (stats (snd (mtk_xdp_run env s))) =
             (if c' = c then count_read c' (stats s) + 1 else count_read c' (stats s))"
      by (simp add: c count_incr_read)
    then show ?thesis by blast
  qed
  have win: "(\<forall>e \<in> set es. prog e \<noteq> None) \<longrightarrow>
      verdict_total (stats (xdp_run_window es s)) =
      verdict_total (stats s) + of_nat (length es)"
    using xdp_run_window_total by blast
  show ?thesis
    apply (intro conjI one win)
    using d by (auto simp: r known_verdicts_def)
qed

theorem xdp_verdict_counters_witness:
  "prog xdp_env_invalid = Some 9 \<and> (9::u32) \<notin> known_verdicts \<and>
   prog xdp_env_pass = Some XDP_PASS \<and> prog xdp_env_tx_fail = Some XDP_TX \<and>
   submit_fails xdp_env_tx_fail \<and>
   stats (snd (mtk_xdp_run xdp_env_invalid xdp_state0)) =
     \<lparr>rx_xdp_redirect = 0, rx_xdp_pass = 0, rx_xdp_drop = 1, rx_xdp_tx = 0,
      rx_xdp_tx_errors = 0\<rparr> \<and>
   pool_returned (snd (mtk_xdp_run xdp_env_invalid xdp_state0)) = 1 \<and>
   fst (mtk_xdp_run xdp_env_invalid xdp_state0) = 9 \<and>
   stats (snd (mtk_xdp_run xdp_env_pass xdp_state0)) =
     \<lparr>rx_xdp_redirect = 0, rx_xdp_pass = 1, rx_xdp_drop = 0, rx_xdp_tx = 0,
      rx_xdp_tx_errors = 0\<rparr> \<and>
   pool_returned (snd (mtk_xdp_run xdp_env_pass xdp_state0)) = 0 \<and>
   stats (snd (mtk_xdp_run xdp_env_tx_fail xdp_state0)) =
     \<lparr>rx_xdp_redirect = 0, rx_xdp_pass = 0, rx_xdp_drop = 0, rx_xdp_tx = 0,
      rx_xdp_tx_errors = 1\<rparr> \<and>
   fst (mtk_xdp_run xdp_env_tx_fail xdp_state0) = XDP_DROP \<and>
   verdict_total (stats (xdp_run_window [xdp_env_invalid, xdp_env_tx_fail] xdp_state0)) = 2"
  using xdp_verdict_counters [of xdp_env_invalid 9 xdp_state0
                                 "[xdp_env_invalid, xdp_env_tx_fail]"]
    xdp_verdict_counters [of xdp_env_pass XDP_PASS xdp_state0 "[]"]
    xdp_verdict_counters [of xdp_env_tx_fail XDP_TX xdp_state0 "[]"]
  by (simp add: xdp_env_invalid_def xdp_env_tx_fail_def xdp_env_pass_def xdp_state0_def
                known_verdicts_def
                XDP_ABORTED_def XDP_DROP_def XDP_PASS_def XDP_TX_def XDP_REDIRECT_def
                verdict_total_def)

subsection \<open>Hang-signature streak counters\<close>

lemma hang_check_step:
  "mtk_hw_check_dma_hang d False r rs = (v, rs') \<Longrightarrow>
   (case fired d rs r of
      None \<Rightarrow> \<not> v \<and> wdma_hang_count rs' = 0 \<and> qdma_hang_count rs' = 0 \<and>
               adma_hang_count rs' = 0
    | Some sg \<Rightarrow>
        (v \<longleftrightarrow> 2 \<le> hang_count sg rs) \<and>
        hang_count sg rs' = (if 2 \<le> hang_count sg rs then 0 else hang_count sg rs + 1) \<and>
        (\<forall>sg'. sg' \<noteq> sg \<longrightarrow> hang_count sg' rs' = hang_count sg' rs))"
  apply (cases "fired d rs r")
   apply (auto simp: mtk_hw_check_dma_hang_def fired_def Let_def split: if_splits)
  subgoal for sg' by (cases sg') auto
  subgoal for sg' by (cases sg') auto
  subgoal for sg' by (cases sg') auto
  subgoal for sg' by (cases sg') auto
  subgoal for sg' by (cases sg') auto
  subgoal for sg' by (cases sg') auto
  done

lemma hang_counts_bounded:
  assumes "mtk_hw_check_dma_hang d m r rs = (v, rs')"
    and "\<forall>sg. hang_count sg rs \<le> 2"
  shows "\<forall>sg. hang_count sg rs' \<le> 2"
proof
  fix sg
  from assms(2) have b: "wdma_hang_count rs \<le> 2" "qdma_hang_count rs \<le> 2"
    "adma_hang_count rs \<le> 2"
    using hang_count.simps by metis+
  from assms(1) b show "hang_count sg rs' \<le> 2"
    by (cases sg) (auto simp: mtk_hw_check_dma_hang_def Let_def split: if_splits)
qed

lemma no_hang_while_few:
  "\<forall>sg. hang_count sg rs + fired_times d sg rl rs \<le> 2 \<Longrightarrow>
   True \<notin> set (fst (hang_checks d rl rs))"
proof (induction rl arbitrary: rs)
  case Nil
  then show ?case by simp
next
  case (Cons r rl)
  obtain v rs' where step: "mtk_hw_check_dma_hang d False r rs = (v, rs')"
    by (cases "mtk_hw_check_dma_hang d False r rs")
  note st = hang_check_step [OF step]
  have pre: "hang_count sg rs + ((if fired d rs r = Some sg then 1 else 0) +
               fired_times d sg rl rs') \<le> 2" for sg
    using Cons.prems step by simp
  have v: "\<not> v"
  proof (cases "fired d rs r")
    case None
    with st show ?thesis by simp
  next
    case (Some sg)
    with pre [of sg] have "hang_count sg rs < 2" by simp
    with st Some show ?thesis by simp
  qed
  have "hang_count sg rs' + fired_times d sg rl rs' \<le> 2" for sg
  proof (cases "fired d rs r")
    case None
    with st have "hang_count sg rs' = 0" by (cases sg) simp_all
    with pre [of sg] show ?thesis by simp
  next
    case (Some sg0)
    show ?thesis
    proof (cases "sg = sg0")
      case True
      with pre [of sg] Some have "hang_count sg rs < 2" by simp
      with st Some True have "hang_count sg rs' = hang_count sg rs + 1" by simp
      with pre [of sg] Some True show ?thesis by simp
    next
      case False
      with st Some have "hang_count sg rs' = hang_count sg rs" by simp
      with pre [of sg] show ?thesis by simp
    qed
  qed
  then have "True \<notin> set (fst (hang_checks d rl rs'))"
    using Cons.IH by blast
  with v step show ?case by (simp add: split_def Let_def)
qed

text \<open>
  C2 (amended). A check counts at most one signature: the first, in the order bridging
  DMA, queue DMA, reassembly DMA, whose condition holds. That signature's streak counter
  is incremented and the other two are left as they are; a hang is declared exactly when
  the incremented counter would exceed two, and the counter then restarts at zero. The
  counters are reset to zero only by a check in which none of the three conditions
  holds. Hence, starting from zeroed counters, a sequence of checks in which no
  signature is counted more than twice never declares a hang; two signatures
  alternating twice each is such a sequence.
\<close>

theorem hang_streaks:
  "(mtk_hw_check_dma_hang d False r rs = (v, rs') \<longrightarrow>
     (case fired d rs r of
        None \<Rightarrow> \<not> v \<and> wdma_hang_count rs' = 0 \<and> qdma_hang_count rs' = 0 \<and>
                 adma_hang_count rs' = 0
      | Some sg \<Rightarrow>
          (v \<longleftrightarrow> 2 \<le> hang_count sg rs) \<and>
          hang_count sg rs' = (if 2 \<le> hang_count sg rs then 0 else hang_count sg rs + 1) \<and>
          (\<forall>sg'. sg' \<noteq> sg \<longrightarrow> hang_count sg' rs' = hang_count sg' rs))) \<and>
   ((\<forall>sg. hang_count sg rs = 0 \<and> fired_times d sg rl rs \<le> 2) \<longrightarrow>
      True \<notin> set (fst (hang_checks d rl rs)))"
proof (intro conjI impI)
  assume "mtk_hw_check_dma_hang d False r rs = (v, rs')"
  then show "case fired d rs r of
        None \<Rightarrow> \<not> v \<and> wdma_hang_count rs' = 0 \<and> qdma_hang_count rs' = 0 \<and>
                 adma_hang_count rs' = 0
      | Some sg \<Rightarrow>
          (v \<longleftrightarrow> 2 \<le> hang_count sg rs) \<and>
          hang_count sg rs' = (if 2 \<le> hang_count sg rs then 0 else hang_count sg rs + 1) \<and>
          (\<forall>sg'. sg' \<noteq> sg \<longrightarrow> hang_count sg' rs' = hang_count sg' rs)"
    by (rule hang_check_step)
next
  assume "\<forall>sg. hang_count sg rs = 0 \<and> fired_times d sg rl rs \<le> 2"
  then have "\<forall>sg. hang_count sg rs + fired_times d sg rl rs \<le> 2" by simp
  then show "True \<notin> set (fst (hang_checks d rl rs))"
    by (rule no_hang_while_few)
qed



theorem hang_streaks_counterexample:
  "fst (hang_checks hang_defs0 [regs_wdma, regs_qdma, regs_wdma, regs_qdma, regs_wdma] reset0)
     = [False, False, False, False, True] \<and>
   \<not> wdma_cond hang_defs0 (snd (hang_checks hang_defs0 [regs_wdma] reset0)) regs_qdma \<and>
   \<not> wdma_cond hang_defs0
       (snd (hang_checks hang_defs0 [regs_wdma, regs_qdma, regs_wdma] reset0)) regs_qdma \<and>
   wdma_hang_count (snd (hang_checks hang_defs0 [regs_wdma] reset0)) = 1 \<and>
   wdma_hang_count (snd (hang_checks hang_defs0 [regs_wdma, regs_qdma] reset0)) = 1"
  by code_simp

theorem hang_streaks_witness:
  "mtk_hw_check_dma_hang hang_defs0 False regs_wdma reset0 =
     (False, reset0\<lparr>wdma_hang_count := 1\<rparr>) \<and>
   fired hang_defs0 reset0 regs_wdma = Some Sig_wdma \<and>
   hang_count Sig_wdma reset0 = 0 \<and> hang_count Sig_qdma reset0 = 0 \<and>
   hang_count Sig_adma reset0 = 0 \<and>
   fired_times hang_defs0 Sig_wdma [regs_wdma, regs_qdma, regs_wdma, regs_qdma] reset0 = 2 \<and>
   fired_times hang_defs0 Sig_qdma [regs_wdma, regs_qdma, regs_wdma, regs_qdma] reset0 = 2 \<and>
   fired_times hang_defs0 Sig_adma [regs_wdma, regs_qdma, regs_wdma, regs_qdma] reset0 = 0 \<and>
   hang_count Sig_wdma (reset0\<lparr>wdma_hang_count := 1\<rparr>) = 1 \<and>
   True \<notin> set (fst (hang_checks hang_defs0 [regs_wdma, regs_qdma, regs_wdma, regs_qdma] reset0))"
proof -
  let ?rl = "[regs_wdma, regs_qdma, regs_wdma, regs_qdma]"
  note inst = hang_streaks [of hang_defs0 regs_wdma reset0 False
      "reset0\<lparr>wdma_hang_count := 1\<rparr>" ?rl]
  have step: "mtk_hw_check_dma_hang hang_defs0 False regs_wdma reset0 =
     (False, reset0\<lparr>wdma_hang_count := 1\<rparr>)"
    by code_simp
  have f: "fired hang_defs0 reset0 regs_wdma = Some Sig_wdma"
    by code_simp
  have z: "hang_count Sig_wdma reset0 = 0" "hang_count Sig_qdma reset0 = 0"
    "hang_count Sig_adma reset0 = 0"
    by (simp_all add: reset0_def)
  have t: "fired_times hang_defs0 Sig_wdma ?rl reset0 = 2"
    "fired_times hang_defs0 Sig_qdma ?rl reset0 = 2"
    "fired_times hang_defs0 Sig_adma ?rl reset0 = 0"
    by code_simp+
  have all: "\<forall>sg. hang_count sg reset0 = 0 \<and> fired_times hang_defs0 sg ?rl reset0 \<le> 2"
  proof
    fix sg show "hang_count sg reset0 = 0 \<and> fired_times hang_defs0 sg ?rl reset0 \<le> 2"
      using z t by (cases sg) simp_all
  qed
  have nohang: "True \<notin> set (fst (hang_checks hang_defs0 ?rl reset0))"
    by (rule inst [THEN conjunct2, THEN mp]) (rule all)
  have "hang_count Sig_wdma (reset0\<lparr>wdma_hang_count := 1\<rparr>) = 1"
    using inst [THEN conjunct1, THEN mp, OF step] f z by simp
  with step f z t nohang show ?thesis by blast
qed

subsection \<open>The poll routines\<close>





subsection \<open>Transmit ring: submission and reclaim\<close>

subsection \<open>Reading the state after an update\<close>

lemma upd_dma_sel [simp]:
  "dma (tx_ring (upd_dma i f e)) = (dma (tx_ring e))(i := f (dma (tx_ring e) i))"
  "dma_pdma (tx_ring (upd_dma i f e)) = dma_pdma (tx_ring e)"
  "buf (tx_ring (upd_dma i f e)) = buf (tx_ring e)"
  "dma_size (tx_ring (upd_dma i f e)) = dma_size (tx_ring e)"
  "next_free (tx_ring (upd_dma i f e)) = next_free (tx_ring e)"
  "last_free (tx_ring (upd_dma i f e)) = last_free (tx_ring e)"
  "last_free_ptr (tx_ring (upd_dma i f e)) = last_free_ptr (tx_ring e)"
  "cpu_idx (tx_ring (upd_dma i f e)) = cpu_idx (tx_ring e)"
  "free_count (tx_ring (upd_dma i f e)) = free_count (tx_ring e)"
  "thresh (tx_ring (upd_dma i f e)) = thresh (tx_ring e)"
  "resetting (upd_dma i f e) = resetting e"
  "netdev_present (upd_dma i f e) = netdev_present e"
  "queues_stopped (upd_dma i f e) = queues_stopped e"
  "tx_dropped (upd_dma i f e) = tx_dropped e"
  "tx_packets (upd_dma i f e) = tx_packets e"
  "tx_bytes (upd_dma i f e) = tx_bytes e"
  "dma_log (upd_dma i f e) = dma_log e"
  "released (upd_dma i f e) = released e"
  "sent_queue (upd_dma i f e) = sent_queue e"
  "completed_queue (upd_dma i f e) = completed_queue e"
  "ctx_doorbell (upd_dma i f e) = ctx_doorbell e"
  "crx_doorbell (upd_dma i f e) = crx_doorbell e"
  by (simp_all add: upd_dma_def)

lemma upd_pdma_sel [simp]:
  "dma (tx_ring (upd_pdma i f e)) = dma (tx_ring e)"
  "dma_pdma (tx_ring (upd_pdma i f e)) = (dma_pdma (tx_ring e))(i := f (dma_pdma (tx_ring e) i))"
  "buf (tx_ring (upd_pdma i f e)) = buf (tx_ring e)"
  "dma_size (tx_ring (upd_pdma i f e)) = dma_size (tx_ring e)"
  "next_free (tx_ring (upd_pdma i f e)) = next_free (tx_ring e)"
  "last_free (tx_ring (upd_pdma i f e)) = last_free (tx_ring e)"
  "last_free_ptr (tx_ring (upd_pdma i f e)) = last_free_ptr (tx_ring e)"
  "cpu_idx (tx_ring (upd_pdma i f e)) = cpu_idx (tx_ring e)"
  "free_count (tx_ring (upd_pdma i f e)) = free_count (tx_ring e)"
  "thresh (tx_ring (upd_pdma i f e)) = thresh (tx_ring e)"
  "resetting (upd_pdma i f e) = resetting e"
  "netdev_present (upd_pdma i f e) = netdev_present e"
  "queues_stopped (upd_pdma i f e) = queues_stopped e"
  "tx_dropped (upd_pdma i f e) = tx_dropped e"
  "tx_packets (upd_pdma i f e) = tx_packets e"
  "tx_bytes (upd_pdma i f e) = tx_bytes e"
  "dma_log (upd_pdma i f e) = dma_log e"
  "released (upd_pdma i f e) = released e"
  "sent_queue (upd_pdma i f e) = sent_queue e"
  "completed_queue (upd_pdma i f e) = completed_queue e"
  "ctx_doorbell (upd_pdma i f e) = ctx_doorbell e"
  "crx_doorbell (upd_pdma i f e) = crx_doorbell e"
  by (simp_all add: upd_pdma_def)

lemma upd_buf_sel [simp]:
  "dma (tx_ring (upd_buf i f e)) = dma (tx_ring e)"
  "dma_pdma (tx_ring (upd_buf i f e)) = dma_pdma (tx_ring e)"
  "buf (tx_ring (upd_buf i f e)) = (buf (tx_ring e))(i := f (buf (tx_ring e) i))"
  "dma_size (tx_ring (upd_buf i f e)) = dma_size (tx_ring e)"
  "next_free (tx_ring (upd_buf i f e)) = next_free (tx_ring e)"
  "last_free (tx_ring (upd_buf i f e)) = last_free (tx_ring e)"
  "last_free_ptr (tx_ring (upd_buf i f e)) = last_free_ptr (tx_ring e)"
  "cpu_idx (tx_ring (upd_buf i f e)) = cpu_idx (tx_ring e)"
  "free_count (tx_ring (upd_buf i f e)) = free_count (tx_ring e)"
  "thresh (tx_ring (upd_buf i f e)) = thresh (tx_ring e)"
  "resetting (upd_buf i f e) = resetting e"
  "netdev_present (upd_buf i f e) = netdev_present e"
  "queues_stopped (upd_buf i f e) = queues_stopped e"
  "tx_dropped (upd_buf i f e) = tx_dropped e"
  "tx_packets (upd_buf i f e) = tx_packets e"
  "tx_bytes (upd_buf i f e) = tx_bytes e"
  "dma_log (upd_buf i f e) = dma_log e"
  "released (upd_buf i f e) = released e"
  "sent_queue (upd_buf i f e) = sent_queue e"
  "completed_queue (upd_buf i f e) = completed_queue e"
  "ctx_doorbell (upd_buf i f e) = ctx_doorbell e"
  "crx_doorbell (upd_buf i f e) = crx_doorbell e"
  by (simp_all add: upd_buf_def)

lemma log_dma_sel [simp]:
  "dma (tx_ring (log_dma ev e)) = dma (tx_ring e)"
  "dma_pdma (tx_ring (log_dma ev e)) = dma_pdma (tx_ring e)"
  "buf (tx_ring (log_dma ev e)) = buf (tx_ring e)"
  "dma_size (tx_ring (log_dma ev e)) = dma_size (tx_ring e)"
  "next_free (tx_ring (log_dma ev e)) = next_free (tx_ring e)"
  "last_free (tx_ring (log_dma ev e)) = last_free (tx_ring e)"
  "last_free_ptr (tx_ring (log_dma ev e)) = last_free_ptr (tx_ring e)"
  "cpu_idx (tx_ring (log_dma ev e)) = cpu_idx (tx_ring e)"
  "free_count (tx_ring (log_dma ev e)) = free_count (tx_ring e)"
  "thresh (tx_ring (log_dma ev e)) = thresh (tx_ring e)"
  "resetting (log_dma ev e) = resetting e"
  "netdev_present (log_dma ev e) = netdev_present e"
  "queues_stopped (log_dma ev e) = queues_stopped e"
  "tx_dropped (log_dma ev e) = tx_dropped e"
  "tx_packets (log_dma ev e) = tx_packets e"
  "tx_bytes (log_dma ev e) = tx_bytes e"
  "dma_log (log_dma ev e) = dma_log e @ [ev]"
  "released (log_dma ev e) = released e"
  "sent_queue (log_dma ev e) = sent_queue e"
  "completed_queue (log_dma ev e) = completed_queue e"
  "ctx_doorbell (log_dma ev e) = ctx_doorbell e"
  "crx_doorbell (log_dma ev e) = crx_doorbell e"
  by (simp_all add: log_dma_def)

text \<open>The bus-unmapping calls \<^verbatim>\<open>mtk_tx_unmap\<close> makes for a buffer-metadata record.\<close>

lemma mtk_tx_unmap_dma_log:
  "dma_log (mtk_tx_unmap soc i e) = dma_log e @
     (let b = buf (tx_ring e) i in
      if caps_qdma soc then
        (if MTK_TX_FLAGS_SINGLE0 \<in> flags b then [Unmap_single (dma_addr0 b) (dma_len0 b)]
         else if MTK_TX_FLAGS_PAGE0 \<in> flags b then [Unmap_page (dma_addr0 b) (dma_len0 b)]
         else [])
      else
        (if dma_len0 b \<noteq> 0 then [Unmap_page (dma_addr0 b) (dma_len0 b)] else []) @
        (if dma_len1 b \<noteq> 0 then [Unmap_page (dma_addr1 b) (dma_len1 b)] else []))"
  by (simp add: mtk_tx_unmap_def Let_def split: buf_data.split)

lemma mtk_tx_unmap_released:
  "released (mtk_tx_unmap soc i e) = released e @
     (case data (buf (tx_ring e) i) of Ptr p \<Rightarrow> [p] | _ \<Rightarrow> [])"
  by (simp add: mtk_tx_unmap_def Let_def split: buf_data.split)

lemma mtk_tx_unmap_sel [simp]:
  "dma (tx_ring (mtk_tx_unmap soc i e)) = dma (tx_ring e)"
  "dma_pdma (tx_ring (mtk_tx_unmap soc i e)) = dma_pdma (tx_ring e)"
  "buf (tx_ring (mtk_tx_unmap soc i e)) = (buf (tx_ring e))(i := (buf (tx_ring e) i)\<lparr>flags := {}, data := NULL\<rparr>)"
  "dma_size (tx_ring (mtk_tx_unmap soc i e)) = dma_size (tx_ring e)"
  "next_free (tx_ring (mtk_tx_unmap soc i e)) = next_free (tx_ring e)"
  "last_free (tx_ring (mtk_tx_unmap soc i e)) = last_free (tx_ring e)"
  "last_free_ptr (tx_ring (mtk_tx_unmap soc i e)) = last_free_ptr (tx_ring e)"
  "cpu_idx (tx_ring (mtk_tx_unmap soc i e)) = cpu_idx (tx_ring e)"
  "free_count (tx_ring (mtk_tx_unmap soc i e)) = free_count (tx_ring e)"
  "thresh (tx_ring (mtk_tx_unmap soc i e)) = thresh (tx_ring e)"
  "resetting (mtk_tx_unmap soc i e) = resetting e"
  "netdev_present (mtk_tx_unmap soc i e) = netdev_present e"
  "queues_stopped (mtk_tx_unmap soc i e) = queues_stopped e"
  "tx_dropped (mtk_tx_unmap soc i e) = tx_dropped e"
  "tx_packets (mtk_tx_unmap soc i e) = tx_packets e"
  "tx_bytes (mtk_tx_unmap soc i e) = tx_bytes e"
  "sent_queue (mtk_tx_unmap soc i e) = sent_queue e"
  "completed_queue (mtk_tx_unmap soc i e) = completed_queue e"
  "ctx_doorbell (mtk_tx_unmap soc i e) = ctx_doorbell e"
  "crx_doorbell (mtk_tx_unmap soc i e) = crx_doorbell e"
  by (simp_all add: mtk_tx_unmap_def Let_def split: buf_data.split)

lemma mtk_poll_tx_done_sel [simp]:
  "dma (tx_ring (snd (mtk_poll_tx_done mac skb (state, e)))) = dma (tx_ring e)"
  "dma_pdma (tx_ring (snd (mtk_poll_tx_done mac skb (state, e)))) = dma_pdma (tx_ring e)"
  "buf (tx_ring (snd (mtk_poll_tx_done mac skb (state, e)))) = buf (tx_ring e)"
  "dma_size (tx_ring (snd (mtk_poll_tx_done mac skb (state, e)))) = dma_size (tx_ring e)"
  "next_free (tx_ring (snd (mtk_poll_tx_done mac skb (state, e)))) = next_free (tx_ring e)"
  "last_free (tx_ring (snd (mtk_poll_tx_done mac skb (state, e)))) = last_free (tx_ring e)"
  "last_free_ptr (tx_ring (snd (mtk_poll_tx_done mac skb (state, e)))) = last_free_ptr (tx_ring e)"
  "cpu_idx (tx_ring (snd (mtk_poll_tx_done mac skb (state, e)))) = cpu_idx (tx_ring e)"
  "free_count (tx_ring (snd (mtk_poll_tx_done mac skb (state, e)))) = free_count (tx_ring e)"
  "thresh (tx_ring (snd (mtk_poll_tx_done mac skb (state, e)))) = thresh (tx_ring e)"
  "resetting (snd (mtk_poll_tx_done mac skb (state, e))) = resetting e"
  "netdev_present (snd (mtk_poll_tx_done mac skb (state, e))) = netdev_present e"
  "queues_stopped (snd (mtk_poll_tx_done mac skb (state, e))) = queues_stopped e"
  "tx_dropped (snd (mtk_poll_tx_done mac skb (state, e))) = tx_dropped e"
  "tx_packets (snd (mtk_poll_tx_done mac skb (state, e))) = tx_packets e + 1"
  "tx_bytes (snd (mtk_poll_tx_done mac skb (state, e))) = tx_bytes e + skb_len skb"
  "dma_log (snd (mtk_poll_tx_done mac skb (state, e))) = dma_log e"
  "released (snd (mtk_poll_tx_done mac skb (state, e))) = released e"
  "sent_queue (snd (mtk_poll_tx_done mac skb (state, e))) = sent_queue e"
  "ctx_doorbell (snd (mtk_poll_tx_done mac skb (state, e))) = ctx_doorbell e"
  "crx_doorbell (snd (mtk_poll_tx_done mac skb (state, e))) = crx_doorbell e"
  by (simp_all add: mtk_poll_tx_done_def Let_def split: option.split)

lemma mtk_poll_tx_done_total [simp]:
  "ps_total (fst (mtk_poll_tx_done mac skb (state, e))) = ps_total state + 1"
  by (simp add: mtk_poll_tx_done_def Let_def split: option.split)

lemma poll_tx_slot_budget:
  "fst (poll_tx_slot soc mac i bse) =
     (case data (buf (tx_ring (snd (snd bse))) i) of Ptr p \<Rightarrow> fst bse - 1 | _ \<Rightarrow> fst bse)"
  by (cases bse) (simp add: poll_tx_slot_def Let_def split_def split: buf_data.split packet.split)

lemma poll_tx_slot_total:
  "ps_total (fst (snd (poll_tx_slot soc mac i bse))) =
     ps_total (fst (snd bse)) +
     (case data (buf (tx_ring (snd (snd bse))) i) of
        Ptr (Skb s) \<Rightarrow> if buf_type (buf (tx_ring (snd (snd bse))) i) = MTK_TYPE_SKB then 1 else 0
      | _ \<Rightarrow> 0)"
  by (cases bse) (simp add: poll_tx_slot_def Let_def split_def split: buf_data.split packet.split)

lemma poll_tx_slot_released:
  "released (snd (snd (poll_tx_slot soc mac i bse))) =
     released (snd (snd bse)) @
     (case data (buf (tx_ring (snd (snd bse))) i) of Ptr p \<Rightarrow> [p] | _ \<Rightarrow> [])"
  by (cases bse)
     (simp add: poll_tx_slot_def Let_def split_def mtk_tx_unmap_released
           split: buf_data.split packet.split)

lemma poll_tx_slot_ring:
  "free_count (tx_ring (snd (snd (poll_tx_slot soc mac i bse)))) =
     free_count (tx_ring (snd (snd bse))) + 1"
  "last_free (tx_ring (snd (snd (poll_tx_slot soc mac i bse)))) = i"
  "buf (tx_ring (snd (snd (poll_tx_slot soc mac i bse)))) =
     (buf (tx_ring (snd (snd bse))))
       (i := (buf (tx_ring (snd (snd bse))) i)\<lparr>flags := {}, data := NULL\<rparr>)"
  "dma (tx_ring (snd (snd (poll_tx_slot soc mac i bse)))) = dma (tx_ring (snd (snd bse)))"
  "dma_size (tx_ring (snd (snd (poll_tx_slot soc mac i bse)))) =
     dma_size (tx_ring (snd (snd bse)))"
  "next_free (tx_ring (snd (snd (poll_tx_slot soc mac i bse)))) =
     next_free (tx_ring (snd (snd bse)))"
  "last_free_ptr (tx_ring (snd (snd (poll_tx_slot soc mac i bse)))) =
     last_free_ptr (tx_ring (snd (snd bse)))"
  "cpu_idx (tx_ring (snd (snd (poll_tx_slot soc mac i bse)))) =
     cpu_idx (tx_ring (snd (snd bse)))"
  "thresh (tx_ring (snd (snd (poll_tx_slot soc mac i bse)))) =
     thresh (tx_ring (snd (snd bse)))"
  "queues_stopped (snd (snd (poll_tx_slot soc mac i bse))) = queues_stopped (snd (snd bse))"
  by (cases bse; simp add: poll_tx_slot_def Let_def split_def
        split: buf_data.split packet.split)+

lemma poll_tx_slot_dma_log:
  "dma_log (snd (snd (poll_tx_slot soc mac i bse))) =
     dma_log (mtk_tx_unmap soc i (snd (snd bse)))"
  by (cases bse)
     (simp add: poll_tx_slot_def Let_def split_def mtk_tx_unmap_dma_log
           split: buf_data.split packet.split)

text \<open>One pass of each reclaim loop, as rewrite rules on an arbitrary loop state.\<close>

lemma qdma_loop_stop:
  "fst st = dma_ptr \<or> fst (snd st) = 0 \<or>
   txd3 (dma (tx_ring (snd (snd (snd st))))
           (txd2 (dma (tx_ring (snd (snd (snd st)))) (fst st)))) AND TX_DMA_OWNER_CPU d = 0 \<or>
   data (buf (tx_ring (snd (snd (snd st))))
           (txd2 (dma (tx_ring (snd (snd (snd st)))) (fst st)))) = NULL \<Longrightarrow>
   mtk_poll_tx_qdma_loop d soc dma_ptr st = Some st"
  by (subst mtk_poll_tx_qdma_loop.simps) (auto simp: Let_def split_def)

lemma qdma_loop_step:
  "fst st \<noteq> dma_ptr \<Longrightarrow> fst (snd st) \<noteq> 0 \<Longrightarrow>
   txd3 (dma (tx_ring (snd (snd (snd st))))
           (txd2 (dma (tx_ring (snd (snd (snd st)))) (fst st)))) AND TX_DMA_OWNER_CPU d \<noteq> 0 \<Longrightarrow>
   data (buf (tx_ring (snd (snd (snd st))))
           (txd2 (dma (tx_ring (snd (snd (snd st)))) (fst st)))) \<noteq> NULL \<Longrightarrow>
   mtk_poll_tx_qdma_loop d soc dma_ptr st =
   mtk_poll_tx_qdma_loop d soc dma_ptr
     (txd2 (dma (tx_ring (snd (snd (snd st)))) (fst st)),
      poll_tx_slot soc
        (mac_id (buf (tx_ring (snd (snd (snd st))))
                   (txd2 (dma (tx_ring (snd (snd (snd st)))) (fst st)))))
        (txd2 (dma (tx_ring (snd (snd (snd st)))) (fst st))) (snd st))"
  by (subst mtk_poll_tx_qdma_loop.simps) (simp add: Let_def split_def)

lemma pdma_loop_stop:
  "fst st = dma_idx \<or> fst (snd st) = 0 \<or>
   data (buf (tx_ring (snd (snd (snd st)))) (fst st)) = NULL \<Longrightarrow>
   mtk_poll_tx_pdma_loop soc dma_idx st = Some st"
  by (subst mtk_poll_tx_pdma_loop.simps) (auto simp: Let_def split_def)

lemma pdma_loop_step:
  "fst st \<noteq> dma_idx \<Longrightarrow> fst (snd st) \<noteq> 0 \<Longrightarrow>
   data (buf (tx_ring (snd (snd (snd st)))) (fst st)) \<noteq> NULL \<Longrightarrow>
   mtk_poll_tx_pdma_loop soc dma_idx st =
   mtk_poll_tx_pdma_loop soc dma_idx
     (NEXT_DESP_IDX (fst st) (dma_size (tx_ring (snd (snd (snd st))))),
      poll_tx_slot soc 0 (fst st) (snd st))"
  by (subst mtk_poll_tx_pdma_loop.simps)
     (simp add: Let_def split_def poll_tx_slot_ring)

lemma set_dma_desc_txd2 [simp]: "txd2 (mtk_tx_set_dma_desc d soc info t) = txd2 t"
  by (simp add: mtk_tx_set_dma_desc_def mtk_tx_set_dma_desc_v1_def mtk_tx_set_dma_desc_v2_def)

lemma mark_done_sel [simp]:
  "dma (tx_ring (mark_done d i e)) =
     (dma (tx_ring e))(i := (dma (tx_ring e) i)\<lparr>txd3 := txd3 (dma (tx_ring e) i) OR
                                                        TX_DMA_OWNER_CPU d\<rparr>)"
  "buf (tx_ring (mark_done d i e)) = buf (tx_ring e)"
  "free_count (tx_ring (mark_done d i e)) = free_count (tx_ring e)"
  "last_free_ptr (tx_ring (mark_done d i e)) = last_free_ptr (tx_ring e)"
  "thresh (tx_ring (mark_done d i e)) = thresh (tx_ring e)"
  "released (mark_done d i e) = released e"
  "queues_stopped (mark_done d i e) = queues_stopped e"
  by (simp_all add: mark_done_def)

lemma tx_map_linear_qdma:
  assumes "caps_qdma soc" and "next_free (tx_ring e) \<noteq> last_free (tx_ring e)"
    and "\<not> dma_mapping_error (map_head env)" and "frags skb = []"
  shows "\<exists>e2. mtk_tx_map d soc mac env skb gso e = Some (0, e2) \<and>
     free_count (tx_ring e2) = free_count (tx_ring e) - 1 \<and>
     next_free (tx_ring e2) = txd2 (dma (tx_ring e) (next_free (tx_ring e))) \<and>
     last_free (tx_ring e2) = last_free (tx_ring e) \<and>
     last_free_ptr (tx_ring e2) = last_free_ptr (tx_ring e) \<and>
     thresh (tx_ring e2) = thresh (tx_ring e) \<and>
     (\<forall>j. txd2 (dma (tx_ring e2) j) = txd2 (dma (tx_ring e) j)) \<and>
     (\<forall>j. j \<noteq> next_free (tx_ring e) \<longrightarrow> dma (tx_ring e2) j = dma (tx_ring e) j) \<and>
     (\<forall>j. j \<noteq> next_free (tx_ring e) \<longrightarrow> buf (tx_ring e2) j = buf (tx_ring e) j) \<and>
     buf (tx_ring e2) (next_free (tx_ring e)) =
       \<lparr>buf_type = MTK_TYPE_SKB, data = Ptr (Skb skb), mac_id = mac,
        flags = {MTK_TX_FLAGS_SINGLE0}, dma_addr0 = map_head env, dma_len0 = headlen skb,
        dma_addr1 = 0, dma_len1 = 0\<rparr> \<and>
     dma_log e2 = dma_log e @ [Map_single (map_head env) (headlen skb)] \<and>
     released e2 = released e \<and> queues_stopped e2 = queues_stopped e \<and>
     tx_dropped e2 = tx_dropped e"
  using assms
  by (simp add: mtk_tx_map_def Let_def setup_tx_buf_def zero_tx_buf_def)

lemma start_xmit_linear_qdma:
  assumes q: "caps_qdma soc" and nr: "\<not> resetting e"
    and fr: "1 < free_count (tx_ring e)"
    and nf: "next_free (tx_ring e) \<noteq> last_free (tx_ring e)"
    and mp: "\<not> dma_mapping_error (map_head env)"
    and lin: "frags skb = []" "gso_size skb = 0"
  shows "\<exists>e2. mtk_start_xmit d soc mac env skb e = Some (NETDEV_TX_OK, e2) \<and>
     free_count (tx_ring e2) = free_count (tx_ring e) - 1 \<and>
     next_free (tx_ring e2) = txd2 (dma (tx_ring e) (next_free (tx_ring e))) \<and>
     last_free (tx_ring e2) = last_free (tx_ring e) \<and>
     last_free_ptr (tx_ring e2) = last_free_ptr (tx_ring e) \<and>
     thresh (tx_ring e2) = thresh (tx_ring e) \<and>
     (\<forall>j. txd2 (dma (tx_ring e2) j) = txd2 (dma (tx_ring e) j)) \<and>
     (\<forall>j. j \<noteq> next_free (tx_ring e) \<longrightarrow> dma (tx_ring e2) j = dma (tx_ring e) j) \<and>
     (\<forall>j. j \<noteq> next_free (tx_ring e) \<longrightarrow> buf (tx_ring e2) j = buf (tx_ring e) j) \<and>
     buf (tx_ring e2) (next_free (tx_ring e)) =
       \<lparr>buf_type = MTK_TYPE_SKB, data = Ptr (Skb skb), mac_id = mac,
        flags = {MTK_TX_FLAGS_SINGLE0}, dma_addr0 = map_head env, dma_len0 = headlen skb,
        dma_addr1 = 0, dma_len1 = 0\<rparr> \<and>
     dma_log e2 = dma_log e @ [Map_single (map_head env) (headlen skb)] \<and>
     released e2 = released e \<and> tx_dropped e2 = tx_dropped e"
proof -
  from tx_map_linear_qdma [OF q nf mp lin(1), of d mac "gso_size skb \<noteq> 0 \<and> gso_tcp skb"]
  obtain e2 where m: "mtk_tx_map d soc mac env skb (gso_size skb \<noteq> 0 \<and> gso_tcp skb) e
      = Some (0, e2)"
    and rest: "free_count (tx_ring e2) = free_count (tx_ring e) - 1"
     "next_free (tx_ring e2) = txd2 (dma (tx_ring e) (next_free (tx_ring e)))"
     "last_free (tx_ring e2) = last_free (tx_ring e)"
     "last_free_ptr (tx_ring e2) = last_free_ptr (tx_ring e)"
     "thresh (tx_ring e2) = thresh (tx_ring e)"
     "\<forall>j. txd2 (dma (tx_ring e2) j) = txd2 (dma (tx_ring e) j)"
     "\<forall>j. j \<noteq> next_free (tx_ring e) \<longrightarrow> dma (tx_ring e2) j = dma (tx_ring e) j"
     "\<forall>j. j \<noteq> next_free (tx_ring e) \<longrightarrow> buf (tx_ring e2) j = buf (tx_ring e) j"
     "buf (tx_ring e2) (next_free (tx_ring e)) =
       \<lparr>buf_type = MTK_TYPE_SKB, data = Ptr (Skb skb), mac_id = mac,
        flags = {MTK_TX_FLAGS_SINGLE0}, dma_addr0 = map_head env, dma_len0 = headlen skb,
        dma_addr1 = 0, dma_len1 = 0\<rparr>"
     "dma_log e2 = dma_log e @ [Map_single (map_head env) (headlen skb)]"
     "released e2 = released e" "tx_dropped e2 = tx_dropped e"
    by blast
  have req: "mtk_cal_txd_req soc skb = 1"
    using lin by (simp add: mtk_cal_txd_req_def)
  show ?thesis
  proof (cases "free_count (tx_ring e2) \<le> thresh (tx_ring e2)")
    case True
    with nr fr req m lin
    have "mtk_start_xmit d soc mac env skb e = Some (NETDEV_TX_OK, e2\<lparr>queues_stopped := True\<rparr>)"
      by (simp add: mtk_start_xmit_def Let_def)
    with rest show ?thesis by simp
  next
    case False
    with nr fr req m lin
    have "mtk_start_xmit d soc mac env skb e = Some (NETDEV_TX_OK, e2)"
      by (simp add: mtk_start_xmit_def Let_def)
    with rest show ?thesis by simp
  qed
qed

lemma alloc_qdma_ring:
  assumes "caps_qdma soc"
  shows "free_count (tx_ring (mtk_tx_alloc d soc e0)) = int (MTK_QDMA_RING_SIZE d) - 2"
    and "next_free (tx_ring (mtk_tx_alloc d soc e0)) = 0"
    and "last_free (tx_ring (mtk_tx_alloc d soc e0)) = MTK_QDMA_RING_SIZE d - 1"
    and "last_free_ptr (tx_ring (mtk_tx_alloc d soc e0)) = MTK_QDMA_RING_SIZE d - 1"
    and "thresh (tx_ring (mtk_tx_alloc d soc e0)) = MAX_SKB_FRAGS d"
    and "buf (tx_ring (mtk_tx_alloc d soc e0)) i = zero_tx_buf"
    and "i < MTK_QDMA_RING_SIZE d \<Longrightarrow>
         txd2 (dma (tx_ring (mtk_tx_alloc d soc e0)) i) = (i + 1) mod MTK_QDMA_RING_SIZE d"
    and "i < MTK_QDMA_RING_SIZE d \<Longrightarrow>
         txd3 (dma (tx_ring (mtk_tx_alloc d soc e0)) i) = TX_DMA_LS0 d OR TX_DMA_OWNER_CPU d"
    and "resetting (mtk_tx_alloc d soc e0) = resetting e0"
    and "dma_log (mtk_tx_alloc d soc e0) = dma_log e0"
    and "released (mtk_tx_alloc d soc e0) = released e0"
    and "tx_dropped (mtk_tx_alloc d soc e0) = tx_dropped e0"
    and "queues_stopped (mtk_tx_alloc d soc e0) = queues_stopped e0"
  using assms by (simp_all add: mtk_tx_alloc_def Let_def)

lemma owner_bit_set: "w \<noteq> 0 \<Longrightarrow> (x OR w) AND w \<noteq> (0::u32)"
  by (simp add: bit.conj_disj_distrib2)

lemma poll_tx_total_after_loop:
  assumes "caps_qdma soc"
    and "mtk_poll_tx_qdma_loop d soc hw_ptr
           (last_free_ptr (tx_ring e), budget,
            \<lparr>ps_txq = None, ps_total = 0, ps_done = 0, ps_bytes = 0\<rparr>, e) =
         Some (cpu, b1, s1, e1)"
  shows "\<exists>e4. mtk_poll_tx d soc hw_ptr budget e = Some (int (ps_total s1), e4) \<and>
           free_count (tx_ring e4) = free_count (tx_ring e1) \<and> released e4 = released e1"
  using assms
  by (simp add: mtk_poll_tx_def mtk_poll_tx_qdma_def Let_def split: option.split)

text \<open>
  C6. On a freshly allocated queue-aware transmit ring of depth 256 the free-slot count
  is 254. Submitting a single linear 64-byte packet succeeds, maps one buffer of 64
  bytes, advances the producer by one slot and leaves the free-slot count at 253. Once
  the device has set the owner bit of that descriptor and moved its completion pointer
  off the ring's last slot, reclaim returns 1, releases that packet and restores the
  free-slot count to 254.
\<close>

theorem scenario_single_packet:
  assumes q: "caps_qdma soc" and sz: "MTK_QDMA_RING_SIZE d = 256"
    and ow: "TX_DMA_OWNER_CPU d \<noteq> 0"
    and nr: "\<not> resetting e0" and mp: "\<not> dma_mapping_error (map_head env)"
    and lin: "frags skb = []" "data_len skb = 0" "gso_size skb = 0"
    and hl: "headlen skb = 64"
    and bu: "0 < budget" and hw: "hw_ptr \<noteq> 255"
  shows "free_count (tx_ring (mtk_tx_alloc d soc e0)) = 254 \<and>
    (\<exists>e2. mtk_start_xmit d soc mac env skb (mtk_tx_alloc d soc e0) = Some (NETDEV_TX_OK, e2) \<and>
       free_count (tx_ring e2) = 253 \<and> next_free (tx_ring e2) = 1 \<and>
       dma_log e2 = dma_log e0 @ [Map_single (map_head env) 64] \<and>
       (\<exists>e4. mtk_poll_tx d soc hw_ptr budget (mark_done d 0 e2) = Some (1, e4) \<and>
          free_count (tx_ring e4) = 254 \<and> released e4 = released e0 @ [Skb skb]))"
proof -
  let ?e1 = "mtk_tx_alloc d soc e0"
  note a = alloc_qdma_ring [OF q, where d = d and ?e0.0 = e0]
  have fc: "free_count (tx_ring ?e1) = 254" using a(1) sz by simp
  have pre: "\<not> resetting ?e1" "1 < free_count (tx_ring ?e1)"
    "next_free (tx_ring ?e1) \<noteq> last_free (tx_ring ?e1)"
    using a nr sz by simp_all
  from start_xmit_linear_qdma [OF q pre mp lin(1) lin(3), of d mac]
  obtain e2 where x: "mtk_start_xmit d soc mac env skb ?e1 = Some (NETDEV_TX_OK, e2)"
    and f2: "free_count (tx_ring e2) = 253"
    and n2: "next_free (tx_ring e2) = 1"
    and lp: "last_free_ptr (tx_ring e2) = 255"
    and t2: "\<forall>j. txd2 (dma (tx_ring e2) j) = txd2 (dma (tx_ring ?e1) j)"
    and d2: "\<forall>j. j \<noteq> 0 \<longrightarrow> dma (tx_ring e2) j = dma (tx_ring ?e1) j"
    and b2: "\<forall>j. j \<noteq> 0 \<longrightarrow> buf (tx_ring e2) j = buf (tx_ring ?e1) j"
    and b0: "buf (tx_ring e2) 0 =
       \<lparr>buf_type = MTK_TYPE_SKB, data = Ptr (Skb skb), mac_id = mac,
        flags = {MTK_TX_FLAGS_SINGLE0}, dma_addr0 = map_head env, dma_len0 = headlen skb,
        dma_addr1 = 0, dma_len1 = 0\<rparr>"
    and l2: "dma_log e2 = dma_log e0 @ [Map_single (map_head env) 64]"
    and r2: "released e2 = released e0"
    using a sz hl by auto
  let ?e3 = "mark_done d 0 e2"
  let ?s0 = "\<lparr>ps_txq = None, ps_total = 0, ps_done = 0, ps_bytes = 0\<rparr>"
  let ?r = "poll_tx_slot soc mac 0 (budget, ?s0, ?e3)"
  have nx255: "txd2 (dma (tx_ring ?e3) 255) = 0"
    using t2 a(7) [of 255] sz by simp
  have nx0: "txd2 (dma (tx_ring ?e3) 0) = 1"
    using t2 a(7) [of 0] sz by simp
  have own0: "txd3 (dma (tx_ring ?e3) 0) AND TX_DMA_OWNER_CPU d \<noteq> 0"
    using ow by (simp add: owner_bit_set)
  have step1: "mtk_poll_tx_qdma_loop d soc hw_ptr (255, budget, ?s0, ?e3) =
               mtk_poll_tx_qdma_loop d soc hw_ptr (0, ?r)"
    using qdma_loop_step [of "(255, budget, ?s0, ?e3)" hw_ptr d soc] hw bu nx255 own0 b0
    by simp
  have dnull: "data (buf (tx_ring (snd (snd ?r))) 1) = NULL"
    using b2 a(6) [of 1] by (simp add: poll_tx_slot_ring zero_tx_buf_def)
  have nx0': "txd2 (dma (tx_ring (snd (snd ?r))) 0) = 1"
    using nx0 by (simp add: poll_tx_slot_ring)
  have step2: "mtk_poll_tx_qdma_loop d soc hw_ptr (0, ?r) = Some (0, ?r)"
    using qdma_loop_stop [of "(0, ?r)" hw_ptr d soc] dnull nx0' by simp
  have loop: "mtk_poll_tx_qdma_loop d soc hw_ptr (last_free_ptr (tx_ring ?e3), budget, ?s0, ?e3)
              = Some (0, fst ?r, fst (snd ?r), snd (snd ?r))"
    using step1 step2 lp by simp
  from poll_tx_total_after_loop [OF q loop]
  obtain e4 where p: "mtk_poll_tx d soc hw_ptr budget ?e3 = Some (int (ps_total (fst (snd ?r))), e4)"
    and f4: "free_count (tx_ring e4) = free_count (tx_ring (snd (snd ?r)))"
    and r4: "released e4 = released (snd (snd ?r))"
    by blast
  have tot: "ps_total (fst (snd ?r)) = 1"
    using b0 by (simp add: poll_tx_slot_total)
  have "free_count (tx_ring e4) = 254"
    using f4 f2 by (simp add: poll_tx_slot_ring)
  moreover have "released e4 = released e0 @ [Skb skb]"
    using r4 r2 b0 by (simp add: poll_tx_slot_released)
  ultimately show ?thesis
    using fc x f2 n2 l2 p tot by auto
qed

theorem scenario_single_packet_witness:
  "caps_qdma soc_qdma \<and> MTK_QDMA_RING_SIZE tx_defs0 = 256 \<and> TX_DMA_OWNER_CPU tx_defs0 \<noteq> 0 \<and>
   \<not> resetting eth_blank \<and> \<not> dma_mapping_error (map_head env_ok) \<and>
   frags skb_linear64 = [] \<and> data_len skb_linear64 = 0 \<and> gso_size skb_linear64 = 0 \<and>
   headlen skb_linear64 = 64 \<and> (0::int) < 64 \<and> (0::nat) \<noteq> 255 \<and>
   free_count (tx_ring (mtk_tx_alloc tx_defs0 soc_qdma eth_blank)) = 254 \<and>
   (\<exists>e2. mtk_start_xmit tx_defs0 soc_qdma 0 env_ok skb_linear64
            (mtk_tx_alloc tx_defs0 soc_qdma eth_blank) = Some (NETDEV_TX_OK, e2) \<and>
       free_count (tx_ring e2) = 253 \<and> next_free (tx_ring e2) = 1 \<and>
       dma_log e2 = dma_log eth_blank @ [Map_single (map_head env_ok) 64] \<and>
       (\<exists>e4. mtk_poll_tx tx_defs0 soc_qdma 0 64 (mark_done tx_defs0 0 e2) = Some (1, e4) \<and>
          free_count (tx_ring e4) = 254 \<and>
          released e4 = released eth_blank @ [Skb skb_linear64]))"
proof -
  have h: "caps_qdma soc_qdma" "MTK_QDMA_RING_SIZE tx_defs0 = 256"
    "TX_DMA_OWNER_CPU tx_defs0 \<noteq> 0" "\<not> resetting eth_blank"
    "\<not> dma_mapping_error (map_head env_ok)"
    "frags skb_linear64 = []" "data_len skb_linear64 = 0" "gso_size skb_linear64 = 0"
    "headlen skb_linear64 = 64" "(0::int) < 64" "(0::nat) \<noteq> 255"
    by code_simp+
  from scenario_single_packet [OF h, of 0] h show ?thesis
    by blast
qed

subsection \<open>Transmit reclaim over a run of slots\<close>

lemma poll_tx_slot_unmaps:
  "dma_log (snd (snd (poll_tx_slot soc mac i bse))) =
     dma_log (snd (snd bse)) @
     (let b = buf (tx_ring (snd (snd bse))) i in
      if caps_qdma soc then
        (if MTK_TX_FLAGS_SINGLE0 \<in> flags b then [Unmap_single (dma_addr0 b) (dma_len0 b)]
         else if MTK_TX_FLAGS_PAGE0 \<in> flags b then [Unmap_page (dma_addr0 b) (dma_len0 b)]
         else [])
      else
        (if dma_len0 b \<noteq> 0 then [Unmap_page (dma_addr0 b) (dma_len0 b)] else []) @
        (if dma_len1 b \<noteq> 0 then [Unmap_page (dma_addr1 b) (dma_len1 b)] else []))"
  by (simp add: poll_tx_slot_dma_log mtk_tx_unmap_dma_log)

text \<open>
  What reclaiming a run of distinct slots, one after the other, does to the budget, the
  free-slot counter, the released objects, the bus mappings and the buffer metadata.
\<close>

lemma fold_slots_effects:
  assumes "distinct sl"
  shows "fst (fold (\<lambda>i bse. poll_tx_slot soc (mc i bse) i bse) sl bse) =
       fst bse - int (length (concat (map (\<lambda>i.
         case data (buf (tx_ring (snd (snd bse))) i) of Ptr p \<Rightarrow> [p] | _ \<Rightarrow> []) sl))) \<and>
    free_count (tx_ring (snd (snd (fold (\<lambda>i bse. poll_tx_slot soc (mc i bse) i bse) sl bse)))) =
       free_count (tx_ring (snd (snd bse))) + int (length sl) \<and>
    released (snd (snd (fold (\<lambda>i bse. poll_tx_slot soc (mc i bse) i bse) sl bse))) =
       released (snd (snd bse)) @ concat (map (\<lambda>i.
         case data (buf (tx_ring (snd (snd bse))) i) of Ptr p \<Rightarrow> [p] | _ \<Rightarrow> []) sl) \<and>
    dma_log (snd (snd (fold (\<lambda>i bse. poll_tx_slot soc (mc i bse) i bse) sl bse))) =
       dma_log (snd (snd bse)) @ concat (map (\<lambda>i.
         let b = buf (tx_ring (snd (snd bse))) i in
         if caps_qdma soc then
           (if MTK_TX_FLAGS_SINGLE0 \<in> flags b then [Unmap_single (dma_addr0 b) (dma_len0 b)]
            else if MTK_TX_FLAGS_PAGE0 \<in> flags b then [Unmap_page (dma_addr0 b) (dma_len0 b)]
            else [])
         else
           (if dma_len0 b \<noteq> 0 then [Unmap_page (dma_addr0 b) (dma_len0 b)] else []) @
           (if dma_len1 b \<noteq> 0 then [Unmap_page (dma_addr1 b) (dma_len1 b)] else [])) sl) \<and>
    buf (tx_ring (snd (snd (fold (\<lambda>i bse. poll_tx_slot soc (mc i bse) i bse) sl bse)))) =
       (\<lambda>i. if i \<in> set sl then (buf (tx_ring (snd (snd bse))) i)\<lparr>flags := {}, data := NULL\<rparr>
            else buf (tx_ring (snd (snd bse))) i) \<and>
    last_free (tx_ring (snd (snd (fold (\<lambda>i bse. poll_tx_slot soc (mc i bse) i bse) sl bse)))) =
       (if sl = [] then last_free (tx_ring (snd (snd bse))) else last sl) \<and>
    dma (tx_ring (snd (snd (fold (\<lambda>i bse. poll_tx_slot soc (mc i bse) i bse) sl bse)))) =
       dma (tx_ring (snd (snd bse))) \<and>
    dma_size (tx_ring (snd (snd (fold (\<lambda>i bse. poll_tx_slot soc (mc i bse) i bse) sl bse)))) =
       dma_size (tx_ring (snd (snd bse))) \<and>
    last_free_ptr (tx_ring (snd (snd (fold (\<lambda>i bse. poll_tx_slot soc (mc i bse) i bse) sl bse)))) =
       last_free_ptr (tx_ring (snd (snd bse))) \<and>
    cpu_idx (tx_ring (snd (snd (fold (\<lambda>i bse. poll_tx_slot soc (mc i bse) i bse) sl bse)))) =
       cpu_idx (tx_ring (snd (snd bse)))"
  using assms
proof (induction sl arbitrary: bse)
  case Nil
  show ?case by simp
next
  case (Cons i sl)
  let ?b1 = "poll_tx_slot soc (mc i bse) i bse"
  from Cons.prems have d: "distinct sl" and ni: "i \<notin> set sl" by simp_all
  have same: "buf (tx_ring (snd (snd ?b1))) j = buf (tx_ring (snd (snd bse))) j"
    if "j \<in> set sl" for j
  proof -
    from that ni have "j \<noteq> i" by auto
    then show ?thesis by (simp add: poll_tx_slot_ring)
  qed
  note ih = Cons.IH [OF d, of ?b1]
  have m1: "map (\<lambda>j. case data (buf (tx_ring (snd (snd ?b1))) j) of Ptr p \<Rightarrow> [p] | _ \<Rightarrow> []) sl =
          map (\<lambda>j. case data (buf (tx_ring (snd (snd bse))) j) of Ptr p \<Rightarrow> [p] | _ \<Rightarrow> []) sl"
    by (rule map_cong [OF refl]) (simp add: same)
  have m2: "map (\<lambda>i.
         let b = buf (tx_ring (snd (snd ?b1))) i in
         if caps_qdma soc then
           (if MTK_TX_FLAGS_SINGLE0 \<in> flags b then [Unmap_single (dma_addr0 b) (dma_len0 b)]
            else if MTK_TX_FLAGS_PAGE0 \<in> flags b then [Unmap_page (dma_addr0 b) (dma_len0 b)]
            else [])
         else
           (if dma_len0 b \<noteq> 0 then [Unmap_page (dma_addr0 b) (dma_len0 b)] else []) @
           (if dma_len1 b \<noteq> 0 then [Unmap_page (dma_addr1 b) (dma_len1 b)] else [])) sl =
       map (\<lambda>i.
         let b = buf (tx_ring (snd (snd bse))) i in
         if caps_qdma soc then
           (if MTK_TX_FLAGS_SINGLE0 \<in> flags b then [Unmap_single (dma_addr0 b) (dma_len0 b)]
            else if MTK_TX_FLAGS_PAGE0 \<in> flags b then [Unmap_page (dma_addr0 b) (dma_len0 b)]
            else [])
         else
           (if dma_len0 b \<noteq> 0 then [Unmap_page (dma_addr0 b) (dma_len0 b)] else []) @
           (if dma_len1 b \<noteq> 0 then [Unmap_page (dma_addr1 b) (dma_len1 b)] else [])) sl"
    by (rule map_cong [OF refl]) (simp add: same)
  show ?case
  proof (intro conjI)
    from ih m1 show "fst (fold (\<lambda>i bse. poll_tx_slot soc (mc i bse) i bse) (i # sl) bse) =
       fst bse - int (length (concat (map (\<lambda>i.
         case data (buf (tx_ring (snd (snd bse))) i) of Ptr p \<Rightarrow> [p] | _ \<Rightarrow> []) (i # sl))))"
      by (simp add: poll_tx_slot_budget split: buf_data.split)
    from ih m1 show "released (snd (snd (fold (\<lambda>i bse. poll_tx_slot soc (mc i bse) i bse) (i # sl) bse))) =
       released (snd (snd bse)) @ concat (map (\<lambda>i.
         case data (buf (tx_ring (snd (snd bse))) i) of Ptr p \<Rightarrow> [p] | _ \<Rightarrow> []) (i # sl))"
      by (simp add: poll_tx_slot_released)
    from ih m2 show "dma_log (snd (snd (fold (\<lambda>i bse. poll_tx_slot soc (mc i bse) i bse) (i # sl) bse))) =
       dma_log (snd (snd bse)) @ concat (map (\<lambda>i.
         let b = buf (tx_ring (snd (snd bse))) i in
         if caps_qdma soc then
           (if MTK_TX_FLAGS_SINGLE0 \<in> flags b then [Unmap_single (dma_addr0 b) (dma_len0 b)]
            else if MTK_TX_FLAGS_PAGE0 \<in> flags b then [Unmap_page (dma_addr0 b) (dma_len0 b)]
            else [])
         else
           (if dma_len0 b \<noteq> 0 then [Unmap_page (dma_addr0 b) (dma_len0 b)] else []) @
           (if dma_len1 b \<noteq> 0 then [Unmap_page (dma_addr1 b) (dma_len1 b)] else [])) (i # sl))"
      by (simp add: poll_tx_slot_unmaps)
    from ih ni show "buf (tx_ring (snd (snd (fold (\<lambda>i bse. poll_tx_slot soc (mc i bse) i bse) (i # sl) bse)))) =
       (\<lambda>j. if j \<in> set (i # sl) then (buf (tx_ring (snd (snd bse))) j)\<lparr>flags := {}, data := NULL\<rparr>
            else buf (tx_ring (snd (snd bse))) j)"
      by (auto simp: poll_tx_slot_ring fun_eq_iff)
  qed (use ih in \<open>simp_all add: poll_tx_slot_ring\<close>)
qed

text \<open>
  The reclaim loops as runs of \<open>poll_tx_slot\<close>. The loop goes on while the completion
  pointer has not reached the hardware's pointer, budget is left and the next slot holds
  data (and, on the queue-aware ring, is owned by the host); \<open>sl\<close> lists the slots it
  reclaims in order.
\<close>

lemma pdma_loop_fold:
  assumes dist: "distinct sl"
    and chain: "\<forall>k < length sl. sl ! k =
        ((\<lambda>c. NEXT_DESP_IDX c (dma_size (tx_ring (snd (snd bse))))) ^^ k) cpu"
    and live: "\<forall>k < length sl. sl ! k \<noteq> dma_idx \<and>
        data (buf (tx_ring (snd (snd bse))) (sl ! k)) \<noteq> NULL \<and>
        fst bse \<noteq> int (length (concat (map (\<lambda>i.
          case data (buf (tx_ring (snd (snd bse))) i) of Ptr p \<Rightarrow> [p] | _ \<Rightarrow> [])
          (take k sl))))"
    and stop: "((\<lambda>c. NEXT_DESP_IDX c (dma_size (tx_ring (snd (snd bse))))) ^^ length sl) cpu
          = dma_idx \<or>
        fst bse = int (length (concat (map (\<lambda>i.
          case data (buf (tx_ring (snd (snd bse))) i) of Ptr p \<Rightarrow> [p] | _ \<Rightarrow> []) sl))) \<or>
        data (buf (tx_ring (snd (snd bse)))
          (((\<lambda>c. NEXT_DESP_IDX c (dma_size (tx_ring (snd (snd bse))))) ^^ length sl) cpu))
          = NULL"
  shows "mtk_poll_tx_pdma_loop soc dma_idx (cpu, bse) =
     Some (((\<lambda>c. NEXT_DESP_IDX c (dma_size (tx_ring (snd (snd bse))))) ^^ length sl) cpu,
           fold (\<lambda>i bse. poll_tx_slot soc 0 i bse) sl bse)"
  using assms
proof (induction sl arbitrary: cpu bse)
  case Nil
  then show ?case
    using pdma_loop_stop [of "(cpu, bse)" dma_idx soc] by simp
next
  case (Cons i sl)
  let ?nx = "\<lambda>c. NEXT_DESP_IDX c (dma_size (tx_ring (snd (snd bse))))"
  let ?obj = "\<lambda>b j. case data (buf (tx_ring (snd (snd b))) j) of Ptr p \<Rightarrow> [p] | _ \<Rightarrow> []"
  let ?b1 = "poll_tx_slot soc 0 cpu bse"
  from Cons.prems(2) [rule_format, of 0] have i: "i = cpu" by simp
  from Cons.prems(3) [rule_format, of 0] i
  have l0: "cpu \<noteq> dma_idx" "data (buf (tx_ring (snd (snd bse))) cpu) \<noteq> NULL" "fst bse \<noteq> 0"
    by simp_all
  from Cons.prems(1) i have d: "distinct sl" and ni: "cpu \<notin> set sl" by simp_all
  have sz: "dma_size (tx_ring (snd (snd ?b1))) = dma_size (tx_ring (snd (snd bse)))"
    by (simp add: poll_tx_slot_ring)
  have same: "buf (tx_ring (snd (snd ?b1))) j = buf (tx_ring (snd (snd bse))) j"
    if "j \<in> set sl" for j
  proof -
    from that ni have "j \<noteq> cpu" by auto
    then show ?thesis by (simp add: poll_tx_slot_ring)
  qed
  have objs: "map (?obj ?b1) xs = map (?obj bse) xs" if "set xs \<subseteq> set sl" for xs
    using that by (intro map_cong [OF refl]) (auto simp: same)
  have b1: "fst ?b1 = fst bse - int (length (?obj bse cpu))"
    by (simp add: poll_tx_slot_budget split: buf_data.split)
  have step: "mtk_poll_tx_pdma_loop soc dma_idx (cpu, bse) =
              mtk_poll_tx_pdma_loop soc dma_idx (?nx cpu, ?b1)"
    using pdma_loop_step [of "(cpu, bse)" dma_idx soc] l0 by simp
  have chain': "\<forall>k < length sl. sl ! k =
        ((\<lambda>c. NEXT_DESP_IDX c (dma_size (tx_ring (snd (snd ?b1))))) ^^ k) (?nx cpu)"
  proof (intro allI impI)
    fix k assume "k < length sl"
    with Cons.prems(2) [rule_format, of "Suc k"]
    have "sl ! k = (?nx ^^ Suc k) cpu" by (simp del: funpow.simps)
    then show "sl ! k =
        ((\<lambda>c. NEXT_DESP_IDX c (dma_size (tx_ring (snd (snd ?b1))))) ^^ k) (?nx cpu)"
      unfolding sz by (simp add: funpow_Suc_right del: funpow.simps)
  qed
  have live': "\<forall>k < length sl. sl ! k \<noteq> dma_idx \<and>
        data (buf (tx_ring (snd (snd ?b1))) (sl ! k)) \<noteq> NULL \<and>
        fst ?b1 \<noteq> int (length (concat (map (?obj ?b1) (take k sl))))"
  proof (intro allI impI)
    fix k assume k: "k < length sl"
    from Cons.prems(3) [rule_format, of "Suc k"] k i
    have a: "sl ! k \<noteq> dma_idx" "data (buf (tx_ring (snd (snd bse))) (sl ! k)) \<noteq> NULL"
      "fst bse \<noteq> int (length (?obj bse cpu) + length (concat (map (?obj bse) (take k sl))))"
      by simp_all
    from k have "sl ! k \<in> set sl" by simp
    then have s: "buf (tx_ring (snd (snd ?b1))) (sl ! k) = buf (tx_ring (snd (snd bse))) (sl ! k)"
      by (rule same)
    have "set (take k sl) \<subseteq> set sl" by (rule set_take_subset)
    note o = objs [OF this]
    from a b1 s
    show "sl ! k \<noteq> dma_idx \<and>
        data (buf (tx_ring (snd (snd ?b1))) (sl ! k)) \<noteq> NULL \<and>
        fst ?b1 \<noteq> int (length (concat (map (?obj ?b1) (take k sl))))"
      unfolding o by simp
  qed
  have fp: "((\<lambda>c. NEXT_DESP_IDX c (dma_size (tx_ring (snd (snd ?b1))))) ^^ length sl) (?nx cpu)
            = (?nx ^^ length (i # sl)) cpu"
    unfolding sz by (simp add: funpow_Suc_right del: funpow.simps)
  have stop': "((\<lambda>c. NEXT_DESP_IDX c (dma_size (tx_ring (snd (snd ?b1))))) ^^ length sl) (?nx cpu)
          = dma_idx \<or>
        fst ?b1 = int (length (concat (map (?obj ?b1) sl))) \<or>
        data (buf (tx_ring (snd (snd ?b1)))
          (((\<lambda>c. NEXT_DESP_IDX c (dma_size (tx_ring (snd (snd ?b1))))) ^^ length sl) (?nx cpu)))
          = NULL"
  proof -
    from Cons.prems(4) i
    have "(?nx ^^ length (i # sl)) cpu = dma_idx \<or>
        fst bse = int (length (?obj bse cpu) + length (concat (map (?obj bse) sl))) \<or>
        data (buf (tx_ring (snd (snd bse))) ((?nx ^^ length (i # sl)) cpu)) = NULL"
      by (simp del: funpow.simps)
    moreover have "data (buf (tx_ring (snd (snd ?b1))) c) = NULL"
      if "data (buf (tx_ring (snd (snd bse))) c) = NULL" for c
      using that by (simp add: poll_tx_slot_ring)
    ultimately show ?thesis
      unfolding fp objs [OF subset_refl] using b1 by (auto simp del: funpow.simps)
  qed
  from Cons.IH [OF d chain' live' stop'] step fp i show ?case
    by (simp del: funpow.simps)
qed

lemma qdma_loop_fold:
  assumes dist: "distinct sl"
    and chain: "\<forall>k < length sl. sl ! k =
        ((\<lambda>c. txd2 (dma (tx_ring (snd (snd bse))) c)) ^^ Suc k) cpu"
    and live: "\<forall>k < length sl.
        ((\<lambda>c. txd2 (dma (tx_ring (snd (snd bse))) c)) ^^ k) cpu \<noteq> dma_ptr \<and>
        txd3 (dma (tx_ring (snd (snd bse))) (sl ! k)) AND TX_DMA_OWNER_CPU d \<noteq> 0 \<and>
        data (buf (tx_ring (snd (snd bse))) (sl ! k)) \<noteq> NULL \<and>
        fst bse \<noteq> int (length (concat (map (\<lambda>i.
          case data (buf (tx_ring (snd (snd bse))) i) of Ptr p \<Rightarrow> [p] | _ \<Rightarrow> [])
          (take k sl))))"
    and stop: "((\<lambda>c. txd2 (dma (tx_ring (snd (snd bse))) c)) ^^ length sl) cpu = dma_ptr \<or>
        fst bse = int (length (concat (map (\<lambda>i.
          case data (buf (tx_ring (snd (snd bse))) i) of Ptr p \<Rightarrow> [p] | _ \<Rightarrow> []) sl))) \<or>
        txd3 (dma (tx_ring (snd (snd bse)))
          (((\<lambda>c. txd2 (dma (tx_ring (snd (snd bse))) c)) ^^ Suc (length sl)) cpu))
          AND TX_DMA_OWNER_CPU d = 0 \<or>
        data (buf (tx_ring (snd (snd bse)))
          (((\<lambda>c. txd2 (dma (tx_ring (snd (snd bse))) c)) ^^ Suc (length sl)) cpu)) = NULL"
  shows "mtk_poll_tx_qdma_loop d soc dma_ptr (cpu, bse) =
     Some (((\<lambda>c. txd2 (dma (tx_ring (snd (snd bse))) c)) ^^ length sl) cpu,
           fold (\<lambda>i bse. poll_tx_slot soc (mac_id (buf (tx_ring (snd (snd bse))) i)) i bse)
             sl bse)"
  using assms
proof (induction sl arbitrary: cpu bse)
  case Nil
  then show ?case
    using qdma_loop_stop [of "(cpu, bse)" dma_ptr d soc] by simp
next
  case (Cons i sl)
  let ?nx = "\<lambda>c. txd2 (dma (tx_ring (snd (snd bse))) c)"
  let ?obj = "\<lambda>b j. case data (buf (tx_ring (snd (snd b))) j) of Ptr p \<Rightarrow> [p] | _ \<Rightarrow> []"
  let ?b1 = "poll_tx_slot soc (mac_id (buf (tx_ring (snd (snd bse))) i)) i bse"
  from Cons.prems(2) [rule_format, of 0] have i: "i = ?nx cpu" by simp
  from Cons.prems(3) [rule_format, of 0]
  have l0: "cpu \<noteq> dma_ptr" "txd3 (dma (tx_ring (snd (snd bse))) i) AND TX_DMA_OWNER_CPU d \<noteq> 0"
    "data (buf (tx_ring (snd (snd bse))) i) \<noteq> NULL" "fst bse \<noteq> 0"
    by simp_all
  from Cons.prems(1) have d: "distinct sl" and ni: "i \<notin> set sl" by simp_all
  have dm: "dma (tx_ring (snd (snd ?b1))) = dma (tx_ring (snd (snd bse)))"
    by (simp add: poll_tx_slot_ring)
  have same: "buf (tx_ring (snd (snd ?b1))) j = buf (tx_ring (snd (snd bse))) j"
    if "j \<in> set sl" for j
  proof -
    from that ni have "j \<noteq> i" by auto
    then show ?thesis by (simp add: poll_tx_slot_ring)
  qed
  have objs: "map (?obj ?b1) xs = map (?obj bse) xs" if "set xs \<subseteq> set sl" for xs
    using that by (intro map_cong [OF refl]) (auto simp: same)
  have b1: "fst ?b1 = fst bse - int (length (?obj bse i))"
    by (simp add: poll_tx_slot_budget split: buf_data.split)
  have step: "mtk_poll_tx_qdma_loop d soc dma_ptr (cpu, bse) =
              mtk_poll_tx_qdma_loop d soc dma_ptr (i, ?b1)"
    using qdma_loop_step [of "(cpu, bse)" dma_ptr d soc] l0 i by simp
  have chain': "\<forall>k < length sl. sl ! k =
        ((\<lambda>c. txd2 (dma (tx_ring (snd (snd ?b1))) c)) ^^ Suc k) i"
  proof (intro allI impI)
    fix k assume "k < length sl"
    with Cons.prems(2) [rule_format, of "Suc k"]
    have "sl ! k = (?nx ^^ Suc (Suc k)) cpu" by (simp del: funpow.simps)
    then show "sl ! k = ((\<lambda>c. txd2 (dma (tx_ring (snd (snd ?b1))) c)) ^^ Suc k) i"
      unfolding dm by (simp add: i funpow_Suc_right [of "Suc k"] del: funpow.simps)
  qed
  have live': "\<forall>k < length sl.
        ((\<lambda>c. txd2 (dma (tx_ring (snd (snd ?b1))) c)) ^^ k) i \<noteq> dma_ptr \<and>
        txd3 (dma (tx_ring (snd (snd ?b1))) (sl ! k)) AND TX_DMA_OWNER_CPU d \<noteq> 0 \<and>
        data (buf (tx_ring (snd (snd ?b1))) (sl ! k)) \<noteq> NULL \<and>
        fst ?b1 \<noteq> int (length (concat (map (?obj ?b1) (take k sl))))"
  proof (intro allI impI)
    fix k assume k: "k < length sl"
    from Cons.prems(3) [rule_format, of "Suc k"] k
    have a: "(?nx ^^ Suc k) cpu \<noteq> dma_ptr"
      "txd3 (dma (tx_ring (snd (snd bse))) (sl ! k)) AND TX_DMA_OWNER_CPU d \<noteq> 0"
      "data (buf (tx_ring (snd (snd bse))) (sl ! k)) \<noteq> NULL"
      "fst bse \<noteq> int (length (?obj bse i) + length (concat (map (?obj bse) (take k sl))))"
      by (simp_all del: funpow.simps)
    from a(1) have a1: "(?nx ^^ k) i \<noteq> dma_ptr"
      by (simp add: i funpow_Suc_right del: funpow.simps)
    from k have "sl ! k \<in> set sl" by simp
    then have s: "buf (tx_ring (snd (snd ?b1))) (sl ! k) = buf (tx_ring (snd (snd bse))) (sl ! k)"
      by (rule same)
    have "set (take k sl) \<subseteq> set sl" by (rule set_take_subset)
    note o = objs [OF this]
    from a a1 b1 s
    show "((\<lambda>c. txd2 (dma (tx_ring (snd (snd ?b1))) c)) ^^ k) i \<noteq> dma_ptr \<and>
        txd3 (dma (tx_ring (snd (snd ?b1))) (sl ! k)) AND TX_DMA_OWNER_CPU d \<noteq> 0 \<and>
        data (buf (tx_ring (snd (snd ?b1))) (sl ! k)) \<noteq> NULL \<and>
        fst ?b1 \<noteq> int (length (concat (map (?obj ?b1) (take k sl))))"
      unfolding dm o by (simp del: funpow.simps)
  qed
  have fp: "(?nx ^^ n) i = (?nx ^^ Suc n) cpu" for n
    by (simp add: i funpow_Suc_right del: funpow.simps)
  have stop': "((\<lambda>c. txd2 (dma (tx_ring (snd (snd ?b1))) c)) ^^ length sl) i = dma_ptr \<or>
        fst ?b1 = int (length (concat (map (?obj ?b1) sl))) \<or>
        txd3 (dma (tx_ring (snd (snd ?b1)))
          (((\<lambda>c. txd2 (dma (tx_ring (snd (snd ?b1))) c)) ^^ Suc (length sl)) i))
          AND TX_DMA_OWNER_CPU d = 0 \<or>
        data (buf (tx_ring (snd (snd ?b1)))
          (((\<lambda>c. txd2 (dma (tx_ring (snd (snd ?b1))) c)) ^^ Suc (length sl)) i)) = NULL"
  proof -
    from Cons.prems(4)
    have "(?nx ^^ Suc (length sl)) cpu = dma_ptr \<or>
        fst bse = int (length (?obj bse i) + length (concat (map (?obj bse) sl))) \<or>
        txd3 (dma (tx_ring (snd (snd bse))) ((?nx ^^ Suc (Suc (length sl))) cpu))
          AND TX_DMA_OWNER_CPU d = 0 \<or>
        data (buf (tx_ring (snd (snd bse))) ((?nx ^^ Suc (Suc (length sl))) cpu)) = NULL"
      by (simp del: funpow.simps)
    moreover have "data (buf (tx_ring (snd (snd ?b1))) c) = NULL"
      if "data (buf (tx_ring (snd (snd bse))) c) = NULL" for c
      using that by (simp add: poll_tx_slot_ring)
    ultimately show ?thesis
      unfolding dm objs [OF subset_refl] fp using b1
      by (auto simp del: funpow.simps)
  qed
  note ih = Cons.IH [OF d chain' live' stop', unfolded dm fp]
  from ih step show ?case
    by (simp del: funpow.simps)
qed

lemma poll_tx_slot_crx:
  "crx_doorbell (snd (snd (poll_tx_slot soc mac i bse))) = crx_doorbell (snd (snd bse))"
  by (cases bse)
     (simp add: poll_tx_slot_def Let_def split_def mtk_tx_unmap_def mtk_poll_tx_done_def
           split: buf_data.split packet.split option.split)

lemma crx_unchanged:
  assumes "distinct sl"
  shows "crx_doorbell (snd (snd (fold (\<lambda>i bse. poll_tx_slot soc (mc i bse) i bse) sl bse))) =
         crx_doorbell (snd (snd bse))"
  by (induction sl arbitrary: bse) (simp_all add: poll_tx_slot_crx)

text \<open>
  C10. Every slot the reclaim loops process has the mappings recorded in its metadata
  unmapped and the metadata cleared, increments the free-slot counter and becomes the
  last-free slot; the remaining budget is decremented only when the slot's metadata
  points to a packet or frame object, not when it holds the dummy sentinel. A reclaim
  pass of either backend goes on from the completion pointer while the hardware's
  pointer is not reached, budget is left and the next slot holds data (and, on the
  queue-aware ring, is owned by the host). It returns; over the slots \<open>sl\<close> it
  reclaims the budget drops by the number of packet and frame objects among them, which
  are the objects released, while the free-slot counter and the completion pointer
  advance by the number of slots, and every one of these slots is unmapped and cleared.
\<close>

theorem reclaim_budget_counts_packets:
  "(fst (poll_tx_slot soc mac i (budget, state, e)) =
      (case data (buf (tx_ring e) i) of Ptr p \<Rightarrow> budget - 1 | _ \<Rightarrow> budget) \<and>
    free_count (tx_ring (snd (snd (poll_tx_slot soc mac i (budget, state, e))))) =
      free_count (tx_ring e) + 1 \<and>
    last_free (tx_ring (snd (snd (poll_tx_slot soc mac i (budget, state, e))))) = i \<and>
    buf (tx_ring (snd (snd (poll_tx_slot soc mac i (budget, state, e))))) i =
      (buf (tx_ring e) i)\<lparr>flags := {}, data := NULL\<rparr> \<and>
    dma_log (snd (snd (poll_tx_slot soc mac i (budget, state, e)))) =
      dma_log e @
      (let b = buf (tx_ring e) i in
       if caps_qdma soc then
         (if MTK_TX_FLAGS_SINGLE0 \<in> flags b then [Unmap_single (dma_addr0 b) (dma_len0 b)]
          else if MTK_TX_FLAGS_PAGE0 \<in> flags b then [Unmap_page (dma_addr0 b) (dma_len0 b)]
          else [])
       else
         (if dma_len0 b \<noteq> 0 then [Unmap_page (dma_addr0 b) (dma_len0 b)] else []) @
         (if dma_len1 b \<noteq> 0 then [Unmap_page (dma_addr1 b) (dma_len1 b)] else [])) \<and>
    released (snd (snd (poll_tx_slot soc mac i (budget, state, e)))) =
      released e @ (case data (buf (tx_ring e) i) of Ptr p \<Rightarrow> [p] | _ \<Rightarrow> [])) \<and>
   (caps_qdma soc \<and> distinct sl \<and>
    (\<forall>k < length sl.
       sl ! k = ((\<lambda>c. txd2 (dma (tx_ring e) c)) ^^ Suc k) (last_free_ptr (tx_ring e)) \<and>
       ((\<lambda>c. txd2 (dma (tx_ring e) c)) ^^ k) (last_free_ptr (tx_ring e)) \<noteq> dma_ptr \<and>
       txd3 (dma (tx_ring e) (sl ! k)) AND TX_DMA_OWNER_CPU d \<noteq> 0 \<and>
       data (buf (tx_ring e) (sl ! k)) \<noteq> NULL \<and>
       budget \<noteq> int (length (concat (map (\<lambda>i.
         case data (buf (tx_ring e) i) of Ptr p \<Rightarrow> [p] | _ \<Rightarrow> []) (take k sl))))) \<and>
    (((\<lambda>c. txd2 (dma (tx_ring e) c)) ^^ length sl) (last_free_ptr (tx_ring e)) = dma_ptr \<or>
     budget = int (length (concat (map (\<lambda>i.
       case data (buf (tx_ring e) i) of Ptr p \<Rightarrow> [p] | _ \<Rightarrow> []) sl))) \<or>
     txd3 (dma (tx_ring e)
       (((\<lambda>c. txd2 (dma (tx_ring e) c)) ^^ Suc (length sl)) (last_free_ptr (tx_ring e))))
       AND TX_DMA_OWNER_CPU d = 0 \<or>
     data (buf (tx_ring e)
       (((\<lambda>c. txd2 (dma (tx_ring e) c)) ^^ Suc (length sl)) (last_free_ptr (tx_ring e))))
       = NULL) \<longrightarrow>
    (\<exists>state' e'.
       mtk_poll_tx_qdma d soc dma_ptr budget state e =
         Some (budget - int (length (concat (map (\<lambda>i.
                 case data (buf (tx_ring e) i) of Ptr p \<Rightarrow> [p] | _ \<Rightarrow> []) sl))),
               state', e') \<and>
       free_count (tx_ring e') = free_count (tx_ring e) + int (length sl) \<and>
       last_free_ptr (tx_ring e') =
         ((\<lambda>c. txd2 (dma (tx_ring e) c)) ^^ length sl) (last_free_ptr (tx_ring e)) \<and>
       crx_doorbell e' = crx_doorbell e @
         [((\<lambda>c. txd2 (dma (tx_ring e) c)) ^^ length sl) (last_free_ptr (tx_ring e))] \<and>
       last_free (tx_ring e') = (if sl = [] then last_free (tx_ring e) else last sl) \<and>
       released e' = released e @ concat (map (\<lambda>i.
         case data (buf (tx_ring e) i) of Ptr p \<Rightarrow> [p] | _ \<Rightarrow> []) sl) \<and>
       dma_log e' = dma_log e @ concat (map (\<lambda>i.
         let b = buf (tx_ring e) i in
         if MTK_TX_FLAGS_SINGLE0 \<in> flags b then [Unmap_single (dma_addr0 b) (dma_len0 b)]
         else if MTK_TX_FLAGS_PAGE0 \<in> flags b then [Unmap_page (dma_addr0 b) (dma_len0 b)]
         else []) sl) \<and>
       buf (tx_ring e') =
         (\<lambda>i. if i \<in> set sl then (buf (tx_ring e) i)\<lparr>flags := {}, data := NULL\<rparr>
              else buf (tx_ring e) i))) \<and>
   (\<not> caps_qdma soc \<and> distinct sl \<and>
    (\<forall>k < length sl.
       sl ! k = ((\<lambda>c. NEXT_DESP_IDX c (dma_size (tx_ring e))) ^^ k) (cpu_idx (tx_ring e)) \<and>
       sl ! k \<noteq> dma_ptr \<and>
       data (buf (tx_ring e) (sl ! k)) \<noteq> NULL \<and>
       budget \<noteq> int (length (concat (map (\<lambda>i.
         case data (buf (tx_ring e) i) of Ptr p \<Rightarrow> [p] | _ \<Rightarrow> []) (take k sl))))) \<and>
    (((\<lambda>c. NEXT_DESP_IDX c (dma_size (tx_ring e))) ^^ length sl) (cpu_idx (tx_ring e))
       = dma_ptr \<or>
     budget = int (length (concat (map (\<lambda>i.
       case data (buf (tx_ring e) i) of Ptr p \<Rightarrow> [p] | _ \<Rightarrow> []) sl))) \<or>
     data (buf (tx_ring e)
       (((\<lambda>c. NEXT_DESP_IDX c (dma_size (tx_ring e))) ^^ length sl) (cpu_idx (tx_ring e))))
       = NULL) \<longrightarrow>
    (\<exists>state' e'.
       mtk_poll_tx_pdma soc dma_ptr budget state e =
         Some (budget - int (length (concat (map (\<lambda>i.
                 case data (buf (tx_ring e) i) of Ptr p \<Rightarrow> [p] | _ \<Rightarrow> []) sl))),
               state', e') \<and>
       free_count (tx_ring e') = free_count (tx_ring e) + int (length sl) \<and>
       cpu_idx (tx_ring e') =
         ((\<lambda>c. NEXT_DESP_IDX c (dma_size (tx_ring e))) ^^ length sl) (cpu_idx (tx_ring e)) \<and>
       last_free (tx_ring e') = (if sl = [] then last_free (tx_ring e) else last sl) \<and>
       released e' = released e @ concat (map (\<lambda>i.
         case data (buf (tx_ring e) i) of Ptr p \<Rightarrow> [p] | _ \<Rightarrow> []) sl) \<and>
       dma_log e' = dma_log e @ concat (map (\<lambda>i.
         let b = buf (tx_ring e) i in
         (if dma_len0 b \<noteq> 0 then [Unmap_page (dma_addr0 b) (dma_len0 b)] else []) @
         (if dma_len1 b \<noteq> 0 then [Unmap_page (dma_addr1 b) (dma_len1 b)] else [])) sl) \<and>
       buf (tx_ring e') =
         (\<lambda>i. if i \<in> set sl then (buf (tx_ring e) i)\<lparr>flags := {}, data := NULL\<rparr>
              else buf (tx_ring e) i)))"
proof (intro conjI impI)
  assume a: "caps_qdma soc \<and> distinct sl \<and>
    (\<forall>k < length sl.
       sl ! k = ((\<lambda>c. txd2 (dma (tx_ring e) c)) ^^ Suc k) (last_free_ptr (tx_ring e)) \<and>
       ((\<lambda>c. txd2 (dma (tx_ring e) c)) ^^ k) (last_free_ptr (tx_ring e)) \<noteq> dma_ptr \<and>
       txd3 (dma (tx_ring e) (sl ! k)) AND TX_DMA_OWNER_CPU d \<noteq> 0 \<and>
       data (buf (tx_ring e) (sl ! k)) \<noteq> NULL \<and>
       budget \<noteq> int (length (concat (map (\<lambda>i.
         case data (buf (tx_ring e) i) of Ptr p \<Rightarrow> [p] | _ \<Rightarrow> []) (take k sl))))) \<and>
    (((\<lambda>c. txd2 (dma (tx_ring e) c)) ^^ length sl) (last_free_ptr (tx_ring e)) = dma_ptr \<or>
     budget = int (length (concat (map (\<lambda>i.
       case data (buf (tx_ring e) i) of Ptr p \<Rightarrow> [p] | _ \<Rightarrow> []) sl))) \<or>
     txd3 (dma (tx_ring e)
       (((\<lambda>c. txd2 (dma (tx_ring e) c)) ^^ Suc (length sl)) (last_free_ptr (tx_ring e))))
       AND TX_DMA_OWNER_CPU d = 0 \<or>
     data (buf (tx_ring e)
       (((\<lambda>c. txd2 (dma (tx_ring e) c)) ^^ Suc (length sl)) (last_free_ptr (tx_ring e))))
       = NULL)"
  let ?bse = "(budget, state, e)"
  let ?f = "\<lambda>i bse. poll_tx_slot soc (mac_id (buf (tx_ring (snd (snd bse))) i)) i bse"
  from a have q: "caps_qdma soc" and ds: "distinct sl" by simp_all
  from a have ch: "\<forall>k < length sl.
       sl ! k = ((\<lambda>c. txd2 (dma (tx_ring e) c)) ^^ Suc k) (last_free_ptr (tx_ring e))"
    by blast
  from a have lv: "\<forall>k < length sl.
       ((\<lambda>c. txd2 (dma (tx_ring e) c)) ^^ k) (last_free_ptr (tx_ring e)) \<noteq> dma_ptr \<and>
       txd3 (dma (tx_ring e) (sl ! k)) AND TX_DMA_OWNER_CPU d \<noteq> 0 \<and>
       data (buf (tx_ring e) (sl ! k)) \<noteq> NULL \<and>
       budget \<noteq> int (length (concat (map (\<lambda>i.
         case data (buf (tx_ring e) i) of Ptr p \<Rightarrow> [p] | _ \<Rightarrow> []) (take k sl))))"
    by blast
  from a have st: "((\<lambda>c. txd2 (dma (tx_ring e) c)) ^^ length sl) (last_free_ptr (tx_ring e))
       = dma_ptr \<or>
     budget = int (length (concat (map (\<lambda>i.
       case data (buf (tx_ring e) i) of Ptr p \<Rightarrow> [p] | _ \<Rightarrow> []) sl))) \<or>
     txd3 (dma (tx_ring e)
       (((\<lambda>c. txd2 (dma (tx_ring e) c)) ^^ Suc (length sl)) (last_free_ptr (tx_ring e))))
       AND TX_DMA_OWNER_CPU d = 0 \<or>
     data (buf (tx_ring e)
       (((\<lambda>c. txd2 (dma (tx_ring e) c)) ^^ Suc (length sl)) (last_free_ptr (tx_ring e))))
       = NULL"
    by blast
  have l: "mtk_poll_tx_qdma_loop d soc dma_ptr (last_free_ptr (tx_ring e), ?bse) =
     Some (((\<lambda>c. txd2 (dma (tx_ring e) c)) ^^ length sl) (last_free_ptr (tx_ring e)),
           fold ?f sl ?bse)"
    by (rule qdma_loop_fold [of sl ?bse "last_free_ptr (tx_ring e)" dma_ptr d soc,
          unfolded fst_conv snd_conv, OF ds ch lv st])
  note fx = fold_slots_effects [OF ds, of soc "\<lambda>i bse. mac_id (buf (tx_ring (snd (snd bse))) i)"
      ?bse, unfolded fst_conv snd_conv]
  note cx = crx_unchanged [OF ds, of soc "\<lambda>i bse. mac_id (buf (tx_ring (snd (snd bse))) i)"
      ?bse, unfolded snd_conv]
  obtain b1 s1 e1 where r: "fold ?f sl ?bse = (b1, s1, e1)" by (cases "fold ?f sl ?bse")
  show "\<exists>state' e'.
       mtk_poll_tx_qdma d soc dma_ptr budget state e =
         Some (budget - int (length (concat (map (\<lambda>i.
                 case data (buf (tx_ring e) i) of Ptr p \<Rightarrow> [p] | _ \<Rightarrow> []) sl))),
               state', e') \<and>
       free_count (tx_ring e') = free_count (tx_ring e) + int (length sl) \<and>
       last_free_ptr (tx_ring e') =
         ((\<lambda>c. txd2 (dma (tx_ring e) c)) ^^ length sl) (last_free_ptr (tx_ring e)) \<and>
       crx_doorbell e' = crx_doorbell e @
         [((\<lambda>c. txd2 (dma (tx_ring e) c)) ^^ length sl) (last_free_ptr (tx_ring e))] \<and>
       last_free (tx_ring e') = (if sl = [] then last_free (tx_ring e) else last sl) \<and>
       released e' = released e @ concat (map (\<lambda>i.
         case data (buf (tx_ring e) i) of Ptr p \<Rightarrow> [p] | _ \<Rightarrow> []) sl) \<and>
       dma_log e' = dma_log e @ concat (map (\<lambda>i.
         let b = buf (tx_ring e) i in
         if MTK_TX_FLAGS_SINGLE0 \<in> flags b then [Unmap_single (dma_addr0 b) (dma_len0 b)]
         else if MTK_TX_FLAGS_PAGE0 \<in> flags b then [Unmap_page (dma_addr0 b) (dma_len0 b)]
         else []) sl) \<and>
       buf (tx_ring e') =
         (\<lambda>i. if i \<in> set sl then (buf (tx_ring e) i)\<lparr>flags := {}, data := NULL\<rparr>
              else buf (tx_ring e) i)"
    apply (rule exI [where x = s1])
    apply (rule exI [where x = "e1\<lparr>tx_ring := (tx_ring e1)\<lparr>last_free_ptr :=
        ((\<lambda>c. txd2 (dma (tx_ring e) c)) ^^ length sl) (last_free_ptr (tx_ring e))\<rparr>,
        crx_doorbell := crx_doorbell e1 @
          [((\<lambda>c. txd2 (dma (tx_ring e) c)) ^^ length sl) (last_free_ptr (tx_ring e))]\<rparr>"])
    using fx cx q l unfolding r
    by (simp add: mtk_poll_tx_qdma_def del: funpow.simps)
next
  assume a: "\<not> caps_qdma soc \<and> distinct sl \<and>
    (\<forall>k < length sl.
       sl ! k = ((\<lambda>c. NEXT_DESP_IDX c (dma_size (tx_ring e))) ^^ k) (cpu_idx (tx_ring e)) \<and>
       sl ! k \<noteq> dma_ptr \<and>
       data (buf (tx_ring e) (sl ! k)) \<noteq> NULL \<and>
       budget \<noteq> int (length (concat (map (\<lambda>i.
         case data (buf (tx_ring e) i) of Ptr p \<Rightarrow> [p] | _ \<Rightarrow> []) (take k sl))))) \<and>
    (((\<lambda>c. NEXT_DESP_IDX c (dma_size (tx_ring e))) ^^ length sl) (cpu_idx (tx_ring e))
       = dma_ptr \<or>
     budget = int (length (concat (map (\<lambda>i.
       case data (buf (tx_ring e) i) of Ptr p \<Rightarrow> [p] | _ \<Rightarrow> []) sl))) \<or>
     data (buf (tx_ring e)
       (((\<lambda>c. NEXT_DESP_IDX c (dma_size (tx_ring e))) ^^ length sl) (cpu_idx (tx_ring e))))
       = NULL)"
  let ?bse = "(budget, state, e)"
  let ?f = "\<lambda>i bse. poll_tx_slot soc 0 i bse"
  from a have q: "\<not> caps_qdma soc" and ds: "distinct sl" by simp_all
  from a have ch: "\<forall>k < length sl.
       sl ! k = ((\<lambda>c. NEXT_DESP_IDX c (dma_size (tx_ring e))) ^^ k) (cpu_idx (tx_ring e))"
    by blast
  from a have lv: "\<forall>k < length sl.
       sl ! k \<noteq> dma_ptr \<and>
       data (buf (tx_ring e) (sl ! k)) \<noteq> NULL \<and>
       budget \<noteq> int (length (concat (map (\<lambda>i.
         case data (buf (tx_ring e) i) of Ptr p \<Rightarrow> [p] | _ \<Rightarrow> []) (take k sl))))"
    by blast
  from a have st: "((\<lambda>c. NEXT_DESP_IDX c (dma_size (tx_ring e))) ^^ length sl)
       (cpu_idx (tx_ring e)) = dma_ptr \<or>
     budget = int (length (concat (map (\<lambda>i.
       case data (buf (tx_ring e) i) of Ptr p \<Rightarrow> [p] | _ \<Rightarrow> []) sl))) \<or>
     data (buf (tx_ring e)
       (((\<lambda>c. NEXT_DESP_IDX c (dma_size (tx_ring e))) ^^ length sl) (cpu_idx (tx_ring e))))
       = NULL"
    by blast
  have l: "mtk_poll_tx_pdma_loop soc dma_ptr (cpu_idx (tx_ring e), ?bse) =
     Some (((\<lambda>c. NEXT_DESP_IDX c (dma_size (tx_ring e))) ^^ length sl) (cpu_idx (tx_ring e)),
           fold ?f sl ?bse)"
    by (rule pdma_loop_fold [of sl ?bse "cpu_idx (tx_ring e)" dma_ptr soc,
          unfolded fst_conv snd_conv, OF ds ch lv st])
  note fx = fold_slots_effects [OF ds, of soc "\<lambda>i bse. 0" ?bse, unfolded fst_conv snd_conv]
  obtain b1 s1 e1 where r: "fold ?f sl ?bse = (b1, s1, e1)" by (cases "fold ?f sl ?bse")
  show "\<exists>state' e'.
       mtk_poll_tx_pdma soc dma_ptr budget state e =
         Some (budget - int (length (concat (map (\<lambda>i.
                 case data (buf (tx_ring e) i) of Ptr p \<Rightarrow> [p] | _ \<Rightarrow> []) sl))),
               state', e') \<and>
       free_count (tx_ring e') = free_count (tx_ring e) + int (length sl) \<and>
       cpu_idx (tx_ring e') =
         ((\<lambda>c. NEXT_DESP_IDX c (dma_size (tx_ring e))) ^^ length sl) (cpu_idx (tx_ring e)) \<and>
       last_free (tx_ring e') = (if sl = [] then last_free (tx_ring e) else last sl) \<and>
       released e' = released e @ concat (map (\<lambda>i.
         case data (buf (tx_ring e) i) of Ptr p \<Rightarrow> [p] | _ \<Rightarrow> []) sl) \<and>
       dma_log e' = dma_log e @ concat (map (\<lambda>i.
         let b = buf (tx_ring e) i in
         (if dma_len0 b \<noteq> 0 then [Unmap_page (dma_addr0 b) (dma_len0 b)] else []) @
         (if dma_len1 b \<noteq> 0 then [Unmap_page (dma_addr1 b) (dma_len1 b)] else [])) sl) \<and>
       buf (tx_ring e') =
         (\<lambda>i. if i \<in> set sl then (buf (tx_ring e) i)\<lparr>flags := {}, data := NULL\<rparr>
              else buf (tx_ring e) i)"
    apply (rule exI [where x = s1])
    apply (rule exI [where x = "e1\<lparr>tx_ring := (tx_ring e1)\<lparr>cpu_idx :=
        ((\<lambda>c. NEXT_DESP_IDX c (dma_size (tx_ring e))) ^^ length sl) (cpu_idx (tx_ring e))\<rparr>\<rparr>"])
    using fx q l unfolding r
    by (simp add: mtk_poll_tx_pdma_def del: funpow.simps)
qed (simp_all add: poll_tx_slot_budget poll_tx_slot_ring poll_tx_slot_unmaps
       poll_tx_slot_released split: buf_data.split)

theorem reclaim_budget_counts_packets_witness:
  "caps_qdma soc_qdma \<and> \<not> caps_qdma soc_pdma4 \<and>
   data (buf (tx_ring eth_two_done) 1) = Ptr (Skb skb_sg1) \<and>
   data (buf (tx_ring eth_two_done) 2) = MTK_DMA_DUMMY_DESC \<and>
   free_count (tx_ring eth_two_done) = 0 \<and>
   (\<exists>state' e'.
      mtk_poll_tx_qdma tx_defs0 soc_qdma 3 2 poll_state0 eth_two_done = Some (1, state', e') \<and>
      free_count (tx_ring e') = 2 \<and> last_free_ptr (tx_ring e') = 2 \<and>
      last_free (tx_ring e') = 2 \<and>
      released e' = [Skb skb_sg1] \<and>
      dma_log e' = [Unmap_single 0x1000 64, Unmap_page 0x2000 1000] \<and>
      data (buf (tx_ring e') 1) = NULL \<and> data (buf (tx_ring e') 2) = NULL) \<and>
   data (buf (tx_ring eth_legacy_done) 0) = Ptr (Skb skb_sg3) \<and>
   data (buf (tx_ring eth_legacy_done) 1) = MTK_DMA_DUMMY_DESC \<and>
   free_count (tx_ring eth_legacy_done) = 0 \<and>
   (\<exists>state' e'.
      mtk_poll_tx_pdma soc_pdma4 2 2 poll_state0 eth_legacy_done = Some (1, state', e') \<and>
      free_count (tx_ring e') = 2 \<and> cpu_idx (tx_ring e') = 2 \<and>
      last_free (tx_ring e') = 1 \<and>
      released e' = [Skb skb_sg3] \<and>
      dma_log e' = [Unmap_page 0x1000 64, Unmap_page 0x2000 1000,
                    Unmap_page 0x3000 1000, Unmap_page 0x4000 1000] \<and>
      data (buf (tx_ring e') 0) = NULL \<and> data (buf (tx_ring e') 1) = NULL)"
proof -
  have nd: "NEXT_DESP_IDX 0 4 = Suc 0" "NEXT_DESP_IDX (Suc 0) 4 = 2"
    by code_simp+
  note defs = eth_two_done_def eth_legacy_done_def eth_blank_def tx_defs0_def BIT_def
    zero_tx_buf_def soc_qdma_def soc_pdma_def soc_pdma4_def nd All_less_Suc
  have c: "caps_qdma soc_qdma" "\<not> caps_qdma soc_pdma4"
    "data (buf (tx_ring eth_two_done) 1) = Ptr (Skb skb_sg1)"
    "data (buf (tx_ring eth_two_done) 2) = MTK_DMA_DUMMY_DESC"
    "free_count (tx_ring eth_two_done) = 0"
    "data (buf (tx_ring eth_legacy_done) 0) = Ptr (Skb skb_sg3)"
    "data (buf (tx_ring eth_legacy_done) 1) = MTK_DMA_DUMMY_DESC"
    "free_count (tx_ring eth_legacy_done) = 0"
    by (simp_all add: defs)
  from reclaim_budget_counts_packets [where soc = soc_qdma and sl = "[1, 2]"
      and e = eth_two_done and dma_ptr = 3 and d = tx_defs0 and budget = 2
      and state = poll_state0, THEN conjunct2, THEN conjunct1]
  have "\<exists>state' e'.
      mtk_poll_tx_qdma tx_defs0 soc_qdma 3 2 poll_state0 eth_two_done = Some (1, state', e') \<and>
      free_count (tx_ring e') = 2 \<and> last_free_ptr (tx_ring e') = 2 \<and>
      crx_doorbell e' = [2] \<and> last_free (tx_ring e') = 2 \<and>
      released e' = [Skb skb_sg1] \<and>
      dma_log e' = [Unmap_single 0x1000 64, Unmap_page 0x2000 1000] \<and>
      buf (tx_ring e') =
        (\<lambda>i. if i \<in> set [1, 2] then (buf (tx_ring eth_two_done) i)\<lparr>flags := {}, data := NULL\<rparr>
             else buf (tx_ring eth_two_done) i)"
    apply (simp add: defs)
    apply (elim exE conjE)
    apply (intro exI conjI)
    apply assumption
    apply simp_all
    done
  then obtain sq eq where
      xq: "mtk_poll_tx_qdma tx_defs0 soc_qdma 3 2 poll_state0 eth_two_done = Some (1, sq, eq)"
      and fq: "free_count (tx_ring eq) = 2" "last_free_ptr (tx_ring eq) = 2"
        "last_free (tx_ring eq) = 2" "released eq = [Skb skb_sg1]"
        "dma_log eq = [Unmap_single 0x1000 64, Unmap_page 0x2000 1000]"
      and bq: "buf (tx_ring eq) =
        (\<lambda>i. if i \<in> set [1, 2] then (buf (tx_ring eth_two_done) i)\<lparr>flags := {}, data := NULL\<rparr>
             else buf (tx_ring eth_two_done) i)"
    by blast
  have nq: "data (buf (tx_ring eq) 1) = NULL" "data (buf (tx_ring eq) 2) = NULL"
    by (simp_all add: bq)
  from xq fq nq have q: "\<exists>state' e'.
      mtk_poll_tx_qdma tx_defs0 soc_qdma 3 2 poll_state0 eth_two_done = Some (1, state', e') \<and>
      free_count (tx_ring e') = 2 \<and> last_free_ptr (tx_ring e') = 2 \<and>
      last_free (tx_ring e') = 2 \<and>
      released e' = [Skb skb_sg1] \<and>
      dma_log e' = [Unmap_single 0x1000 64, Unmap_page 0x2000 1000] \<and>
      data (buf (tx_ring e') 1) = NULL \<and> data (buf (tx_ring e') 2) = NULL"
    by blast
  from reclaim_budget_counts_packets [where soc = soc_pdma4 and sl = "[0, 1]"
      and e = eth_legacy_done and dma_ptr = 2 and budget = 2
      and state = poll_state0, THEN conjunct2, THEN conjunct2]
  have "\<exists>state' e'.
      mtk_poll_tx_pdma soc_pdma4 2 2 poll_state0 eth_legacy_done = Some (1, state', e') \<and>
      free_count (tx_ring e') = 2 \<and> cpu_idx (tx_ring e') = 2 \<and>
      last_free (tx_ring e') = 1 \<and>
      released e' = [Skb skb_sg3] \<and>
      dma_log e' = [Unmap_page 0x1000 64, Unmap_page 0x2000 1000,
                    Unmap_page 0x3000 1000, Unmap_page 0x4000 1000] \<and>
      buf (tx_ring e') =
        (\<lambda>i. if i \<in> set [0, 1] then (buf (tx_ring eth_legacy_done) i)\<lparr>flags := {}, data := NULL\<rparr>
             else buf (tx_ring eth_legacy_done) i)"
    by (simp add: defs)
  then obtain sp ep where
      xp: "mtk_poll_tx_pdma soc_pdma4 2 2 poll_state0 eth_legacy_done = Some (1, sp, ep)"
      and fp: "free_count (tx_ring ep) = 2" "cpu_idx (tx_ring ep) = 2"
        "last_free (tx_ring ep) = 1" "released ep = [Skb skb_sg3]"
        "dma_log ep = [Unmap_page 0x1000 64, Unmap_page 0x2000 1000,
                       Unmap_page 0x3000 1000, Unmap_page 0x4000 1000]"
      and bp: "buf (tx_ring ep) =
        (\<lambda>i. if i \<in> set [0, 1] then (buf (tx_ring eth_legacy_done) i)\<lparr>flags := {}, data := NULL\<rparr>
             else buf (tx_ring eth_legacy_done) i)"
    by blast
  have np: "data (buf (tx_ring ep) 0) = NULL" "data (buf (tx_ring ep) 1) = NULL"
    by (simp_all add: bp)
  from xp fp np have p: "\<exists>state' e'.
      mtk_poll_tx_pdma soc_pdma4 2 2 poll_state0 eth_legacy_done = Some (1, state', e') \<and>
      free_count (tx_ring e') = 2 \<and> cpu_idx (tx_ring e') = 2 \<and>
      last_free (tx_ring e') = 1 \<and>
      released e' = [Skb skb_sg3] \<and>
      dma_log e' = [Unmap_page 0x1000 64, Unmap_page 0x2000 1000,
                    Unmap_page 0x3000 1000, Unmap_page 0x4000 1000] \<and>
      data (buf (tx_ring e') 0) = NULL \<and> data (buf (tx_ring e') 1) = NULL"
    by blast
  from c q p show ?thesis by blast
qed

subsection \<open>The descriptor requirement in 32-bit arithmetic\<close>

lemma div_round_up_word:
  assumes "0 < m" "m < 2 ^ 32" "f + m - 1 < 2 ^ 32"
  shows "DIV_ROUND_UP (of_nat f) (of_nat m) = of_nat ((f + m - 1) div m)"
proof -
  have "(of_nat f + of_nat m - 1 :: u32) = of_nat (f + m - 1)"
    using assms(1) by (cases m) simp_all
  moreover have "unat (of_nat (f + m - 1) :: u32) = f + m - 1"
    using assms(3) by (simp add: unat_of_nat)
  moreover have "unat (of_nat m :: u32) = m"
    using assms(2) by (simp add: unat_of_nat)
  ultimately have u: "unat (DIV_ROUND_UP (of_nat f) (of_nat m)) = (f + m - 1) div m"
    by (simp add: DIV_ROUND_UP_def unat_div)
  moreover have "unat (of_nat ((f + m - 1) div m) :: u32) = (f + m - 1) div m"
  proof -
    have "(f + m - 1) div m \<le> f + m - 1" by simp
    with assms(3) have "(f + m - 1) div m < 2 ^ 32" by linarith
    then show ?thesis by (simp add: unat_of_nat)
  qed
  ultimately show ?thesis
    by (simp add: word_unat_eq_iff)
qed

lemma fold_add_word:
  "fold (\<lambda>f (n::u32). n + g f) fs a = a + (\<Sum>f \<leftarrow> fs. g f)"
  by (induction fs arbitrary: a) (simp_all add: add.assoc)

lemma sum_of_nat_word: "(\<Sum>f \<leftarrow> fs. (of_nat (g f) :: u32)) = of_nat (\<Sum>f \<leftarrow> fs. g f)"
  by (induction fs) simp_all

lemma sint_small: "n < 2 ^ 31 \<Longrightarrow> sint (of_nat n :: u32) = int n"
proof -
  assume a: "n < 2 ^ 31"
  have "sint (of_nat n :: u32) = sint (word_of_int (int n) :: u32)" by simp
  also have "\<dots> = signed_take_bit 31 (int n)" by (simp only: sint_sbintrunc') simp
  also have "\<dots> = int n" using a by (simp add: signed_take_bit_int_eq_self)
  finally show ?thesis .
qed

lemma div_round_up_least:
  assumes "0 < m"
  shows "(f + m - 1) div m = max_len_chunks m f"
proof -
  let ?n = "(f + m - 1) div m"
  have up: "f \<le> ?n * m"
  proof -
    have "f + m - 1 < ?n * m + m"
      using assms div_mult_mod_eq [of "f + m - 1" m] mod_less_divisor [OF assms, of "f + m - 1"]
      by linarith
    then show ?thesis using assms by linarith
  qed
  have least: "?n \<le> n" if "f \<le> n * m" for n
  proof -
    from that have "f + m - 1 < (n + 1) * m" using assms by simp
    then have "?n < n + 1" using assms
      by (simp add: less_mult_imp_div_less)
    then show ?thesis by simp
  qed
  show ?thesis
    unfolding max_len_chunks_def
    by (rule Least_equality [symmetric]) (use up least in auto)
qed

text \<open>
  Within the range of the 32-bit computation the requirement is one descriptor for the
  head and one per fragment, or one per maximum-length chunk of each fragment.
\<close>

lemma cal_txd_req_chunks:
  assumes m: "0 < tx_dma_max_len soc" "tx_dma_max_len soc < 2 ^ 32"
    and fr: "\<forall>f \<in> set (frags skb). f + tx_dma_max_len soc \<le> 2 ^ 32"
    and req: "req = (if gso_size skb \<noteq> 0
                       then 1 + (\<Sum>f \<leftarrow> frags skb. max_len_chunks (tx_dma_max_len soc) f)
                     else 1 + length (frags skb))"
    and small: "req < 2 ^ 31"
  shows "mtk_cal_txd_req soc skb = int req"
proof (cases "gso_size skb \<noteq> 0")
  case True
  let ?m = "tx_dma_max_len soc"
  have "(\<Sum>f \<leftarrow> frags skb. DIV_ROUND_UP (of_nat f) (of_nat ?m)) =
        (\<Sum>f \<leftarrow> frags skb. (of_nat (max_len_chunks ?m f) :: u32))"
  proof (rule arg_cong [where f = sum_list], rule map_cong [OF refl])
    fix f assume "f \<in> set (frags skb)"
    with fr m(1) have "f + ?m - 1 < 2 ^ 32" by fastforce
    from div_round_up_word [OF m this] div_round_up_least [OF m(1), of f]
    show "DIV_ROUND_UP (of_nat f) (of_nat ?m) = (of_nat (max_len_chunks ?m f) :: u32)"
      by simp
  qed
  then have "fold (\<lambda>frag nfrags. nfrags + DIV_ROUND_UP (of_nat frag) (of_nat ?m))
               (frags skb) (1 :: u32) = of_nat req"
    using True req by (simp add: fold_add_word sum_of_nat_word)
  with True sint_small [OF small] show ?thesis
    by (simp add: mtk_cal_txd_req_def)
next
  case False
  then have "(1 + of_nat (length (frags skb)) :: u32) = of_nat req"
    using req by simp
  with False sint_small [OF small] show ?thesis
    by (simp add: mtk_cal_txd_req_def)
qed

subsection \<open>Transmit ring: splitting a fragment\<close>

lemma set_dma_desc_txd3 [simp]:
  "txd3 (mtk_tx_set_dma_desc d soc info t) = desc_word3 d soc info"
  by (simp add: desc_word3_def mtk_tx_set_dma_desc_def mtk_tx_set_dma_desc_v1_def
        mtk_tx_set_dma_desc_v2_def)

lemma set_dma_desc_txd1 [simp]:
  "txd1 (mtk_tx_set_dma_desc d soc info t) = ucast (i_addr info)"
  by (simp add: mtk_tx_set_dma_desc_def mtk_tx_set_dma_desc_v1_def
        mtk_tx_set_dma_desc_v2_def)











subsection \<open>Transmit ring: the entry checks of a submission\<close>

lemma start_xmit_not_busy:
  assumes "\<not> resetting e" "mtk_cal_txd_req soc skb < free_count (tx_ring e)"
  shows "mtk_start_xmit d soc mac env skb e \<noteq> Some (NETDEV_TX_BUSY, e')"
  using assms
  by (auto simp: mtk_start_xmit_def Let_def tx_drop_def split: option.splits if_splits)

text \<open>
  C3 (amended). For a packet within the range of the 32-bit computation (the maximum
  per-descriptor length below \<open>2^32\<close>, every fragment size plus the maximum length
  at most \<open>2^32\<close>, the resulting number below \<open>2^31\<close>), submit computes the
  number of descriptors required as 1 plus one per scatter-gather fragment, or, for a
  segmentation-offload packet, 1 plus one descriptor per maximum-length chunk of each
  fragment. While the resetting flag is clear it returns Busy, with the ring state
  unchanged (only the send queues are stopped), whenever the free-slot count is not
  strictly greater than that number, and it never returns Busy when the count is
  strictly greater. While the resetting flag is set it drops the packet (the drop is
  counted and the packet freed) and returns OK, whatever the free-slot count.
\<close>

theorem submit_requirement:
  assumes "0 < tx_dma_max_len soc" "tx_dma_max_len soc < 2 ^ 32"
    and "\<forall>f \<in> set (frags skb). f + tx_dma_max_len soc \<le> 2 ^ 32"
    and "req = (if gso_size skb \<noteq> 0
                  then 1 + (\<Sum>f \<leftarrow> frags skb. max_len_chunks (tx_dma_max_len soc) f)
                else 1 + length (frags skb))"
    and "req < 2 ^ 31"
  shows "mtk_cal_txd_req soc skb = int req \<and>
    (\<not> resetting e \<and> free_count (tx_ring e) \<le> int req \<longrightarrow>
       mtk_start_xmit d soc mac env skb e =
         Some (NETDEV_TX_BUSY, e\<lparr>queues_stopped := True\<rparr>)) \<and>
    (\<not> resetting e \<and> int req < free_count (tx_ring e) \<longrightarrow>
       (\<forall>e'. mtk_start_xmit d soc mac env skb e \<noteq> Some (NETDEV_TX_BUSY, e'))) \<and>
    (resetting e \<longrightarrow>
       mtk_start_xmit d soc mac env skb e =
         Some (NETDEV_TX_OK, e\<lparr>tx_dropped := tx_dropped e + 1,
                                released := released e @ [Skb skb]\<rparr>))"
proof -
  have req: "mtk_cal_txd_req soc skb = int req"
    using assms by (rule cal_txd_req_chunks)
  have busy: "mtk_start_xmit d soc mac env skb e =
         Some (NETDEV_TX_BUSY, e\<lparr>queues_stopped := True\<rparr>)"
    if "\<not> resetting e" "free_count (tx_ring e) \<le> int req"
    using that req by (simp add: mtk_start_xmit_def Let_def)
  have nobusy: "mtk_start_xmit d soc mac env skb e \<noteq> Some (NETDEV_TX_BUSY, e')"
    if "\<not> resetting e" "int req < free_count (tx_ring e)" for e'
    using that req start_xmit_not_busy [of e soc skb d mac env e'] by simp
  have drop: "mtk_start_xmit d soc mac env skb e =
         Some (NETDEV_TX_OK, e\<lparr>tx_dropped := tx_dropped e + 1,
                                released := released e @ [Skb skb]\<rparr>)"
    if "resetting e"
    using that by (simp add: mtk_start_xmit_def tx_drop_def)
  from req busy nobusy drop show ?thesis by blast
qed

theorem submit_requirement_counterexample:
  "resetting eth_full_in_reset \<and>
   free_count (tx_ring eth_full_in_reset) \<le> mtk_cal_txd_req soc_qdma skb_linear64 \<and>
   mtk_start_xmit tx_defs0 soc_qdma 0 env_ok skb_linear64 eth_full_in_reset =
     Some (NETDEV_TX_OK, eth_full_in_reset\<lparr>tx_dropped := 1, released := [Skb skb_linear64]\<rparr>) \<and>
   NETDEV_TX_OK \<noteq> NETDEV_TX_BUSY \<and>
   gso_size skb_huge_frag \<noteq> 0 \<and>
   1 + int (max_len_chunks (tx_dma_max_len soc_qdma) (hd (frags skb_huge_frag))) = 262162 \<and>
   mtk_cal_txd_req soc_qdma skb_huge_frag = 1 \<and>
   \<not> resetting (mtk_tx_alloc tx_defs0 soc_qdma eth_blank) \<and>
   free_count (tx_ring (mtk_tx_alloc tx_defs0 soc_qdma eth_blank)) = 254 \<and>
   map_option fst (mtk_start_xmit tx_defs0 soc_qdma 0 env_ok skb_huge_frag
                     (mtk_tx_alloc tx_defs0 soc_qdma eth_blank)) \<noteq> Some NETDEV_TX_BUSY"
proof -
  let ?e = "mtk_tx_alloc tx_defs0 soc_qdma eth_blank"
  have a: "resetting eth_full_in_reset \<and>
   free_count (tx_ring eth_full_in_reset) \<le> mtk_cal_txd_req soc_qdma skb_linear64 \<and>
   mtk_start_xmit tx_defs0 soc_qdma 0 env_ok skb_linear64 eth_full_in_reset =
     Some (NETDEV_TX_OK, eth_full_in_reset\<lparr>tx_dropped := 1, released := [Skb skb_linear64]\<rparr>) \<and>
   NETDEV_TX_OK \<noteq> NETDEV_TX_BUSY"
    by (simp add: mtk_start_xmit_def tx_drop_def eth_full_in_reset_def eth_two_done_def
        eth_blank_def mtk_cal_txd_req_def skb_linear64_def)
  have g: "gso_size skb_huge_frag \<noteq> 0" by (simp add: skb_huge_frag_def)
  have c: "1 + int (max_len_chunks (tx_dma_max_len soc_qdma) (hd (frags skb_huge_frag))) = 262162"
    using div_round_up_least [of 16383 4294967295]
    by (simp add: soc_qdma_def skb_huge_frag_def)
  have r: "mtk_cal_txd_req soc_qdma skb_huge_frag = 1"
    by (simp add: mtk_cal_txd_req_def skb_huge_frag_def soc_qdma_def DIV_ROUND_UP_def)
  have n: "\<not> resetting ?e" "free_count (tx_ring ?e) = 254"
    by (simp_all add: mtk_tx_alloc_def Let_def soc_qdma_def tx_defs0_def eth_blank_def)
  have lt: "mtk_cal_txd_req soc_qdma skb_huge_frag < free_count (tx_ring ?e)"
    using n r by simp
  have nb: "mtk_start_xmit tx_defs0 soc_qdma 0 env_ok skb_huge_frag ?e \<noteq>
          Some (NETDEV_TX_BUSY, e')" for e'
    by (rule start_xmit_not_busy [OF n(1) lt])
  have "map_option fst (mtk_start_xmit tx_defs0 soc_qdma 0 env_ok skb_huge_frag ?e)
               \<noteq> Some NETDEV_TX_BUSY"
  proof
    assume "map_option fst (mtk_start_xmit tx_defs0 soc_qdma 0 env_ok skb_huge_frag ?e)
              = Some NETDEV_TX_BUSY"
    then obtain e' where
      "mtk_start_xmit tx_defs0 soc_qdma 0 env_ok skb_huge_frag ?e = Some (NETDEV_TX_BUSY, e')"
      by (cases "mtk_start_xmit tx_defs0 soc_qdma 0 env_ok skb_huge_frag ?e") auto
    with nb show False by blast
  qed
  with a g c r n show ?thesis by blast
qed

theorem submit_requirement_witness:
  "\<not> resetting eth_two_done \<and> 0 < tx_dma_max_len soc_qdma \<and>
   tx_dma_max_len soc_qdma < 2 ^ 32 \<and>
   (3::nat) = 1 + max_len_chunks (tx_dma_max_len soc_qdma) 24574 \<and>
   free_count (tx_ring eth_two_done) = 0 \<and>
   mtk_cal_txd_req soc_qdma skb_gso = 3 \<and>
   mtk_start_xmit tx_defs0 soc_qdma 0 env_ok skb_gso eth_two_done =
     Some (NETDEV_TX_BUSY, eth_two_done\<lparr>queues_stopped := True\<rparr>) \<and>
   resetting eth_full_in_reset \<and>
   mtk_start_xmit tx_defs0 soc_qdma 0 env_ok skb_gso eth_full_in_reset =
     Some (NETDEV_TX_OK, eth_full_in_reset\<lparr>tx_dropped := tx_dropped eth_full_in_reset + 1,
             released := released eth_full_in_reset @ [Skb skb_gso]\<rparr>)"
proof -
  have h: "0 < tx_dma_max_len soc_qdma" "tx_dma_max_len soc_qdma < 2 ^ 32"
    "\<forall>f \<in> set (frags skb_gso). f + tx_dma_max_len soc_qdma \<le> 2 ^ 32"
    by (simp_all add: soc_qdma_def skb_gso_def)
  have c: "max_len_chunks (tx_dma_max_len soc_qdma) 24574 = 2"
    using div_round_up_least [of 16383 24574] by (simp add: soc_qdma_def)
  have q: "(3::nat) = (if gso_size skb_gso \<noteq> 0
              then 1 + (\<Sum>f \<leftarrow> frags skb_gso. max_len_chunks (tx_dma_max_len soc_qdma) f)
            else 1 + length (frags skb_gso))"
    using c by (simp add: skb_gso_def)
  have s: "(3::nat) < 2 ^ 31" by simp
  have e: "\<not> resetting eth_two_done" "free_count (tx_ring eth_two_done) = 0"
    "resetting eth_full_in_reset"
    by (simp_all add: eth_two_done_def eth_full_in_reset_def eth_blank_def)
  from submit_requirement [OF h q s, of eth_two_done tx_defs0 0 env_ok]
    submit_requirement [OF h q s, of eth_full_in_reset tx_defs0 0 env_ok] h c e
  show ?thesis by simp
qed

text \<open>
  C5 (amended). While the resetting flag is set, fast-path frame submission tests the
  flag before anything else and returns Busy, leaving the whole driver state (ring,
  registers, logs) as it was. Normal packet submission tests the flag first, once it
  holds the ring lock, and drops the packet: it counts a transmit drop, frees the
  packet and returns OK; the ring and the registers are left as they were and the
  packet is not queued.
\<close>

theorem reset_rejects_submission:
  "resetting e \<Longrightarrow>
   mtk_xdp_submit_frame d soc mac fmap xdpf dma_map e = Some (- EBUSY, e) \<and>
   mtk_start_xmit d soc mac env skb e =
     Some (NETDEV_TX_OK, e\<lparr>tx_dropped := tx_dropped e + 1,
                            released := released e @ [Skb skb]\<rparr>)"
  by (simp add: mtk_xdp_submit_frame_def mtk_start_xmit_def tx_drop_def Let_def)

theorem reset_rejects_submission_counterexample:
  "resetting eth_in_reset \<and>
   3 < free_count (tx_ring eth_in_reset) \<and>
   map_option fst (mtk_start_xmit tx_defs0 soc_qdma 0 env_ok skb_linear64 eth_in_reset) =
     Some NETDEV_TX_OK \<and>
   NETDEV_TX_OK \<noteq> NETDEV_TX_BUSY \<and>
   map_option (tx_dropped \<circ> snd)
     (mtk_start_xmit tx_defs0 soc_qdma 0 env_ok skb_linear64 eth_in_reset) =
     Some (tx_dropped eth_in_reset + 1)"
  by (simp add: mtk_start_xmit_def tx_drop_def eth_in_reset_def mtk_tx_alloc_def Let_def
        soc_qdma_def tx_defs0_def)

theorem reset_rejects_submission_witness:
  "resetting eth_in_reset \<and>
   mtk_xdp_submit_frame tx_defs0 soc_qdma 0 (\<lambda>i. 0x1000) xdpf_linear False eth_in_reset =
     Some (- EBUSY, eth_in_reset) \<and>
   mtk_start_xmit tx_defs0 soc_qdma 0 env_ok skb_linear64 eth_in_reset =
     Some (NETDEV_TX_OK, eth_in_reset\<lparr>tx_dropped := tx_dropped eth_in_reset + 1,
             released := released eth_in_reset @ [Skb skb_linear64]\<rparr>)"
proof -
  have h: "resetting eth_in_reset" by (simp add: eth_in_reset_def)
  from reset_rejects_submission [OF h] h show ?thesis by blast
qed

subsection \<open>Unwinding a failed submission\<close>

lemma plen0_not_default: "TX_DMA_PLEN0 tx_defs0 1000 \<noteq> TX_DMA_DESP2_DEF tx_defs0"
  by code_simp

text \<open>
  On the legacy ring a descriptor carries two buffers, and the unwinding loop of
  \<^verbatim>\<open>mtk_tx_map\<close> runs from the first slot of the submission up to, and not
  including, the slot the fragment loop stopped at. When the mapping of the very first
  fragment fails, the loop stopped at the first slot itself, so the unwinding goes once
  round the whole ring: with one packet in flight in slot 0 of a ring of four slots, the
  failed submission of a second packet unmaps and frees the packet in flight.
\<close>

lemma tx_map_legacy_unwind_wraps:
  "(let r = mtk_tx_map tx_defs0 soc_pdma4 0 env_fail_frags skb_sg1 False eth_one_in_flight
    in data (buf (tx_ring eth_one_in_flight) 0) = Ptr (Skb skb_linear64) \<and>
       released eth_one_in_flight = [] \<and>
       next_free (tx_ring eth_one_in_flight) = 1 \<and>
       map_option fst r = Some (- ENOMEM) \<and>
       released (snd (the r)) = [Skb skb_linear64] \<and>
       data (buf (tx_ring (snd (the r))) 0) = NULL \<and>
       dma_log (snd (the r)) =
         [Map_single 0x1000 64, Map_single 0x1000 64, Unmap_page 0x1000 64,
          Unmap_page 0x1000 64])"
  by (simp add: mtk_tx_map_def mtk_tx_map_frag.simps mtk_tx_map_err_dma.simps
        mtk_tx_alloc_def Let_def setup_tx_buf_def soc_pdma_def soc_pdma4_def
        env_fail_frags_def env_ok_def eth_one_in_flight_def skb_sg1_def skb_linear64_def
        eth_blank_def dma_mapping_error_def DMA_MAPPING_ERROR_def mtk_tx_unmap_dma_log
        mtk_tx_unmap_released mtk_tx_unmap_sel zero_tx_buf_def NEXT_DESP_IDX_def)

text \<open>
  On the queue-aware ring every chunk of a fragment first moves on to a new slot, so the
  slot the fragment loop stopped at has not been written and the unwinding covers all
  the slots of the submission: the same packet with the same failing mapping leaves the
  three slots it wrote unmapped and empty.
\<close>

lemma ring_size_defs0: "MTK_QDMA_RING_SIZE tx_defs0 = 256"
  by (simp add: tx_defs0_def)

lemma tx_map_unwind_queue_ring:
  "(let r = mtk_tx_map tx_defs0 soc_qdma 0 env_fail_frag2 skb_sg3 False
              (mtk_tx_alloc tx_defs0 soc_qdma eth_blank)
    in map_option fst r = Some (- ENOMEM) \<and>
       dma_log (snd (the r)) =
         [Map_single 0x1000 64, Map_page 0x2000 1000, Map_page 0x3000 1000,
          Unmap_single 0x1000 64, Unmap_page 0x2000 1000, Unmap_page 0x3000 1000] \<and>
       (\<forall>i < 3. data (buf (tx_ring (snd (the r))) i) = NULL \<and>
               flags (buf (tx_ring (snd (the r))) i) = {} \<and>
               txd3 (dma (tx_ring (snd (the r))) i) =
                 (TX_DMA_LS0 tx_defs0 OR TX_DMA_OWNER_CPU tx_defs0)) \<and>
       released (snd (the r)) = [] \<and>
       free_count (tx_ring (snd (the r))) = 254)"
  by (simp add: mtk_tx_map_def mtk_tx_map_frag.simps mtk_tx_map_err_dma.simps
        mtk_tx_alloc_def Let_def setup_tx_buf_def soc_qdma_def env_fail_frag2_def env_ok_def
        skb_sg3_def eth_blank_def dma_mapping_error_def DMA_MAPPING_ERROR_def
        mtk_tx_unmap_dma_log mtk_tx_unmap_released mtk_tx_unmap_sel zero_tx_buf_def
        NEXT_DESP_IDX_def ring_size_defs0)

text \<open>
  C1. A submission that fails partway is to unwind every descriptor it wrote (buffer
  unmapped, slot back in the empty host-owned state), leave the free-slot counter as it
  was and return the out-of-memory error. On the legacy ring the code does less: a
  packet with a 64-byte head and three fragments of 1000 bytes, the mapping of the third
  fragment failing, is submitted to a fresh ring of 256 slots. The submission returns
  the out-of-memory error and leaves the free-slot counter at 254, and slot 0 is
  unwound; but slot 1, which the submission wrote for the second fragment, is where the
  unwinding loop stops: its buffer (bus address \<open>0x3000\<close>, 1000 bytes) is never
  unmapped, its bookkeeping entry still carries the fragment mark and flag, and its
  descriptor still holds the address and length of the fragment rather than the empty
  default.
\<close>

theorem tx_map_unwind_legacy_ring:
  "(let r = mtk_tx_map tx_defs0 soc_pdma 0 env_fail_frag2 skb_sg3 False
              (mtk_tx_alloc tx_defs0 soc_pdma eth_blank)
    in map_option fst r = Some (- ENOMEM) \<and>
       dma_log (snd (the r)) =
         [Map_single 0x1000 64, Map_page 0x2000 1000, Map_page 0x3000 1000,
          Unmap_page 0x1000 64, Unmap_page 0x2000 1000] \<and>
       data (buf (tx_ring (snd (the r))) 1) = MTK_DMA_DUMMY_DESC \<and>
       flags (buf (tx_ring (snd (the r))) 1) = {MTK_TX_FLAGS_PAGE0} \<and>
       dma_addr0 (buf (tx_ring (snd (the r))) 1) = 0x3000 \<and>
       dma_len0 (buf (tx_ring (snd (the r))) 1) = 1000 \<and>
       p_txd1 (dma_pdma (tx_ring (snd (the r))) 1) = 0x3000 \<and>
       p_txd2 (dma_pdma (tx_ring (snd (the r))) 1) \<noteq> TX_DMA_DESP2_DEF tx_defs0 \<and>
       data (buf (tx_ring (snd (the r))) 0) = NULL \<and>
       flags (buf (tx_ring (snd (the r))) 0) = {} \<and>
       p_txd2 (dma_pdma (tx_ring (snd (the r))) 0) = TX_DMA_DESP2_DEF tx_defs0 \<and>
       released (snd (the r)) = [] \<and>
       free_count (tx_ring (snd (the r))) = 254)"
  using plen0_not_default
  by (simp add: mtk_tx_map_def mtk_tx_map_frag.simps mtk_tx_map_err_dma.simps
        mtk_tx_alloc_def Let_def setup_tx_buf_def soc_pdma_def env_fail_frag2_def env_ok_def
        skb_sg3_def eth_blank_def dma_mapping_error_def DMA_MAPPING_ERROR_def
        mtk_tx_unmap_dma_log mtk_tx_unmap_released mtk_tx_unmap_sel zero_tx_buf_def
        NEXT_DESP_IDX_def)

subsection \<open>Receive polling and the replacement buffer\<close>

lemma release_desc_sel:
  "rx_data (rx_ring (fst (release_desc d soc idx (s, l)))) = rx_data (rx_ring s)"
  "rxd1 (rx_dma (rx_ring (fst (release_desc d soc idx (s, l)))) i) = rxd1 (rx_dma (rx_ring s) i)"
  "rx_dropped (fst (release_desc d soc idx (s, l))) = rx_dropped s"
  "delivered (fst (release_desc d soc idx (s, l))) = delivered s"
  "xdp_seen (fst (release_desc d soc idx (s, l))) = xdp_seen s"
  "calc_idx (rx_ring (fst (release_desc d soc idx (s, l)))) = idx"
  "l_done (snd (release_desc d soc idx (s, l))) = l_done l + 1"
  "rxd2 (rx_dma (rx_ring (fst (release_desc d soc idx (s, l)))) idx) =
     (if soc_mt7628 soc then RX_DMA_LSO d
      else RX_DMA_PREP_PLEN0 d (buf_size (rx_ring s)) OR
           ucast (if soc_36bit_dma soc then
                    (if l_dma_addr l = DMA_MAPPING_ERROR
                       then RX_DMA_ADDR64_FIELD d (rxd2 (rx_dma (rx_ring s) idx))
                     else RX_DMA_PREP_ADDR64 d (l_dma_addr l))
                  else l_addr64 l))"
  by (simp_all add: release_desc_def upd_rxd_def Let_def)

lemma skip_rx_sel:
  "rx_data (rx_ring (fst (skip_rx d soc idx (s, l)))) = (rx_data (rx_ring s))(idx := l_new_data l)"
  "rxd1 (rx_dma (rx_ring (fst (skip_rx d soc idx (s, l)))) idx) = ucast (l_dma_addr l)"
  "rx_dropped (fst (skip_rx d soc idx (s, l))) = rx_dropped s"
  "delivered (fst (skip_rx d soc idx (s, l))) = delivered s"
  "l_done (snd (skip_rx d soc idx (s, l))) = l_done l + 1"
  by (simp_all add: skip_rx_def release_desc_def upd_rxd_def Let_def)

lemma poll_rx_pass_alloc_fails:
  assumes pass: "mtk_poll_rx_pass d soc env (s, l) = Some (s', l')"
    and idx: "idx = NEXT_DESP_IDX (calc_idx (rx_ring s)) (rx_dma_size (rx_ring s))"
    and mac: "mac = rx_source_mac d soc (rx_dma (rx_ring s) idx)"
    and ok: "0 \<le> mac" "mac < MTK_MAX_DEVS d" "rx_netdev s mac" "\<not> rx_resetting s"
    and fail: "new_buf env = None"
  shows "rx_data (rx_ring s') = rx_data (rx_ring s) \<and>
         rxd1 (rx_dma (rx_ring s') idx) = rxd1 (rx_dma (rx_ring s) idx) \<and>
         delivered s' = delivered s \<and>
         rx_dropped s' mac = rx_dropped s mac + 1 \<and>
         rxd2 (rx_dma (rx_ring s') idx) =
           (if soc_mt7628 soc then RX_DMA_LSO d
            else RX_DMA_PREP_PLEN0 d (buf_size (rx_ring s)) OR
                 ucast (if soc_36bit_dma soc then
                          (if l_dma_addr l = DMA_MAPPING_ERROR
                             then RX_DMA_ADDR64_FIELD d (rxd2 (rx_dma (rx_ring s) idx))
                           else RX_DMA_PREP_ADDR64 d (l_dma_addr l))
                        else l_addr64 l))"
proof -
  from pass have nz: "rxd2 (rx_dma (rx_ring s) idx) AND RX_DMA_DONE d \<noteq> 0"
    by (auto simp: mtk_poll_rx_pass_def Let_def idx split: if_splits)
  have "mtk_poll_rx_pass d soc env (s, l) =
          Some (release_desc d soc idx (count_rx_drop mac s, l))"
    using nz ok fail by (simp add: mtk_poll_rx_pass_def Let_def idx [symmetric] mac [symmetric])
  with pass have r: "release_desc d soc idx (count_rx_drop mac s, l) = (s', l')" by simp
  have s': "s' = fst (release_desc d soc idx (count_rx_drop mac s, l))" by (simp add: r)
  show ?thesis
    unfolding s' by (simp add: release_desc_sel count_rx_drop_def)
qed

lemma poll_rx_pass_delivers_after_replacement:
  assumes pass: "mtk_poll_rx_pass d soc env (s, l) = Some (s', l')"
    and idx: "idx = NEXT_DESP_IDX (calc_idx (rx_ring s)) (rx_dma_size (rx_ring s))"
    and deliv: "delivered s' \<noteq> delivered s"
  shows "\<exists>nd. new_buf env = Some nd \<and> rx_data (rx_ring s') idx = nd \<and>
              rxd1 (rx_dma (rx_ring s') idx) = ucast (new_dma env) \<and>
              (page_pool (rx_ring s) \<or> \<not> dma_mapping_error (new_dma env)) \<and>
              delivered s' = delivered s @
                [(rx_data (rx_ring s) idx, RX_DMA_GET_PLEN0 d (rxd2 (rx_dma (rx_ring s) idx)))]"
  using pass deliv
  apply (simp add: mtk_poll_rx_pass_def Let_def idx [symmetric]
              split: if_splits option.splits prod.splits)
  apply (auto simp: release_desc_sel skip_rx_sel count_rx_drop_def
              dest!: arg_cong [where f = fst])
  done

text \<open>
  C4. Receive polling hands the old buffer of a slot on only once a replacement has been
  obtained, and when the replacement fails the slot is to keep its buffer, its descriptor
  rewritten with the same buffer address, the packet counted as a receive drop. The
  address written back is not always the same: the bus address of the last successful
  replacement stays in a local of \<^verbatim>\<open>mtk_poll_rx\<close> from one pass to the next, and on a
  device with 36-bit addresses the upper address bits of every rewritten descriptor are
  taken from it. Here the first pass replaces the buffer of slot 0 by one above 4 GiB
  and delivers the packet; in the second pass the allocation fails: the drop is counted,
  slot 1 keeps its buffer 11 and the lower address word \<open>0x2000\<close>, but the upper
  address bits of its descriptor change from 0 to 1, so the descriptor now names the bus
  address \<open>0x100002000\<close> and no longer the buffer of the slot.
\<close>

theorem poll_rx_failed_replacement_address:
  "(let r = mtk_poll_rx rx_defs0 soc_v3 rx_envs0 64 rx_state0
    in fst r = 2 \<and>
       delivered (snd r) = [(10, 100)] \<and>
       rx_dropped (snd r) 0 = 1 \<and>
       rx_data (rx_ring (snd r)) 0 = 20 \<and>
       rx_data (rx_ring rx_state0) 1 = 11 \<and>
       rx_data (rx_ring (snd r)) 1 = 11 \<and>
       rxd1 (rx_dma (rx_ring rx_state0) 1) = 0x2000 \<and>
       rxd1 (rx_dma (rx_ring (snd r)) 1) = 0x2000 \<and>
       RX_DMA_GET_ADDR64 rx_defs0 (rxd2 (rx_dma (rx_ring rx_state0) 1)) = 0 \<and>
       RX_DMA_GET_ADDR64 rx_defs0 (rxd2 (rx_dma (rx_ring (snd r)) 1)) = 0x100000000 \<and>
       rxd2 (rx_dma (rx_ring (snd r)) 1) = RX_DMA_PREP_PLEN0 rx_defs0 2048 OR 1)"
  by code_simp

end
